theory Spec2Isabelle
  imports Main
begin

section \<open>Strings\<close>

text \<open>
  A Python \<open>str\<close> is modelled as a \<open>string\<close> that holds the UTF-8 bytes of the
  text. All patterns, separators and dictionary keys of the program are compared
  by equality, by prefix or by substring, and UTF-8 is injective and
  self-synchronising, so these comparisons give the same answers on the bytes as on
  the code points. Chinese literals of the source are spelled out byte by byte.
\<close>

fun starts_with :: "string \<Rightarrow> string \<Rightarrow> bool" where
  "starts_with [] s = True"
| "starts_with (p # ps) [] = False"
| "starts_with (p # ps) (c # cs) = (p = c \<and> starts_with ps cs)"

text \<open>\<open>sub in s\<close> for two strings.\<close>

fun contains :: "string \<Rightarrow> string \<Rightarrow> bool" where
  "contains sub [] = (sub = [])"
| "contains sub (c # cs) = (starts_with sub (c # cs) \<or> contains sub cs)"

text \<open>
  \<open>s.split(sep)\<close> for a non-empty separator (every separator in the source is a
  non-empty literal). \<open>split_from sep k cur s\<close> scans \<open>s\<close>; \<open>cur\<close> is the piece
  collected so far, reversed; \<open>k\<close> counts the characters of a separator just found
  that are still to be skipped.
\<close>

fun split_from :: "string \<Rightarrow> nat \<Rightarrow> string \<Rightarrow> string \<Rightarrow> string list" where
  "split_from sep k cur [] = [rev cur]"
| "split_from sep (Suc k) cur (c # cs) = split_from sep k cur cs"
| "split_from sep 0 cur (c # cs) =
     (if starts_with sep (c # cs) then rev cur # split_from sep (length sep - 1) [] cs
      else split_from sep 0 (c # cur) cs)"

definition py_split :: "string \<Rightarrow> string \<Rightarrow> string list" where
  "py_split sep s = split_from sep 0 [] s"


section \<open>Python values and the world outside the program\<close>

text \<open>
  Exceptions of the Python run time and of the libraries. \<open>KeyError\<close> carries the
  key and \<open>RequestException\<close> the library's message.
\<close>

datatype exn =
    KeyError string
  | TypeError
  | ValueError
  | IndexError
  | AttributeError
  | NameError
  | FileNotFoundError
  | RequestException string

definition bindE :: "exn + 'a \<Rightarrow> ('a \<Rightarrow> exn + 'b) \<Rightarrow> exn + 'b" where
  "bindE m f = (case m of Inl e \<Rightarrow> Inl e | Inr x \<Rightarrow> f x)"

text \<open>
  A decoded JSON value. An object is the \<open>dict\<close> that \<open>json\<close> builds: an association
  list in insertion order, read with \<open>map_of\<close>. Numbers are not computed with
  anywhere, so integers stand for all of them.
\<close>

datatype json =
    JNull
  | JBool bool
  | JNum int
  | JStr string
  | JArr "json list"
  | JObj "(string \<times> json) list"

text \<open>
  A \<open>datetime\<close> built by \<open>strptime\<close>: its place on the time line (in microseconds)
  and the calendar fields that the program reads.
\<close>

record datetime =
  stamp :: int
  dt_month :: nat
  dt_day :: nat
  dt_hour :: nat

text \<open>
  What the program reaches through libraries and the operating system:
  \<^item> \<open>requests_get_json url\<close>: \<open>requests.get(url, timeout=10)\<close>, \<open>raise_for_status()\<close>
    and \<open>json()\<close>, the decoded payload or the exception raised on the way;
  \<^item> \<open>strptime s\<close>: \<open>datetime.strptime(s, '%Y-%m-%d %H:%M:%S')\<close>, \<open>None\<close> for
    \<open>ValueError\<close>; \<open>datetime_now\<close>: \<open>datetime.now()\<close> on the same time line;
  \<^item> \<open>json_repr v\<close>: the text an f-string gives a value that is not a string;
    \<open>exn_str e\<close>: the text of an exception;
  \<^item> \<open>str_lower\<close>: \<open>str.lower\<close>; \<open>partial_ratio\<close>, \<open>ratio\<close>: the two scores of
    \<open>fuzzywuzzy.fuzz\<close>;
  \<^item> \<open>unicode_digit s\<close>: the number of bytes of the decimal digit outside ASCII
    (Unicode category Nd, as the \<open>re\<close> module of the Python build has it) that \<open>s\<close>
    starts with, and 0 if it starts with none;
  \<^item> \<open>path_exists\<close>: \<open>os.path.exists\<close>; \<open>open_rb p\<close>: the bytes of the file, or
    the exception of \<open>open\<close>; \<open>b64encode\<close>: \<open>base64.b64encode(...).decode()\<close>.
\<close>

record world =
  requests_get_json :: "string \<Rightarrow> exn + json"
  strptime :: "string \<Rightarrow> datetime option"
  datetime_now :: int
  json_repr :: "json \<Rightarrow> string"
  exn_str :: "exn \<Rightarrow> string"
  str_lower :: "string \<Rightarrow> string"
  partial_ratio :: "string \<Rightarrow> string \<Rightarrow> int"
  ratio :: "string \<Rightarrow> string \<Rightarrow> int"
  unicode_digit :: "string \<Rightarrow> nat"
  path_exists :: "string \<Rightarrow> bool"
  open_rb :: "string \<Rightarrow> exn + string"
  b64encode :: "string \<Rightarrow> string"

text \<open>Decimal digits of a number, as an f-string prints it.\<close>

function decimal :: "nat \<Rightarrow> string" where
  "decimal n =
     (if n < 10 then [''0123456789'' ! n] else decimal (n div 10) @ [''0123456789'' ! (n mod 10)])"
  by pat_completeness auto
termination
  by (relation "measure id") auto

declare decimal.simps [simp del]

definition decimal_int :: "int \<Rightarrow> string" where
  "decimal_int i = (if i < 0 then ''-'' @ decimal (nat (- i)) else decimal (nat i))"

text \<open>A value inside an f-string: a string stands for itself.\<close>

definition py_format :: "world \<Rightarrow> json \<Rightarrow> string" where
  "py_format w v = (case v of JStr s \<Rightarrow> s | _ \<Rightarrow> json_repr w v)"

text \<open>Truth value of a JSON value (\<open>if x\<close>, \<open>not x\<close>).\<close>

definition truthy :: "json \<Rightarrow> bool" where
  "truthy v =
     (case v of
        JNull \<Rightarrow> False
      | JBool b \<Rightarrow> b
      | JNum n \<Rightarrow> n \<noteq> 0
      | JStr s \<Rightarrow> s \<noteq> []
      | JArr xs \<Rightarrow> xs \<noteq> []
      | JObj kvs \<Rightarrow> kvs \<noteq> [])"

text \<open>\<open>key in v\<close> for a string key.\<close>

definition py_in :: "string \<Rightarrow> json \<Rightarrow> exn + bool" where
  "py_in k v =
     (case v of
        JObj kvs \<Rightarrow> Inr (map_of kvs k \<noteq> None)
      | JArr xs \<Rightarrow> Inr (JStr k \<in> set xs)
      | JStr s \<Rightarrow> Inr (contains k s)
      | _ \<Rightarrow> Inl TypeError)"

text \<open>\<open>v[key]\<close> for a string key: only a dict takes one.\<close>

definition py_getitem :: "json \<Rightarrow> string \<Rightarrow> exn + json" where
  "py_getitem v k =
     (case v of
        JObj kvs \<Rightarrow> (case map_of kvs k of Some x \<Rightarrow> Inr x | None \<Rightarrow> Inl (KeyError k))
      | _ \<Rightarrow> Inl TypeError)"

text \<open>
  \<open>v[0]\<close>. The first element of a string is its first character; whatever is then
  done with it in this program raises \<open>TypeError\<close>, so one byte stands for it.
\<close>

definition py_first :: "json \<Rightarrow> exn + json" where
  "py_first v =
     (case v of
        JArr xs \<Rightarrow> (case xs of [] \<Rightarrow> Inl IndexError | x # _ \<Rightarrow> Inr x)
      | JStr s \<Rightarrow> (case s of [] \<Rightarrow> Inl IndexError | c # _ \<Rightarrow> Inr (JStr [c]))
      | JObj kvs \<Rightarrow> Inl (KeyError ''0'')
      | _ \<Rightarrow> Inl TypeError)"

text \<open>
  \<open>for x in v\<close>: the elements of a list, the keys of a dict, the characters of a
  string (here one element per byte; each is a string, and the program subscripts
  every element with a string key, which raises \<open>TypeError\<close> for a string).
\<close>

definition py_iter :: "json \<Rightarrow> exn + json list" where
  "py_iter v =
     (case v of
        JArr xs \<Rightarrow> Inr xs
      | JObj kvs \<Rightarrow> Inr (map (\<lambda>kv. JStr (fst kv)) kvs)
      | JStr s \<Rightarrow> Inr (map (\<lambda>c. JStr [c]) s)
      | _ \<Rightarrow> Inl TypeError)"

text \<open>\<open>v.get(key)\<close>: a method of dicts only.\<close>

definition py_get :: "json \<Rightarrow> string \<Rightarrow> exn + json" where
  "py_get v k =
     (case v of
        JObj kvs \<Rightarrow> Inr (case map_of kvs k of Some x \<Rightarrow> x | None \<Rightarrow> JNull)
      | _ \<Rightarrow> Inl AttributeError)"

text \<open>\<open>v + "%"\<close>: only a string can be added to a string.\<close>

definition py_add_str :: "json \<Rightarrow> string \<Rightarrow> exn + json" where
  "py_add_str v s = (case v of JStr t \<Rightarrow> Inr (JStr (t @ s)) | _ \<Rightarrow> Inl TypeError)"

text \<open>\<open>strptime(v, fmt)\<close> on a JSON value: the argument must be a string.\<close>

definition py_strptime :: "world \<Rightarrow> json \<Rightarrow> exn + datetime" where
  "py_strptime w v =
     (case v of
        JStr s \<Rightarrow> (case strptime w s of Some d \<Rightarrow> Inr d | None \<Rightarrow> Inl ValueError)
      | _ \<Rightarrow> Inl TypeError)"

section \<open>Constants\<close>

definition WEATHER_IMAGES_DIR :: string where
  "WEATHER_IMAGES_DIR = ''images''"

definition IMAGE_EXTENSIONS :: "string list" where
  "IMAGE_EXTENSIONS = [''png'', ''gif'', ''jpg'', ''jpeg'']"

subsection \<open>City names\<close>

text \<open>The official names of the counties and cities, as UTF-8 bytes.\<close>

definition Taipei_City :: string where
  \<comment> \<open>U+81FA U+5317 U+5E02\<close>
  "Taipei_City = [CHR 0xE8, CHR 0x87, CHR 0xBA, CHR 0xE5, CHR 0x8C, CHR 0x97, CHR 0xE5, CHR 0xB8, CHR 0x82]"

definition New_Taipei_City :: string where
  \<comment> \<open>U+65B0 U+5317 U+5E02\<close>
  "New_Taipei_City = [CHR 0xE6, CHR 0x96, CHR 0xB0, CHR 0xE5, CHR 0x8C, CHR 0x97, CHR 0xE5, CHR 0xB8, CHR 0x82]"

definition Taoyuan_City :: string where
  \<comment> \<open>U+6843 U+5712 U+5E02\<close>
  "Taoyuan_City = [CHR 0xE6, CHR 0xA1, CHR 0x83, CHR 0xE5, CHR 0x9C, CHR 0x92, CHR 0xE5, CHR 0xB8, CHR 0x82]"

definition Taichung_City :: string where
  \<comment> \<open>U+81FA U+4E2D U+5E02\<close>
  "Taichung_City = [CHR 0xE8, CHR 0x87, CHR 0xBA, CHR 0xE4, CHR 0xB8, CHR 0xAD, CHR 0xE5, CHR 0xB8, CHR 0x82]"

definition Tainan_City :: string where
  \<comment> \<open>U+81FA U+5357 U+5E02\<close>
  "Tainan_City = [CHR 0xE8, CHR 0x87, CHR 0xBA, CHR 0xE5, CHR 0x8D, CHR 0x97, CHR 0xE5, CHR 0xB8, CHR 0x82]"

definition Kaohsiung_City :: string where
  \<comment> \<open>U+9AD8 U+96C4 U+5E02\<close>
  "Kaohsiung_City = [CHR 0xE9, CHR 0xAB, CHR 0x98, CHR 0xE9, CHR 0x9B, CHR 0x84, CHR 0xE5, CHR 0xB8, CHR 0x82]"

definition Keelung_City :: string where
  \<comment> \<open>U+57FA U+9686 U+5E02\<close>
  "Keelung_City = [CHR 0xE5, CHR 0x9F, CHR 0xBA, CHR 0xE9, CHR 0x9A, CHR 0x86, CHR 0xE5, CHR 0xB8, CHR 0x82]"

definition Hsinchu_City :: string where
  \<comment> \<open>U+65B0 U+7AF9 U+5E02\<close>
  "Hsinchu_City = [CHR 0xE6, CHR 0x96, CHR 0xB0, CHR 0xE7, CHR 0xAB, CHR 0xB9, CHR 0xE5, CHR 0xB8, CHR 0x82]"

definition Chiayi_City :: string where
  \<comment> \<open>U+5609 U+7FA9 U+5E02\<close>
  "Chiayi_City = [CHR 0xE5, CHR 0x98, CHR 0x89, CHR 0xE7, CHR 0xBE, CHR 0xA9, CHR 0xE5, CHR 0xB8, CHR 0x82]"

definition Hsinchu_County :: string where
  \<comment> \<open>U+65B0 U+7AF9 U+7E23\<close>
  "Hsinchu_County = [CHR 0xE6, CHR 0x96, CHR 0xB0, CHR 0xE7, CHR 0xAB, CHR 0xB9, CHR 0xE7, CHR 0xB8, CHR 0xA3]"

definition Miaoli_County :: string where
  \<comment> \<open>U+82D7 U+6817 U+7E23\<close>
  "Miaoli_County = [CHR 0xE8, CHR 0x8B, CHR 0x97, CHR 0xE6, CHR 0xA0, CHR 0x97, CHR 0xE7, CHR 0xB8, CHR 0xA3]"

definition Changhua_County :: string where
  \<comment> \<open>U+5F70 U+5316 U+7E23\<close>
  "Changhua_County = [CHR 0xE5, CHR 0xBD, CHR 0xB0, CHR 0xE5, CHR 0x8C, CHR 0x96, CHR 0xE7, CHR 0xB8, CHR 0xA3]"

definition Nantou_County :: string where
  \<comment> \<open>U+5357 U+6295 U+7E23\<close>
  "Nantou_County = [CHR 0xE5, CHR 0x8D, CHR 0x97, CHR 0xE6, CHR 0x8A, CHR 0x95, CHR 0xE7, CHR 0xB8, CHR 0xA3]"

definition Yunlin_County :: string where
  \<comment> \<open>U+96F2 U+6797 U+7E23\<close>
  "Yunlin_County = [CHR 0xE9, CHR 0x9B, CHR 0xB2, CHR 0xE6, CHR 0x9E, CHR 0x97, CHR 0xE7, CHR 0xB8, CHR 0xA3]"

definition Chiayi_County :: string where
  \<comment> \<open>U+5609 U+7FA9 U+7E23\<close>
  "Chiayi_County = [CHR 0xE5, CHR 0x98, CHR 0x89, CHR 0xE7, CHR 0xBE, CHR 0xA9, CHR 0xE7, CHR 0xB8, CHR 0xA3]"

definition Pingtung_County :: string where
  \<comment> \<open>U+5C4F U+6771 U+7E23\<close>
  "Pingtung_County = [CHR 0xE5, CHR 0xB1, CHR 0x8F, CHR 0xE6, CHR 0x9D, CHR 0xB1, CHR 0xE7, CHR 0xB8, CHR 0xA3]"

definition Yilan_County :: string where
  \<comment> \<open>U+5B9C U+862D U+7E23\<close>
  "Yilan_County = [CHR 0xE5, CHR 0xAE, CHR 0x9C, CHR 0xE8, CHR 0x98, CHR 0xAD, CHR 0xE7, CHR 0xB8, CHR 0xA3]"

definition Hualien_County :: string where
  \<comment> \<open>U+82B1 U+84EE U+7E23\<close>
  "Hualien_County = [CHR 0xE8, CHR 0x8A, CHR 0xB1, CHR 0xE8, CHR 0x93, CHR 0xAE, CHR 0xE7, CHR 0xB8, CHR 0xA3]"

definition Taitung_County :: string where
  \<comment> \<open>U+81FA U+6771 U+7E23\<close>
  "Taitung_County = [CHR 0xE8, CHR 0x87, CHR 0xBA, CHR 0xE6, CHR 0x9D, CHR 0xB1, CHR 0xE7, CHR 0xB8, CHR 0xA3]"

definition Penghu_County :: string where
  \<comment> \<open>U+6F8E U+6E56 U+7E23\<close>
  "Penghu_County = [CHR 0xE6, CHR 0xBE, CHR 0x8E, CHR 0xE6, CHR 0xB9, CHR 0x96, CHR 0xE7, CHR 0xB8, CHR 0xA3]"

definition Kinmen_County :: string where
  \<comment> \<open>U+91D1 U+9580 U+7E23\<close>
  "Kinmen_County = [CHR 0xE9, CHR 0x87, CHR 0x91, CHR 0xE9, CHR 0x96, CHR 0x80, CHR 0xE7, CHR 0xB8, CHR 0xA3]"

definition Lienchiang_County :: string where
  \<comment> \<open>U+9023 U+6C5F U+7E23\<close>
  "Lienchiang_County = [CHR 0xE9, CHR 0x80, CHR 0xA3, CHR 0xE6, CHR 0xB1, CHR 0x9F, CHR 0xE7, CHR 0xB8, CHR 0xA3]"

definition Taitung_City :: string where
  \<comment> \<open>U+81FA U+6771 U+5E02\<close>
  "Taitung_City = [CHR 0xE8, CHR 0x87, CHR 0xBA, CHR 0xE6, CHR 0x9D, CHR 0xB1, CHR 0xE5, CHR 0xB8, CHR 0x82]"

subsection \<open>Texts shown to the user\<close>

definition t_cannot_get :: string where
  \<comment> \<open>lines 149, 162, 234, 237, 512, 515: ''cannot get ''\<close>
  "t_cannot_get = [CHR 0xE7, CHR 0x84, CHR 0xA1, CHR 0xE6, CHR 0xB3, CHR 0x95, CHR 0xE5,
     CHR 0x8F, CHR 0x96, CHR 0xE5, CHR 0xBE, CHR 0x97] @ '' ''"

definition t_missing_wx :: string where
  \<comment> \<open>line 149: '' weather data: the Wx element is missing.''\<close>
  "t_missing_wx = '' '' @ [CHR 0xE5, CHR 0xA4, CHR 0xA9, CHR 0xE6, CHR 0xB0, CHR 0xA3, CHR 0xE8,
     CHR 0xB3, CHR 0x87, CHR 0xE6, CHR 0x96, CHR 0x99, CHR 0xEF, CHR 0xBC, CHR 0x9A, CHR 0xE7,
     CHR 0xBC, CHR 0xBA, CHR 0xE5, CHR 0xB0, CHR 0x91] @ '' Wx '' @ [CHR 0xE5, CHR 0x85,
     CHR 0x83, CHR 0xE7, CHR 0xB4, CHR 0xA0, CHR 0xE3, CHR 0x80, CHR 0x82]"

definition t_invalid_times :: string where
  \<comment> \<open>line 162: '' weather data: the forecast times are invalid.''\<close>
  "t_invalid_times = '' '' @ [CHR 0xE5, CHR 0xA4, CHR 0xA9, CHR 0xE6, CHR 0xB0, CHR 0xA3,
     CHR 0xE8, CHR 0xB3, CHR 0x87, CHR 0xE6, CHR 0x96, CHR 0x99, CHR 0xEF, CHR 0xBC, CHR 0x9A,
     CHR 0xE9, CHR 0xA0, CHR 0x90, CHR 0xE5, CHR 0xA0, CHR 0xB1, CHR 0xE6, CHR 0x99, CHR 0x82,
     CHR 0xE9, CHR 0x96, CHR 0x93, CHR 0xE6, CHR 0x95, CHR 0xB8, CHR 0xE6, CHR 0x93, CHR 0x9A,
     CHR 0xE7, CHR 0x84, CHR 0xA1, CHR 0xE6, CHR 0x95, CHR 0x88, CHR 0xE3, CHR 0x80, CHR 0x82]"

definition t_midnight_to_morning :: string where
  \<comment> \<open>line 171\<close>
  "t_midnight_to_morning = [CHR 0xE5, CHR 0x8D, CHR 0x88, CHR 0xE5, CHR 0xA4, CHR 0x9C, CHR 0xE5,
     CHR 0x88, CHR 0xB0, CHR 0xE6, CHR 0x97, CHR 0xA9, CHR 0xE6, CHR 0x99, CHR 0xA8]"

definition t_morning_to_noon :: string where
  \<comment> \<open>line 171\<close>
  "t_morning_to_noon = [CHR 0xE6, CHR 0x97, CHR 0xA9, CHR 0xE6, CHR 0x99, CHR 0xA8, CHR 0xE5,
     CHR 0x88, CHR 0xB0, CHR 0xE4, CHR 0xB8, CHR 0xAD, CHR 0xE5, CHR 0x8D, CHR 0x88]"

definition t_noon_to_evening :: string where
  \<comment> \<open>line 171\<close>
  "t_noon_to_evening = [CHR 0xE4, CHR 0xB8, CHR 0xAD, CHR 0xE5, CHR 0x8D, CHR 0x88, CHR 0xE5,
     CHR 0x88, CHR 0xB0, CHR 0xE5, CHR 0x82, CHR 0x8D, CHR 0xE6, CHR 0x99, CHR 0x9A]"

definition t_evening_to_midnight :: string where
  \<comment> \<open>line 171\<close>
  "t_evening_to_midnight = [CHR 0xE5, CHR 0x82, CHR 0x8D, CHR 0xE6, CHR 0x99, CHR 0x9A, CHR 0xE5,
     CHR 0x88, CHR 0xB0, CHR 0xE5, CHR 0x8D, CHR 0x88, CHR 0xE5, CHR 0xA4, CHR 0x9C]"

definition t_is :: string where
  \<comment> \<open>line 221\<close>
  "t_is = [CHR 0xE6, CHR 0x98, CHR 0xAF, CHR 0xEF, CHR 0xBC, CHR 0x9A] @ ''**''"

definition t_temp_between :: string where
  \<comment> \<open>line 222\<close>
  "t_temp_between = ''**'' @ [CHR 0xEF, CHR 0xBC, CHR 0x8C, CHR 0xE6, CHR 0xB0, CHR 0xA3,
     CHR 0xE6, CHR 0xBA, CHR 0xAB, CHR 0xE4, CHR 0xBB, CHR 0x8B, CHR 0xE6, CHR 0x96,
     CHR 0xBC] @ '' **''"

definition t_deg_to :: string where
  \<comment> \<open>line 222\<close>
  "t_deg_to = [CHR 0xC2, CHR 0xB0] @ ''C** '' @ [CHR 0xE5, CHR 0x88, CHR 0xB0] @ '' **''"

definition t_deg_rain :: string where
  \<comment> \<open>line 222\<close>
  "t_deg_rain = [CHR 0xC2, CHR 0xB0] @ ''C**'' @ [CHR 0xEF, CHR 0xBC, CHR 0x8C, CHR 0xE9,
     CHR 0x99, CHR 0x8D, CHR 0xE9, CHR 0x9B, CHR 0xA8, CHR 0xE6, CHR 0xA9, CHR 0x9F, CHR 0xE7,
     CHR 0x8E, CHR 0x87] @ '' **''"

definition t_oh :: string where
  \<comment> \<open>line 222\<close>
  "t_oh = ''** '' @ [CHR 0xE5, CHR 0x96, CHR 0x94, CHR 0xEF, CHR 0xBC, CHR 0x81]"

definition t_bad_structure :: string where
  \<comment> \<open>line 234: '' weather data: malformed data or no forecast for this city.''\<close>
  "t_bad_structure = '' '' @ [CHR 0xE5, CHR 0xA4, CHR 0xA9, CHR 0xE6, CHR 0xB0, CHR 0xA3,
     CHR 0xE8, CHR 0xB3, CHR 0x87, CHR 0xE6, CHR 0x96, CHR 0x99, CHR 0xEF, CHR 0xBC, CHR 0x9A,
     CHR 0xE8, CHR 0xB3, CHR 0x87, CHR 0xE6, CHR 0x96, CHR 0x99, CHR 0xE7, CHR 0xB5, CHR 0x90,
     CHR 0xE6, CHR 0xA7, CHR 0x8B, CHR 0xE7, CHR 0x95, CHR 0xB0, CHR 0xE5, CHR 0xB8, CHR 0xB8,
     CHR 0xE6, CHR 0x88, CHR 0x96, CHR 0xE8, CHR 0xA9, CHR 0xB2, CHR 0xE7, CHR 0xB8, CHR 0xA3,
     CHR 0xE5, CHR 0xB8, CHR 0x82, CHR 0xE7, CHR 0x84, CHR 0xA1, CHR 0xE9, CHR 0xA0, CHR 0x90,
     CHR 0xE5, CHR 0xA0, CHR 0xB1, CHR 0xE8, CHR 0xB3, CHR 0x87, CHR 0xE6, CHR 0x96, CHR 0x99,
     CHR 0xE3, CHR 0x80, CHR 0x82]"

definition t_network_error :: string where
  \<comment> \<open>line 237\<close>
  "t_network_error = '' '' @ [CHR 0xE5, CHR 0xA4, CHR 0xA9, CHR 0xE6, CHR 0xB0, CHR 0xA3,
     CHR 0xE8, CHR 0xB3, CHR 0x87, CHR 0xE6, CHR 0x96, CHR 0x99, CHR 0xEF, CHR 0xBC, CHR 0x9A,
     CHR 0xE7, CHR 0xB6, CHR 0xB2, CHR 0xE8, CHR 0xB7, CHR 0xAF, CHR 0xE6, CHR 0x88,
     CHR 0x96] @ '' API '' @ [CHR 0xE9, CHR 0x8C, CHR 0xAF, CHR 0xE8, CHR 0xAA, CHR 0xA4] @
     '' (''"

definition t_check_key :: string where
  \<comment> \<open>line 237\<close>
  "t_check_key = '')'' @ [CHR 0xE3, CHR 0x80, CHR 0x82, CHR 0xE8, CHR 0xAB, CHR 0x8B, CHR 0xE6,
     CHR 0xAA, CHR 0xA2, CHR 0xE6, CHR 0x9F, CHR 0xA5, CHR 0xE6, CHR 0x82, CHR 0xA8, CHR 0xE7,
     CHR 0x9A, CHR 0x84] @ '' API '' @ [CHR 0xE9, CHR 0x87, CHR 0x91, CHR 0xE9, CHR 0x91,
     CHR 0xB0, CHR 0xE6, CHR 0x98, CHR 0xAF, CHR 0xE5, CHR 0x90, CHR 0xA6, CHR 0xE6, CHR 0x9C,
     CHR 0x89, CHR 0xE6, CHR 0x95, CHR 0x88, CHR 0xE3, CHR 0x80, CHR 0x82]"

definition t_processing :: string where
  \<comment> \<open>line 239\<close>
  "t_processing = [CHR 0xE8, CHR 0x99, CHR 0x95, CHR 0xE7, CHR 0x90, CHR 0x86] @ '' ''"

definition t_error_while :: string where
  \<comment> \<open>line 239\<close>
  "t_error_while = '' '' @ [CHR 0xE5, CHR 0xA4, CHR 0xA9, CHR 0xE6, CHR 0xB0, CHR 0xA3, CHR 0xE8,
     CHR 0xB3, CHR 0x87, CHR 0xE6, CHR 0x96, CHR 0x99, CHR 0xE6, CHR 0x99, CHR 0x82, CHR 0xE7,
     CHR 0x99, CHR 0xBC, CHR 0xE7, CHR 0x94, CHR 0x9F, CHR 0xE9, CHR 0x8C, CHR 0xAF, CHR 0xE8,
     CHR 0xAA, CHR 0xA4] @ '': ''"

definition t_music_list_empty :: string where
  \<comment> \<open>line 335: ''the music list is empty''\<close>
  "t_music_list_empty = [CHR 0xE9, CHR 0x9F, CHR 0xB3, CHR 0xE6, CHR 0xA8, CHR 0x82, CHR 0xE5,
     CHR 0x88, CHR 0x97, CHR 0xE8, CHR 0xA1, CHR 0xA8, CHR 0xE7, CHR 0x82, CHR 0xBA, CHR 0xE7,
     CHR 0xA9, CHR 0xBA, CHR 0xEF, CHR 0xBC, CHR 0x8C, CHR 0xE7, CHR 0x84, CHR 0xA1, CHR 0xE6,
     CHR 0xB3, CHR 0x95, CHR 0xE6, CHR 0x8E, CHR 0xA8, CHR 0xE8, CHR 0x96, CHR 0xA6, CHR 0xE9,
     CHR 0x9F, CHR 0xB3, CHR 0xE6, CHR 0xA8, CHR 0x82, CHR 0xE3, CHR 0x80, CHR 0x82]"

definition t_no_music_available :: string where
  \<comment> \<open>lines 345, 384: ''no music left to recommend''\<close>
  "t_no_music_available = [CHR 0xE6, CHR 0xB2, CHR 0x92, CHR 0xE6, CHR 0x9C, CHR 0x89, CHR 0xE5,
     CHR 0x8F, CHR 0xAF, CHR 0xE7, CHR 0x94, CHR 0xA8, CHR 0xE7, CHR 0x9A, CHR 0x84, CHR 0xE9,
     CHR 0x9F, CHR 0xB3, CHR 0xE6, CHR 0xA8, CHR 0x82, CHR 0xE5, CHR 0x8F, CHR 0xAF, CHR 0xE4,
     CHR 0xBB, CHR 0xA5, CHR 0xE9, CHR 0x9A, CHR 0xA8, CHR 0xE6, CHR 0xA9, CHR 0x9F, CHR 0xE6,
     CHR 0x8E, CHR 0xA8, CHR 0xE8, CHR 0x96, CHR 0xA6, CHR 0xE4, CHR 0xBA, CHR 0x86, CHR 0xE3,
     CHR 0x80, CHR 0x82]"

definition t_listen_to_this :: string where
  \<comment> \<open>line 364: ''in this weather, listen to this one''\<close>
  "t_listen_to_this = [CHR 0xE9, CHR 0x80, CHR 0x99, CHR 0xE6, CHR 0xA8, CHR 0xA3, CHR 0xE7,
     CHR 0x9A, CHR 0x84, CHR 0xE5, CHR 0xA4, CHR 0xA9, CHR 0xE6, CHR 0xB0, CHR 0xA3, CHR 0xE4,
     CHR 0xBE, CHR 0x86, CHR 0xE8, CHR 0x81, CHR 0xBD, CHR 0xE9, CHR 0x80, CHR 0x99, CHR 0xE9,
     CHR 0xA6, CHR 0x96, CHR 0xE7, CHR 0x99, CHR 0x82, CHR 0xE7, CHR 0x99, CHR 0x92, CHR 0xE4,
     CHR 0xB8, CHR 0x80, CHR 0xE4, CHR 0xB8, CHR 0x8B, CHR 0xE5, CHR 0x90, CHR 0xA7, CHR 0xEF,
     CHR 0xBC, CHR 0x81]"

definition t_sorry_no_id :: string where
  \<comment> \<open>line 369: ''(sorry, no video id in the link)''\<close>
  "t_sorry_no_id = [CHR 0x0A] @ ''('' @ [CHR 0xE6, CHR 0x8A, CHR 0xB1, CHR 0xE6, CHR 0xAD,
     CHR 0x89, CHR 0xEF, CHR 0xBC, CHR 0x8C, CHR 0xE7, CHR 0x84, CHR 0xA1, CHR 0xE6, CHR 0xB3,
     CHR 0x95, CHR 0xE5, CHR 0xBE, CHR 0x9E, CHR 0xE9, CHR 0x80, CHR 0xA3, CHR 0xE7, CHR 0xB5,
     CHR 0x90, CHR 0xE4, CHR 0xB8, CHR 0xAD, CHR 0xE6, CHR 0x8F, CHR 0x90, CHR 0xE5, CHR 0x8F,
     CHR 0x96, CHR 0xE5, CHR 0xBD, CHR 0xB1, CHR 0xE7, CHR 0x89, CHR 0x87] @ ''ID'' @
     [CHR 0xE3, CHR 0x80, CHR 0x82] @ '')''"

definition t_music_list_empty_random :: string where
  \<comment> \<open>line 377\<close>
  "t_music_list_empty_random = [CHR 0xE9, CHR 0x9F, CHR 0xB3, CHR 0xE6, CHR 0xA8, CHR 0x82,
     CHR 0xE5, CHR 0x88, CHR 0x97, CHR 0xE8, CHR 0xA1, CHR 0xA8, CHR 0xE7, CHR 0x82, CHR 0xBA,
     CHR 0xE7, CHR 0xA9, CHR 0xBA, CHR 0xEF, CHR 0xBC, CHR 0x8C, CHR 0xE7, CHR 0x84, CHR 0xA1,
     CHR 0xE6, CHR 0xB3, CHR 0x95, CHR 0xE9, CHR 0x9A, CHR 0xA8, CHR 0xE6, CHR 0xA9, CHR 0x9F,
     CHR 0xE6, CHR 0x8E, CHR 0xA8, CHR 0xE8, CHR 0x96, CHR 0xA6, CHR 0xE9, CHR 0x9F, CHR 0xB3,
     CHR 0xE6, CHR 0xA8, CHR 0x82, CHR 0xE3, CHR 0x80, CHR 0x82]"

definition t_random_song :: string where
  \<comment> \<open>line 391: ''a random song for you:''\<close>
  "t_random_song = [CHR 0xE5, CHR 0xB7, CHR 0xB2, CHR 0xE7, CHR 0x82, CHR 0xBA, CHR 0xE6,
     CHR 0x82, CHR 0xA8, CHR 0xE9, CHR 0x9A, CHR 0xA8, CHR 0xE6, CHR 0xA9, CHR 0x9F, CHR 0xE6,
     CHR 0x8E, CHR 0xA8, CHR 0xE8, CHR 0x96, CHR 0xA6, CHR 0xE6, CHR 0xAD, CHR 0x8C, CHR 0xE6,
     CHR 0x9B, CHR 0xB2, CHR 0xEF, CHR 0xBC, CHR 0x9A]"

definition t_no_id_retry :: string where
  \<comment> \<open>line 394: ''no video id in the link, click again''\<close>
  "t_no_id_retry = [CHR 0xE7, CHR 0x84, CHR 0xA1, CHR 0xE6, CHR 0xB3, CHR 0x95, CHR 0xE5,
     CHR 0xBE, CHR 0x9E, CHR 0xE9, CHR 0x80, CHR 0xA3, CHR 0xE7, CHR 0xB5, CHR 0x90, CHR 0xE4,
     CHR 0xB8, CHR 0xAD, CHR 0xE6, CHR 0x8F, CHR 0x90, CHR 0xE5, CHR 0x8F, CHR 0x96, CHR 0xE5,
     CHR 0xBD, CHR 0xB1, CHR 0xE7, CHR 0x89, CHR 0x87] @ ''ID'' @ [CHR 0xE3, CHR 0x80,
     CHR 0x82, CHR 0xE8, CHR 0xAB, CHR 0x8B, CHR 0xE9, CHR 0x87, CHR 0x8D, CHR 0xE6, CHR 0x96,
     CHR 0xB0, CHR 0xE9, CHR 0xBB, CHR 0x9E, CHR 0xE9, CHR 0x81, CHR 0xB8, CHR 0xE3, CHR 0x80,
     CHR 0x82]"

definition t_movie_list_empty :: string where
  \<comment> \<open>line 400: ''the movie list is empty''\<close>
  "t_movie_list_empty = [CHR 0xE9, CHR 0x9B, CHR 0xBB, CHR 0xE5, CHR 0xBD, CHR 0xB1, CHR 0xE5,
     CHR 0x88, CHR 0x97, CHR 0xE8, CHR 0xA1, CHR 0xA8, CHR 0xE7, CHR 0x82, CHR 0xBA, CHR 0xE7,
     CHR 0xA9, CHR 0xBA, CHR 0xEF, CHR 0xBC, CHR 0x8C, CHR 0xE7, CHR 0x84, CHR 0xA1, CHR 0xE6,
     CHR 0xB3, CHR 0x95, CHR 0xE9, CHR 0x9A, CHR 0xA8, CHR 0xE6, CHR 0xA9, CHR 0x9F, CHR 0xE6,
     CHR 0x8E, CHR 0xA8, CHR 0xE8, CHR 0x96, CHR 0xA6, CHR 0xE9, CHR 0x9B, CHR 0xBB, CHR 0xE5,
     CHR 0xBD, CHR 0xB1, CHR 0xE3, CHR 0x80, CHR 0x82]"

definition t_enter_city :: string where
  \<comment> \<open>line 452: ''enter a city name or a weather keyword''\<close>
  "t_enter_city = [CHR 0xE8, CHR 0xAB, CHR 0x8B, CHR 0xE8, CHR 0xBC, CHR 0xB8, CHR 0xE5,
     CHR 0x85, CHR 0xA5, CHR 0xE7, CHR 0xB8, CHR 0xA3, CHR 0xE5, CHR 0xB8, CHR 0x82, CHR 0xE5,
     CHR 0x90, CHR 0x8D, CHR 0xE7, CHR 0xA8, CHR 0xB1, CHR 0xE6, CHR 0x88, CHR 0x96, CHR 0xE5,
     CHR 0xA4, CHR 0xA9, CHR 0xE6, CHR 0xB0, CHR 0xA3, CHR 0xE9, CHR 0x97, CHR 0x9C, CHR 0xE9,
     CHR 0x8D, CHR 0xB5, CHR 0xE5, CHR 0xAD, CHR 0x97, CHR 0xEF, CHR 0xBC, CHR 0x81]"

definition t_weather_colon :: string where
  \<comment> \<open>lines 495, 498: ''weather: ''\<close>
  "t_weather_colon = [CHR 0xE5, CHR 0xA4, CHR 0xA9, CHR 0xE6, CHR 0xB0, CHR 0xA3, CHR 0xEF,
     CHR 0xBC, CHR 0x9A]"

definition t_no_image :: string where
  \<comment> \<open>line 495: '' (no image)''\<close>
  "t_no_image = '' ('' @ [CHR 0xE7, CHR 0x84, CHR 0xA1, CHR 0xE5, CHR 0x9C, CHR 0x96, CHR 0xE7,
     CHR 0x89, CHR 0x87, CHR 0xE5, CHR 0x8F, CHR 0xAF, CHR 0xE7, CHR 0x94, CHR 0xA8] @ '')''"

definition t_no_code_or_image :: string where
  \<comment> \<open>line 498: '' (no matching code or image)''\<close>
  "t_no_code_or_image = '' ('' @ [CHR 0xE7, CHR 0x84, CHR 0xA1, CHR 0xE5, CHR 0x8C, CHR 0xB9,
     CHR 0xE9, CHR 0x85, CHR 0x8D, CHR 0xE4, CHR 0xBB, CHR 0xA3, CHR 0xE7, CHR 0xA2, CHR 0xBC,
     CHR 0xE6, CHR 0x88, CHR 0x96, CHR 0xE5, CHR 0x9C, CHR 0x96, CHR 0xE7, CHR 0x89, CHR 0x87,
     CHR 0xE5, CHR 0x8F, CHR 0xAF, CHR 0xE7, CHR 0x94, CHR 0xA8] @ '')''"

definition t_sorry_cannot_get :: string where
  \<comment> \<open>line 507\<close>
  "t_sorry_cannot_get = [CHR 0xE6, CHR 0x8A, CHR 0xB1, CHR 0xE6, CHR 0xAD, CHR 0x89, CHR 0xEF,
     CHR 0xBC, CHR 0x8C, CHR 0xE7, CHR 0x84, CHR 0xA1, CHR 0xE6, CHR 0xB3, CHR 0x95, CHR 0xE7,
     CHR 0x8D, CHR 0xB2, CHR 0xE5, CHR 0x8F, CHR 0x96] @ '' **''"

definition t_check_input :: string where
  \<comment> \<open>line 507\<close>
  "t_check_input = ''** '' @ [CHR 0xE7, CHR 0x9A, CHR 0x84, CHR 0xE5, CHR 0xA4, CHR 0xA9,
     CHR 0xE6, CHR 0xB0, CHR 0xA3, CHR 0xE8, CHR 0xB3, CHR 0x87, CHR 0xE6, CHR 0x96, CHR 0x99,
     CHR 0xE3, CHR 0x80, CHR 0x82, CHR 0xE8, CHR 0xAB, CHR 0x8B, CHR 0xE6, CHR 0xAA, CHR 0xA2,
     CHR 0xE6, CHR 0x9F, CHR 0xA5, CHR 0xE8, CHR 0xBC, CHR 0xB8, CHR 0xE5, CHR 0x85, CHR 0xA5,
     CHR 0xE6, CHR 0x88, CHR 0x96, CHR 0xE7, CHR 0xA8, CHR 0x8D, CHR 0xE5, CHR 0xBE, CHR 0x8C,
     CHR 0xE5, CHR 0x86, CHR 0x8D, CHR 0xE8, CHR 0xA9, CHR 0xA6, CHR 0xE3, CHR 0x80, CHR 0x82]"

definition t_weather_data :: string where
  \<comment> \<open>line 512\<close>
  "t_weather_data = '' '' @ [CHR 0xE5, CHR 0xA4, CHR 0xA9, CHR 0xE6, CHR 0xB0, CHR 0xA3,
     CHR 0xE8, CHR 0xB3, CHR 0x87, CHR 0xE6, CHR 0x96, CHR 0x99]"

definition t_weather_data_no_image :: string where
  \<comment> \<open>line 515\<close>
  "t_weather_data_no_image = '' '' @ [CHR 0xE5, CHR 0xA4, CHR 0xA9, CHR 0xE6, CHR 0xB0, CHR 0xA3,
     CHR 0xE8, CHR 0xB3, CHR 0x87, CHR 0xE6, CHR 0x96, CHR 0x99] @ '' ('' @ [CHR 0xE7,
     CHR 0x84, CHR 0xA1, CHR 0xE5, CHR 0x9C, CHR 0x96, CHR 0xE7, CHR 0x89, CHR 0x87, CHR 0xE5,
     CHR 0x8F, CHR 0xAF, CHR 0xE7, CHR 0x94, CHR 0xA8] @ '')''"

definition t_img_alt :: string where
  \<comment> \<open>line 96\<close>
  "t_img_alt = [CHR 0x22] @ '' alt='' @ [CHR 0x22, CHR 0xE5, CHR 0x9C, CHR 0x96, CHR 0xE7,
     CHR 0x89, CHR 0x87, CHR 0x22] @ '' style='' @ [CHR 0x22]"

definition default_location_names :: "string list" where
  "default_location_names =
    [Taipei_City, New_Taipei_City, Taoyuan_City, Taichung_City, Tainan_City, Kaohsiung_City,
     Keelung_City, Hsinchu_City, Chiayi_City, Hsinchu_County, Miaoli_County, Changhua_County,
     Nantou_County, Yunlin_County, Chiayi_County, Pingtung_County, Yilan_County,
     Hualien_County, Taitung_County, Penghu_County, Kinmen_County, Lienchiang_County]"

section \<open>set_background\<close>

text \<open>
  \<open>open(image_file, "rb")\<close> is not inside any \<open>try\<close>: its exception leaves the
  function. The result is the style sheet handed to \<open>st.markdown\<close>.
\<close>

definition set_background :: "world \<Rightarrow> string \<Rightarrow> exn + string" where
  "set_background w image_file =
     bindE (open_rb w image_file) (\<lambda>bytes.
       Inr (''<style>.stApp {background-image: url(data:image/jpg;base64,'' @ b64encode w bytes
            @ ''); background-size: cover; background-repeat: no-repeat; background-attachment: fixed;}</style>''))"

section \<open>extract_youtube_id\<close>

text \<open>The character class \<open>[a-zA-Z0-9_-]\<close>, and the ASCII digits.\<close>

definition id_char :: "char \<Rightarrow> bool" where
  "id_char c = (c \<in> set ''abcdefghijklmnopqrstuvwxyzABCDEFGHIJKLMNOPQRSTUVWXYZ0123456789_-'')"

definition digit_char :: "char \<Rightarrow> bool" where
  "digit_char c = (c \<in> set ''0123456789'')"

text \<open>
  \<open>re.search\<close>: the pattern is tried at every position from the left, the end of
  the string included, and the first position where it matches wins.
\<close>

fun re_search :: "(string \<Rightarrow> 'a option) \<Rightarrow> string \<Rightarrow> 'a option" where
  "re_search m [] = m []"
| "re_search m (c # cs) = (case m (c # cs) of Some g \<Rightarrow> Some g | None \<Rightarrow> re_search m cs)"

fun first_some :: "('a \<Rightarrow> 'b option) \<Rightarrow> 'a list \<Rightarrow> 'b option" where
  "first_some f [] = None"
| "first_some f (x # xs) = (case f x of Some y \<Rightarrow> Some y | None \<Rightarrow> first_some f xs)"

text \<open>
  The pattern \<open>(?:v=|youtu\.be/|embed/|live/)([a-zA-Z0-9_-]{11})\<close> at one position:
  the alternatives in their order, each followed by exactly eleven identifier
  characters, which are the group.
\<close>

definition id_prefixes :: "string list" where
  "id_prefixes = [''v='', ''youtu.be/'', ''embed/'', ''live/'']"

definition match_id_at :: "string \<Rightarrow> string option" where
  "match_id_at s =
     first_some
       (\<lambda>p. let r = drop (length p) s in
            if starts_with p s \<and> 11 \<le> length r \<and> list_all id_char (take 11 r)
            then Some (take 11 r) else None)
       id_prefixes"

text \<open>
  \<open>\d\<close> in a \<open>str\<close> pattern matches every Unicode decimal digit. On the UTF-8
  bytes an ASCII digit is one byte, and a digit outside ASCII is a sequence of
  bytes that begins with a byte from 0x80 on; which sequences are digits is told
  by \<open>unicode_digit\<close>. \<open>digit_run\<close> cuts the longest run of digits off the front
  of a string: the digits, each with its bytes, and the rest.
\<close>

definition is_ascii :: "char \<Rightarrow> bool" where
  "is_ascii c = (\<not> digit7 c)"

function digit_run :: "world \<Rightarrow> string \<Rightarrow> string list \<times> string" where
  "digit_run w [] = ([], [])"
| "digit_run w (c # cs) =
     (if digit_char c then (case digit_run w cs of (ts, r) \<Rightarrow> ([c] # ts, r))
      else if is_ascii c \<or> unicode_digit w (c # cs) = 0 then ([], c # cs)
      else (case digit_run w (drop (unicode_digit w (c # cs)) (c # cs)) of
              (ts, r) \<Rightarrow> (take (unicode_digit w (c # cs)) (c # cs) # ts, r)))"
  by pat_completeness auto
termination
  by (relation "measure (\<lambda>p. length (snd p))") auto

declare digit_run.simps [simp del]

text \<open>
  The pattern \<open>googleusercontent\.com/youtube\.com/\d+([a-zA-Z0-9_-]+)\<close> at one
  position. \<open>\d+\<close> is greedy and takes the whole run of digits. When an identifier
  character follows the run, the group is the run of identifier characters from
  there. Otherwise the matcher backtracks: \<open>\d+\<close> gives digits back from its end,
  keeping the first, until the group can begin, which it can at an ASCII digit
  only; the group is then that single digit, since what follows it is a digit
  outside ASCII or the character that stopped the run.
\<close>

definition match_usercontent_at :: "world \<Rightarrow> string \<Rightarrow> string option" where
  "match_usercontent_at w s =
     (let lit = ''googleusercontent.com/youtube.com/'' in
      if starts_with lit s then
        (case digit_run w (drop (length lit) s) of
           (ts, rest) \<Rightarrow>
             (let g = takeWhile id_char rest
              in if ts = [] then None
                 else if g \<noteq> [] then Some g
                 else first_some (\<lambda>t. if list_all digit_char t then Some t else None) (rev (tl ts))))
      else None)"

text \<open>
  The function itself. In the three fall-back branches the index \<open>[1]\<close> is in range
  because the branch condition says that the separator occurs (lemma
  \<open>split_has_second\<close> below), and \<open>[0]\<close> is the head of a list that \<open>split\<close> never
  returns empty.
\<close>

definition extract_youtube_id :: "world \<Rightarrow> string \<Rightarrow> string option" where
  "extract_youtube_id w u =
     (case re_search match_id_at u of
        Some g \<Rightarrow> Some g
      | None \<Rightarrow>
        (case re_search (match_usercontent_at w) u of
           Some g \<Rightarrow> Some g
         | None \<Rightarrow>
           if contains ''youtube.com/watch?v='' u then
             Some (hd (py_split ''&'' (py_split ''v='' u ! 1)))
           else if contains ''youtu.be/'' u then
             (let parts = py_split ''youtu.be/'' u in
              if 1 < length parts then Some (hd (py_split ''?'' (parts ! 1))) else None)
           else if contains ''googleusercontent.com/youtube.com/1'' u then
             (let parts = py_split ''googleusercontent.com/youtube.com/1'' u in
              if 1 < length parts then Some (hd (py_split ''?'' (parts ! 1))) else None)
           else None))"

section \<open>load_local_image_as_base64\<close>

text \<open>
  The call in the program passes \<open>width\<close> and never \<open>height\<close>. Every exception
  between \<open>open\<close> and the \<open>return\<close> is caught and gives \<open>None\<close>.
\<close>

definition load_local_image_as_base64 :: "world \<Rightarrow> string \<Rightarrow> nat option \<Rightarrow> string option" where
  "load_local_image_as_base64 w image_path width =
     (if image_path = [] \<or> \<not> path_exists w image_path then None
      else
        (let file_extension = str_lower w (last (py_split ''.'' image_path)) in
         case open_rb w image_path of
           Inl e \<Rightarrow> None
         | Inr contents \<Rightarrow>
             (let data_url = b64encode w contents;
                  style_str = (case width of
                                 None \<Rightarrow> []
                               | Some n \<Rightarrow> if n = 0 then [] else ''width: '' @ decimal n @ ''px;'');
                  mime_type = ''image/'' @ (if file_extension = ''jpg'' then ''jpeg'' else file_extension)
              in Some (''<img src='' @ [CHR 0x22] @ ''data:'' @ mime_type @ '';base64,'' @ data_url
                       @ t_img_alt @ style_str @ [CHR 0x22] @ ''>''))))"

section \<open>get_image_path_or_default\<close>

text \<open>\<open>os.path.join\<close> of two components (POSIX).\<close>

definition path_join :: "string \<Rightarrow> string \<Rightarrow> string" where
  "path_join a b =
     (if starts_with ''/'' b then b
      else if a = [] \<or> last a = CHR ''/'' then a @ b
      else a @ ''/'' @ b)"

text \<open>
  A category code of the CSV table: pandas reads the column as integers or as
  strings. \<open>code_str\<close> is the code inside an f-string, \<open>code_truthy\<close> its truth value.
\<close>

datatype code = CodeInt int | CodeStr string

definition code_str :: "code \<Rightarrow> string" where
  "code_str c = (case c of CodeInt i \<Rightarrow> decimal_int i | CodeStr s \<Rightarrow> s)"

definition code_truthy :: "code \<Rightarrow> bool" where
  "code_truthy c = (case c of CodeInt i \<Rightarrow> i \<noteq> 0 | CodeStr s \<Rightarrow> s \<noteq> [])"

text \<open>The two loops of the function: the first extension whose path exists.\<close>

definition first_existing :: "world \<Rightarrow> string \<Rightarrow> string \<Rightarrow> string option" where
  "first_existing w base_dir name =
     first_some
       (\<lambda>ext. let p = path_join base_dir (name @ ''.'' @ ext) in
              if path_exists w p then Some p else None)
       IMAGE_EXTENSIONS"

definition get_image_path_or_default :: "world \<Rightarrow> string \<Rightarrow> code \<Rightarrow> string option" where
  "get_image_path_or_default w base_dir c =
     (case first_existing w base_dir (code_str c) of
        Some specific_path \<Rightarrow> Some specific_path
      | None \<Rightarrow> first_existing w base_dir ''default'')"

section \<open>The API key and get_location_names\<close>

text \<open>
  Lines 12 to 15: \<open>API_KEY = st.secrets["API_KEY"]\<close>, with \<open>KeyError\<close> caught and
  reported. After the handler the name \<open>API_KEY\<close> is bound only if the key was
  there: \<open>None\<close> is the unbound name.
\<close>

definition read_api_key :: "(string \<rightharpoonup> string) \<Rightarrow> string option" where
  "read_api_key secrets = secrets ''API_KEY''"

definition api_url :: string where
  "api_url = ''https://opendata.cwa.gov.tw/api/v1/rest/datastore/F-C0032-001?Authorization=''"

fun mapE :: "('a \<Rightarrow> exn + 'b) \<Rightarrow> 'a list \<Rightarrow> exn + 'b list" where
  "mapE f [] = Inr []"
| "mapE f (x # xs) = bindE (f x) (\<lambda>y. bindE (mapE f xs) (\<lambda>ys. Inr (y # ys)))"

text \<open>
  The f-string that builds the URL stands before the \<open>try\<close> and reads \<open>API_KEY\<close>.
  Inside the \<open>try\<close> only \<open>RequestException\<close> is caught; it leads to the built-in
  list, as does a payload without \<open>records\<close> or \<open>location\<close>.
\<close>

definition get_location_names :: "world \<Rightarrow> string option \<Rightarrow> exn + json list" where
  "get_location_names w API_KEY =
     (case API_KEY of
        None \<Rightarrow> Inl NameError
      | Some k \<Rightarrow>
        (case requests_get_json w (api_url @ k) of
           Inl (RequestException m) \<Rightarrow> Inr (map JStr default_location_names)
         | Inl e \<Rightarrow> Inl e
         | Inr data \<Rightarrow>
             bindE (py_in ''records'' data) (\<lambda>has_records.
               if \<not> has_records then Inr (map JStr default_location_names)
               else
                 bindE (py_getitem data ''records'') (\<lambda>records.
                 bindE (py_in ''location'' records) (\<lambda>has_location.
                   if \<not> has_location then Inr (map JStr default_location_names)
                   else
                     bindE (py_getitem records ''location'') (\<lambda>location.
                     bindE (py_iter location) (\<lambda>locs.
                       mapE (\<lambda>loc. py_getitem loc ''locationName'') locs)))))))"

section \<open>get_weather_data\<close>

text \<open>
  \<open>next((elem for elem in elems if elem['elementName'] == name), None)\<close>: the
  generator stops at the first hit, so only the elements up to it are subscripted.
\<close>

fun find_element :: "string \<Rightarrow> json list \<Rightarrow> exn + json option" where
  "find_element name [] = Inr None"
| "find_element name (elem # elems) =
     bindE (py_getitem elem ''elementName'') (\<lambda>n.
       if n = JStr name then Inr (Some elem) else find_element name elems)"

text \<open>
  The loop over the time entries of \<open>Wx\<close>: only \<open>ValueError\<close> is caught, so a
  missing \<open>startTime\<close> or one that is not a string ends the whole function. Each
  kept entry is paired with its parsed start time, which the source parses again
  where it needs it.
\<close>

fun valid_times :: "world \<Rightarrow> json list \<Rightarrow> exn + (json \<times> datetime) list" where
  "valid_times w [] = Inr []"
| "valid_times w (item # items) =
     bindE (py_getitem item ''startTime'') (\<lambda>s.
       case py_strptime w s of
         Inl ValueError \<Rightarrow> valid_times w items
       | Inl e \<Rightarrow> Inl e
       | Inr d \<Rightarrow> bindE (valid_times w items) (\<lambda>rest. Inr ((item, d) # rest)))"

text \<open>\<open>min(xs, key=...)\<close>: the first element with the least key.\<close>

fun min_by :: "('a \<Rightarrow> int) \<Rightarrow> 'a \<Rightarrow> 'a list \<Rightarrow> 'a" where
  "min_by key best [] = best"
| "min_by key best (x # xs) = min_by key (if key x < key best then x else best) xs"

definition time_desc_of :: "nat \<Rightarrow> string" where
  "time_desc_of hour =
     (if hour < 6 then t_midnight_to_morning
      else if hour < 12 then t_morning_to_noon
      else if hour < 18 then t_noon_to_evening
      else t_evening_to_midnight)"

definition parameter_name :: "json \<Rightarrow> exn + json" where
  "parameter_name item = bindE (py_getitem item ''parameter'') (\<lambda>p. py_getitem p ''parameterName'')"

text \<open>
  The loops over the time entries of \<open>PoP\<close>, \<open>MinT\<close> and \<open>MaxT\<close>: the first entry
  whose period holds the start of the forecast gives the value, and the loop
  breaks. \<open>post\<close> is what is done with the value there (\<open>+ "%"\<close> for \<open>PoP\<close>).
  \<open>strptime\<close> is not guarded here.
\<close>

fun period_value :: "world \<Rightarrow> datetime \<Rightarrow> (json \<Rightarrow> exn + json) \<Rightarrow> json list \<Rightarrow> exn + json option" where
  "period_value w start_dt post [] = Inr None"
| "period_value w start_dt post (t # ts) =
     bindE (py_getitem t ''startTime'') (\<lambda>s.
     bindE (py_strptime w s) (\<lambda>t_start_dt.
     bindE (py_getitem t ''endTime'') (\<lambda>e.
     bindE (py_strptime w e) (\<lambda>t_end_dt.
       if stamp t_start_dt \<le> stamp start_dt \<and> stamp start_dt < stamp t_end_dt
       then bindE (parameter_name t) (\<lambda>n. bindE (post n) (\<lambda>v. Inr (Some v)))
       else period_value w start_dt post ts))))"

text \<open>Lines 174 to 191: the probability of precipitation.\<close>

definition pop_of :: "world \<Rightarrow> datetime \<Rightarrow> json option \<Rightarrow> exn + json" where
  "pop_of w start_dt pop_element =
     (case pop_element of
        None \<Rightarrow> Inr (JStr ''N/A'')
      | Some pe \<Rightarrow>
          if \<not> truthy pe then Inr (JStr ''N/A'')
          else
            bindE (py_getitem pe ''time'') (\<lambda>t.
            bindE (py_iter t) (\<lambda>times.
            bindE (period_value w start_dt (\<lambda>n. py_add_str n ''%'') times) (\<lambda>found.
              case found of
                Some v \<Rightarrow> Inr v
              | None \<Rightarrow>
                  bindE (py_get pe ''time'') (\<lambda>t2.
                    if truthy t2
                    then bindE (py_first t) (\<lambda>f. bindE (parameter_name f) (\<lambda>n. py_add_str n ''%''))
                    else Inr (JStr ''N/A''))))))"

text \<open>Lines 194 to 204, and again 207 to 217: the lowest and the highest temperature.\<close>

definition temp_of :: "world \<Rightarrow> datetime \<Rightarrow> json option \<Rightarrow> exn + json" where
  "temp_of w start_dt temp_element =
     (case temp_element of
        None \<Rightarrow> Inr (JStr ''N/A'')
      | Some te \<Rightarrow>
          if \<not> truthy te then Inr (JStr ''N/A'')
          else
            bindE (py_getitem te ''time'') (\<lambda>t.
            bindE (py_iter t) (\<lambda>times.
            bindE (period_value w start_dt Inr times) (\<lambda>found.
              let temp = (case found of Some v \<Rightarrow> v | None \<Rightarrow> JStr ''N/A'') in
              if temp = JStr ''N/A'' then
                bindE (py_get te ''time'') (\<lambda>t2.
                  if truthy t2 then bindE (py_first t) parameter_name else Inr temp)
              else Inr temp))))"

definition error_result :: "string \<Rightarrow> (string \<times> json) list" where
  "error_result display_text = [(''status'', JStr ''error''), (''display_text'', JStr display_text)]"

text \<open>The body of the \<open>try\<close>; an \<open>Inl\<close> is an exception that reaches the handlers.\<close>

definition weather_try :: "world \<Rightarrow> string \<Rightarrow> string \<Rightarrow> exn + (string \<times> json) list" where
  "weather_try w API_KEY city_name =
     (let bad_structure = Inr (error_result (t_cannot_get @ city_name @ t_bad_structure)) in
      bindE (requests_get_json w (api_url @ API_KEY @ ''&locationName='' @ city_name)) (\<lambda>data.
      bindE (py_in ''records'' data) (\<lambda>has_records.
        if \<not> has_records then bad_structure
        else
          bindE (py_getitem data ''records'') (\<lambda>records.
          bindE (py_in ''location'' records) (\<lambda>has_location.
            if \<not> has_location then bad_structure
            else
              bindE (py_getitem records ''location'') (\<lambda>location.
                if \<not> truthy location then bad_structure
                else
                  bindE (py_first location) (\<lambda>location_data.
                  bindE (py_getitem location_data ''weatherElement'') (\<lambda>we.
                  bindE (py_iter we) (\<lambda>elems.
                  bindE (find_element ''Wx'' elems) (\<lambda>wx.
                    case wx of
                      None \<Rightarrow> Inr (error_result (t_cannot_get @ city_name @ t_missing_wx))
                    | Some wx_element \<Rightarrow>
                        if \<not> truthy wx_element
                        then Inr (error_result (t_cannot_get @ city_name @ t_missing_wx))
                        else
                          bindE (py_getitem wx_element ''time'') (\<lambda>time_elements.
                          bindE (py_iter time_elements) (\<lambda>items.
                          bindE (valid_times w items) (\<lambda>valid_time_elements.
                            case valid_time_elements of
                              [] \<Rightarrow> Inr (error_result (t_cannot_get @ city_name @ t_invalid_times))
                            | v # vs \<Rightarrow>
                                (let fc = min_by (\<lambda>x. \<bar>stamp (snd x) - datetime_now w\<bar>) v vs;
                                     forecast = fst fc;
                                     start_dt = snd fc
                                 in
                                 bindE (parameter_name forecast) (\<lambda>desc.
                                 let time_desc = time_desc_of (dt_hour start_dt) in
                                 bindE (find_element ''PoP'' elems) (\<lambda>pop_element.
                                 bindE (pop_of w start_dt pop_element) (\<lambda>pop.
                                 bindE (find_element ''MinT'' elems) (\<lambda>min_temp_element.
                                 bindE (temp_of w start_dt min_temp_element) (\<lambda>min_temp.
                                 bindE (find_element ''MaxT'' elems) (\<lambda>max_temp_element.
                                 bindE (temp_of w start_dt max_temp_element) (\<lambda>max_temp.
                                 let display_text =
                                       city_name @ '' '' @ decimal (dt_month start_dt) @ ''/''
                                       @ decimal (dt_day start_dt) @ '' '' @ time_desc @ t_is
                                       @ py_format w desc @ t_temp_between @ py_format w min_temp
                                       @ t_deg_to @ py_format w max_temp @ t_deg_rain
                                       @ py_format w pop @ t_oh
                                 in Inr [(''status'', JStr ''success''),
                                         (''description'', desc),
                                         (''display_text'', JStr display_text),
                                         (''min_temp'', min_temp),
                                         (''max_temp'', max_temp),
                                         (''pop'', pop)])))))))))))))))))))))"

text \<open>
  The function with its two handlers. \<open>API_KEY\<close> is bound whenever it runs: it is
  called from \<open>process_query\<close> only, after \<open>get_location_names\<close> has read the name.
  The cache of \<open>st.cache_data\<close> is left out: every call is a fresh evaluation.
\<close>

definition get_weather_data :: "world \<Rightarrow> string \<Rightarrow> string \<Rightarrow> (string \<times> json) list" where
  "get_weather_data w API_KEY city_name =
     (case weather_try w API_KEY city_name of
        Inr result \<Rightarrow> result
      | Inl (RequestException m) \<Rightarrow>
          error_result (t_cannot_get @ city_name @ t_network_error
                        @ exn_str w (RequestException m) @ t_check_key)
      | Inl e \<Rightarrow>
          error_result (t_processing @ city_name @ t_error_while @ exn_str w e))"

section \<open>Payloads with a forecast\<close>

text \<open>
  The condition of the specification on a payload, in its words: the payload has a
  \<open>records\<close> object with a non-empty \<open>location\<close> array, whose first location has a
  \<open>weatherElement\<close> array with an element named \<open>Wx\<close>, which has a \<open>time\<close> array
  with at least one entry whose \<open>startTime\<close> is a string that \<open>strptime\<close> parses.
\<close>

definition parses :: "world \<Rightarrow> json \<Rightarrow> bool" where
  "parses w t =
     (case t of
        JObj m \<Rightarrow> (case map_of m ''startTime'' of
                     Some (JStr s) \<Rightarrow> strptime w s \<noteq> None
                   | _ \<Rightarrow> False)
      | _ \<Rightarrow> False)"

definition wx_with_time :: "world \<Rightarrow> json \<Rightarrow> bool" where
  "wx_with_time w e =
     (case e of
        JObj m \<Rightarrow>
          map_of m ''elementName'' = Some (JStr ''Wx'')
          \<and> (case map_of m ''time'' of Some (JArr ts) \<Rightarrow> list_ex (parses w) ts | _ \<Rightarrow> False)
      | _ \<Rightarrow> False)"

definition has_wx_forecast :: "world \<Rightarrow> json \<Rightarrow> bool" where
  "has_wx_forecast w data =
     (case data of
        JObj d \<Rightarrow>
          (case map_of d ''records'' of
             Some (JObj r) \<Rightarrow>
               (case map_of r ''location'' of
                  Some (JArr (JObj l # rest)) \<Rightarrow>
                    (case map_of l ''weatherElement'' of
                       Some (JArr elems) \<Rightarrow> list_ex (wx_with_time w) elems
                     | _ \<Rightarrow> False)
                | _ \<Rightarrow> False)
           | _ \<Rightarrow> False)
      | _ \<Rightarrow> False)"

section \<open>The session state\<close>

text \<open>
  The attributes of \<open>st.session_state\<close> that the program uses. \<open>None\<close> in the first
  five is Python's \<open>None\<close>; in the two sets of recommended indices it says that the
  attribute is not in the session state yet, which the program tests with \<open>in\<close>.
\<close>

record session =
  result_text :: string
  recommended_youtube_id :: "string option"
  recommended_image_url :: "string option"
  recommended_weather_image_html :: "string option"
  weather_image_caption_desc :: "string option"
  recommended_music_original_indices :: "int set option"
  recommended_movie_indices :: "nat set option"

definition reset_recommendation_states :: "session \<Rightarrow> session" where
  "reset_recommendation_states st =
     st\<lparr>result_text := [],
        recommended_youtube_id := None,
        recommended_image_url := None,
        recommended_weather_image_html := None,
        weather_image_caption_desc := None\<rparr>"

section \<open>Music and movie recommendations\<close>

text \<open>
  A catalogue entry as \<open>initialize_videos\<close> builds it; \<open>index\<close> is the row label of
  the data frame. A movie entry as \<open>get_movie_poster_urls\<close> builds it (its \<open>title\<close>
  is the field \<open>movie_title\<close> here, the name being taken by the video's).
\<close>

record video =
  index :: int
  url :: string
  desc :: string
  title :: string

record movie =
  movie_title :: string
  poster_url :: string

text \<open>
  \<open>random.choice(xs)\<close>: the draw \<open>r\<close> is a parameter, and every element of a
  non-empty list is the choice of some draw. The program calls it on non-empty
  lists only (lemmas \<open>top_score_matches_nonempty\<close> and \<open>available_videos_nonempty\<close>,
  and the reset in \<open>random_movie_recommendation\<close>).
\<close>

definition choice :: "nat \<Rightarrow> 'a list \<Rightarrow> 'a" where
  "choice r xs = xs ! (r mod length xs)"

text \<open>The indices recommended so far, once the attribute exists.\<close>

definition music_done :: "session \<Rightarrow> int set" where
  "music_done st = (case recommended_music_original_indices st of None \<Rightarrow> {} | Some s \<Rightarrow> s)"

definition movies_done :: "session \<Rightarrow> nat set" where
  "movies_done st = (case recommended_movie_indices st of None \<Rightarrow> {} | Some s \<Rightarrow> s)"

text \<open>
  The list that the source returns is used for membership tests and for emptiness
  only, so the set itself is returned, with the new session state. The notice of
  \<open>st.info\<close> is not part of the model.
\<close>

definition get_available_music_indices :: "video list \<Rightarrow> session \<Rightarrow> int set \<times> session" where
  "get_available_music_indices all_videos st =
     (let st1 = (if recommended_music_original_indices st = None
                 then st\<lparr>recommended_music_original_indices := Some {}\<rparr> else st);
          all_original_indices = set (map index all_videos);
          available_original_indices = all_original_indices - music_done st1
      in if available_original_indices = {} \<and> all_original_indices \<noteq> {}
         then (all_original_indices, st1\<lparr>recommended_music_original_indices := Some {}\<rparr>)
         else (available_original_indices, st1))"

text \<open>
  The truth value of a string that may be \<open>None\<close> (\<open>if youtube_id:\<close>,
  \<open>if matched_city:\<close>): false for \<open>None\<close> and for the empty string.
\<close>

definition opt_truthy :: "string option \<Rightarrow> bool" where
  "opt_truthy y = (case y of None \<Rightarrow> False | Some s \<Rightarrow> s \<noteq> [])"

text \<open>
  \<open>st.session_state.recommended_music_original_indices.add(i)\<close>; the attribute
  exists by then, \<open>get_available_music_indices\<close> having run.
\<close>

definition add_music_index :: "int \<Rightarrow> session \<Rightarrow> session" where
  "add_music_index i st = st\<lparr>recommended_music_original_indices := Some (insert i (music_done st))\<rparr>"

text \<open>Lines 386 to 395: what follows the choice of a video in the random recommendation.\<close>

definition random_pick :: "world \<Rightarrow> video \<Rightarrow> session \<Rightarrow> (string \<times> string option) \<times> session" where
  "random_pick w selected_video st =
     (let st' = add_music_index (index selected_video) st;
          youtube_id = extract_youtube_id w (url selected_video)
      in if opt_truthy youtube_id then ((t_random_song, youtube_id), st')
         else ((t_no_id_retry, None), st'))"

definition random_music_recommendation ::
  "world \<Rightarrow> nat \<Rightarrow> video list \<Rightarrow> session \<Rightarrow> (string \<times> string option) \<times> session" where
  "random_music_recommendation w r all_videos st =
     (if all_videos = [] then ((t_music_list_empty_random, None), st)
      else
        (let (available_original_indices, st1) = get_available_music_indices all_videos st;
             available_videos_for_random =
               filter (\<lambda>v. index v \<in> available_original_indices) all_videos
         in if available_videos_for_random = [] then ((t_no_music_available, None), st1)
            else random_pick w (choice r available_videos_for_random) st1))"

text \<open>Lines 361 to 369: what follows the choice of a video that matches the weather.\<close>

definition weather_pick :: "world \<Rightarrow> video \<Rightarrow> session \<Rightarrow> (string \<times> string option) \<times> session" where
  "weather_pick w selected_video st =
     (let youtube_id = extract_youtube_id w (url selected_video);
          st' = add_music_index (index selected_video) st;
          display_text = t_listen_to_this
      in if opt_truthy youtube_id then ((display_text, youtube_id), st')
         else ((display_text @ t_sorry_no_id, None), st'))"

text \<open>
  Lines 337 to 345: the videos not recommended yet. When the first list is empty the
  source asks again and returns early if the second list is empty too.
\<close>

definition available_videos :: "video list \<Rightarrow> session \<Rightarrow> video list \<times> session" where
  "available_videos all_videos st =
     (let (available_original_indices, st1) = get_available_music_indices all_videos st;
          av1 = filter (\<lambda>v. index v \<in> available_original_indices) all_videos
      in if av1 = [] then
           (let (available_original_indices2, st2) = get_available_music_indices all_videos st1
            in (filter (\<lambda>v. index v \<in> available_original_indices2) all_videos, st2))
         else (av1, st1))"

text \<open>Line 350: the score of a video against the weather description.\<close>

definition video_score :: "world \<Rightarrow> string \<Rightarrow> video \<Rightarrow> int" where
  "video_score w weather_desc v =
     partial_ratio w (str_lower w weather_desc) (str_lower w (desc v))"

text \<open>Lines 347 to 354: the videos that score at least 30, each with its score.\<close>

definition matched_with_score :: "world \<Rightarrow> string \<Rightarrow> video list \<Rightarrow> (video \<times> int) list" where
  "matched_with_score w weather_desc vs =
     filter (\<lambda>p. 30 \<le> snd p) (map (\<lambda>v. (v, video_score w weather_desc v)) vs)"

definition best_score :: "(video \<times> int) list \<Rightarrow> int" where
  "best_score matched = fold (\<lambda>p best. if snd p > best then snd p else best) matched (- 1)"

text \<open>Line 358.\<close>

definition top_score_matches :: "(video \<times> int) list \<Rightarrow> video list" where
  "top_score_matches matched = map fst (filter (\<lambda>p. snd p = best_score matched) matched)"

text \<open>
  The weather description comes out of the JSON payload and can be any value;
  \<open>weather_desc.lower()\<close> raises \<open>AttributeError\<close> unless it is a string. It is
  evaluated in the first round of the loop, and the loop runs at least once, the
  list of available videos not being empty there. A selected video is a non-empty
  dict, so \<open>if selected_video:\<close> asks whether there was a match.
\<close>

definition find_and_recommend_music ::
  "world \<Rightarrow> nat \<Rightarrow> json \<Rightarrow> video list \<Rightarrow> session \<Rightarrow> exn + ((string \<times> string option) \<times> session)" where
  "find_and_recommend_music w r weather_desc all_videos st =
     (if all_videos = [] then Inr ((t_music_list_empty, None), st)
      else
        (let (avail, st1) = available_videos all_videos st
         in if avail = [] then Inr ((t_no_music_available, None), st1)
            else
              (case weather_desc of
                 JStr d \<Rightarrow>
                   (let matched = matched_with_score w d avail
                    in if matched \<noteq> []
                       then Inr (weather_pick w (choice r (top_score_matches matched)) st1)
                       else Inr (random_music_recommendation w r all_videos st1))
               | _ \<Rightarrow> Inl AttributeError)))"

text \<open>
  The available indices are drawn from in increasing order here; the source draws
  from a list in the order of a Python set, and the draw is uniform either way.
\<close>

definition random_movie_recommendation ::
  "nat \<Rightarrow> movie list \<Rightarrow> session \<Rightarrow> (string \<times> string option \<times> nat) \<times> session" where
  "random_movie_recommendation r all_movies st =
     (if all_movies = [] then ((t_movie_list_empty, None, 0), st)
      else
        (let st1 = (if recommended_movie_indices st = None
                    then st\<lparr>recommended_movie_indices := Some {}\<rparr> else st);
             all_list_indices = [0 ..< length all_movies];
             avail1 = filter (\<lambda>i. i \<notin> movies_done st1) all_list_indices;
             (available_indices, st2) =
               (if avail1 = [] then (all_list_indices, st1\<lparr>recommended_movie_indices := Some {}\<rparr>)
                else (avail1, st1));
             selected_index = choice r available_indices;
             selected_movie = all_movies ! selected_index;
             st3 = st2\<lparr>recommended_movie_indices := Some (insert selected_index (movies_done st2))\<rparr>;
             remaining_count = length available_indices - 1
         in ((movie_title selected_movie, Some (poster_url selected_movie), remaining_count), st3)))"

section \<open>Sequences of recommendations\<close>

text \<open>
  The three operations that recommend, each with the draw of its \<open>random.choice\<close>,
  and a run of them on one session state. A run records every step: the state
  before, the request, and the state after.
\<close>

datatype request = FindMusic json | RandomMusic | RandomMovie

definition perform :: "world \<Rightarrow> video list \<Rightarrow> movie list \<Rightarrow> request \<Rightarrow> nat \<Rightarrow> session \<Rightarrow> exn + session" where
  "perform w all_videos all_movies req r st =
     (case req of
        FindMusic weather_desc \<Rightarrow>
          (case find_and_recommend_music w r weather_desc all_videos st of
             Inl e \<Rightarrow> Inl e
           | Inr res \<Rightarrow> Inr (snd res))
      | RandomMusic \<Rightarrow> Inr (snd (random_music_recommendation w r all_videos st))
      | RandomMovie \<Rightarrow> Inr (snd (random_movie_recommendation r all_movies st)))"

fun run :: "world \<Rightarrow> video list \<Rightarrow> movie list \<Rightarrow> (request \<times> nat) list \<Rightarrow> session
    \<Rightarrow> exn + (session \<times> request \<times> session) list" where
  "run w all_videos all_movies [] st = Inr []"
| "run w all_videos all_movies (op # ops) st =
     (case perform w all_videos all_movies (fst op) (snd op) st of
        Inl e \<Rightarrow> Inl e
      | Inr st' \<Rightarrow>
          (case run w all_videos all_movies ops st' of
             Inl e \<Rightarrow> Inl e
           | Inr steps \<Rightarrow> Inr ((st, fst op, st') # steps)))"




text \<open>
  The catalogue entries that a music recommendation can select in the session
  state \<open>st\<close>: the entries whose index is not recommended yet, and all entries
  once every index of the catalogue is recommended. \<open>kept_indices\<close> is the set of
  recommended indices that the selected index is added to: the set as it is, and
  the empty set after such a reset.
\<close>

definition not_yet_recommended :: "video list \<Rightarrow> session \<Rightarrow> video list" where
  "not_yet_recommended all_videos st =
     (if set (map index all_videos) \<subseteq> music_done st then all_videos
      else filter (\<lambda>v. index v \<notin> music_done st) all_videos)"

definition kept_indices :: "video list \<Rightarrow> session \<Rightarrow> int set" where
  "kept_indices all_videos st =
     (if set (map index all_videos) \<subseteq> music_done st then {} else music_done st)"


definition corrections :: "(string \<times> string) list" where
  "corrections =
    [([CHR 0xE5, CHR 0x8F, CHR 0xB0, CHR 0xE5, CHR 0x8C, CHR 0x97, CHR 0xE5, CHR 0xB8, CHR 0x82], Taipei_City), \<comment> \<open>U+53F0 U+5317 U+5E02\<close>
     ([CHR 0xE5, CHR 0x8F, CHR 0xB0, CHR 0xE5, CHR 0x8C, CHR 0x97], Taipei_City), \<comment> \<open>U+53F0 U+5317\<close>
     ([CHR 0xE5, CHR 0x8C, CHR 0x97, CHR 0xE5, CHR 0xB8, CHR 0x82], Taipei_City), \<comment> \<open>U+5317 U+5E02\<close>
     ([CHR 0xE5, CHR 0x8C, CHR 0x97], Taipei_City), \<comment> \<open>U+5317\<close>
     ([CHR 0xE6, CHR 0x96, CHR 0xB0, CHR 0xE5, CHR 0x8C, CHR 0x97], New_Taipei_City), \<comment> \<open>U+65B0 U+5317\<close>
     ([CHR 0xE8, CHR 0x87, CHR 0xBA, CHR 0xE5, CHR 0x8C, CHR 0x97, CHR 0xE7, CHR 0xB8, CHR 0xA3], New_Taipei_City), \<comment> \<open>U+81FA U+5317 U+7E23\<close>
     ([CHR 0xE6, CHR 0xA1, CHR 0x83, CHR 0xE5, CHR 0x9C, CHR 0x92], Taoyuan_City), \<comment> \<open>U+6843 U+5712\<close>
     ([CHR 0xE6, CHR 0xA1, CHR 0x83, CHR 0xE5, CHR 0x9C, CHR 0x92, CHR 0xE7, CHR 0xB8, CHR 0xA3], Taoyuan_City), \<comment> \<open>U+6843 U+5712 U+7E23\<close>
     ([CHR 0xE6, CHR 0xA1, CHR 0x83], Taoyuan_City), \<comment> \<open>U+6843\<close>
     ([CHR 0xE5, CHR 0x9C, CHR 0x92], Taoyuan_City), \<comment> \<open>U+5712\<close>
     ([CHR 0xE5, CHR 0x8F, CHR 0xB0, CHR 0xE4, CHR 0xB8, CHR 0xAD], Taichung_City), \<comment> \<open>U+53F0 U+4E2D\<close>
     ([CHR 0xE5, CHR 0x8F, CHR 0xB0, CHR 0xE4, CHR 0xB8, CHR 0xAD, CHR 0xE5, CHR 0xB8, CHR 0x82], Taichung_City), \<comment> \<open>U+53F0 U+4E2D U+5E02\<close>
     ([CHR 0xE5, CHR 0x8F, CHR 0xB0, CHR 0xE4, CHR 0xB8, CHR 0xAD, CHR 0xE7, CHR 0xB8, CHR 0xA3], Taichung_City), \<comment> \<open>U+53F0 U+4E2D U+7E23\<close>
     ([CHR 0xE8, CHR 0x87, CHR 0xBA, CHR 0xE4, CHR 0xB8, CHR 0xAD, CHR 0xE7, CHR 0xB8, CHR 0xA3], Taichung_City), \<comment> \<open>U+81FA U+4E2D U+7E23\<close>
     ([CHR 0xE4, CHR 0xB8, CHR 0xAD, CHR 0xE7, CHR 0xB8, CHR 0xA3], Taichung_City), \<comment> \<open>U+4E2D U+7E23\<close>
     ([CHR 0xE4, CHR 0xB8, CHR 0xAD, CHR 0xE5, CHR 0xB8, CHR 0x82], Taichung_City), \<comment> \<open>U+4E2D U+5E02\<close>
     ([CHR 0xE8, CHR 0x87, CHR 0xBA, CHR 0xE4, CHR 0xB8, CHR 0xAD], Taichung_City), \<comment> \<open>U+81FA U+4E2D\<close>
     ([CHR 0xE4, CHR 0xB8, CHR 0xAD], Taichung_City), \<comment> \<open>U+4E2D\<close>
     ([CHR 0xE5, CHR 0x8F, CHR 0xB0, CHR 0xE5, CHR 0x8D, CHR 0x97], Tainan_City), \<comment> \<open>U+53F0 U+5357\<close>
     ([CHR 0xE5, CHR 0x8F, CHR 0xB0, CHR 0xE5, CHR 0x8D, CHR 0x97, CHR 0xE5, CHR 0xB8, CHR 0x82], Tainan_City), \<comment> \<open>U+53F0 U+5357 U+5E02\<close>
     ([CHR 0xE8, CHR 0x87, CHR 0xBA, CHR 0xE5, CHR 0x8D, CHR 0x97], Tainan_City), \<comment> \<open>U+81FA U+5357\<close>
     ([CHR 0xE5, CHR 0x8F, CHR 0xB0, CHR 0xE5, CHR 0x8D, CHR 0x97, CHR 0xE7, CHR 0xB8, CHR 0xA3], Tainan_City), \<comment> \<open>U+53F0 U+5357 U+7E23\<close>
     ([CHR 0xE8, CHR 0x87, CHR 0xBA, CHR 0xE5, CHR 0x8D, CHR 0x97, CHR 0xE7, CHR 0xB8, CHR 0xA3], Tainan_City), \<comment> \<open>U+81FA U+5357 U+7E23\<close>
     ([CHR 0xE9, CHR 0xAB, CHR 0x98, CHR 0xE9, CHR 0x9B, CHR 0x84], Kaohsiung_City), \<comment> \<open>U+9AD8 U+96C4\<close>
     ([CHR 0xE9, CHR 0x9B, CHR 0x84, CHR 0xE5, CHR 0xB8, CHR 0x82], Kaohsiung_City), \<comment> \<open>U+96C4 U+5E02\<close>
     ([CHR 0xE9, CHR 0x9B, CHR 0x84], Kaohsiung_City), \<comment> \<open>U+96C4\<close>
     ([CHR 0xE9, CHR 0xAB, CHR 0x98, CHR 0xE9, CHR 0x9B, CHR 0x84, CHR 0xE7, CHR 0xB8, CHR 0xA3], Kaohsiung_City), \<comment> \<open>U+9AD8 U+96C4 U+7E23\<close>
     ([CHR 0xE5, CHR 0x9F, CHR 0xBA, CHR 0xE9, CHR 0x9A, CHR 0x86], Keelung_City), \<comment> \<open>U+57FA U+9686\<close>
     ([CHR 0xE5, CHR 0x9F, CHR 0xBA], Keelung_City), \<comment> \<open>U+57FA\<close>
     ([CHR 0xE9, CHR 0x9A, CHR 0x86], Keelung_City), \<comment> \<open>U+9686\<close>
     ([CHR 0xE9, CHR 0x9B, CHR 0x9E], Keelung_City), \<comment> \<open>U+96DE\<close>
     ([CHR 0xE7, CHR 0xB1, CHR 0xA0], Keelung_City), \<comment> \<open>U+7C60\<close>
     ([CHR 0xE9, CHR 0x9B, CHR 0x9E, CHR 0xE7, CHR 0xB1, CHR 0xA0], Keelung_City), \<comment> \<open>U+96DE U+7C60\<close>
     ([CHR 0xE5, CHR 0x9F, CHR 0xBA, CHR 0xE9, CHR 0x9A, CHR 0x86, CHR 0xE7, CHR 0xB8, CHR 0xA3], Keelung_City), \<comment> \<open>U+57FA U+9686 U+7E23\<close>
     ([CHR 0xE5, CHR 0x9F, CHR 0xBA, CHR 0xE5, CHR 0xB8, CHR 0x82], Keelung_City), \<comment> \<open>U+57FA U+5E02\<close>
     ([CHR 0xE9, CHR 0x9A, CHR 0x86, CHR 0xE5, CHR 0xB8, CHR 0x82], Keelung_City), \<comment> \<open>U+9686 U+5E02\<close>
     ([CHR 0xE9, CHR 0x9B, CHR 0x9E, CHR 0xE5, CHR 0xB8, CHR 0x82], Keelung_City), \<comment> \<open>U+96DE U+5E02\<close>
     ([CHR 0xE7, CHR 0xB1, CHR 0xA0, CHR 0xE5, CHR 0xB8, CHR 0x82], Keelung_City), \<comment> \<open>U+7C60 U+5E02\<close>
     ([CHR 0xE9, CHR 0x9B, CHR 0x9E, CHR 0xE7, CHR 0xB1, CHR 0xA0, CHR 0xE5, CHR 0xB8, CHR 0x82], Keelung_City), \<comment> \<open>U+96DE U+7C60 U+5E02\<close>
     ([CHR 0xE9, CHR 0x9B, CHR 0x9E, CHR 0xE7, CHR 0xB1, CHR 0xA0, CHR 0xE7, CHR 0xB8, CHR 0xA3], Keelung_City), \<comment> \<open>U+96DE U+7C60 U+7E23\<close>
     ([CHR 0xE9, CHR 0x9B, CHR 0x9E, CHR 0xE7, CHR 0xB8, CHR 0xA3], Keelung_City), \<comment> \<open>U+96DE U+7E23\<close>
     ([CHR 0xE7, CHR 0xB1, CHR 0xA0, CHR 0xE7, CHR 0xB8, CHR 0xA3], Keelung_City), \<comment> \<open>U+7C60 U+7E23\<close>
     ([CHR 0xE6, CHR 0x96, CHR 0xB0, CHR 0xE7, CHR 0xAB, CHR 0xB9], Hsinchu_City), \<comment> \<open>U+65B0 U+7AF9\<close>
     ([CHR 0xE7, CHR 0xAB, CHR 0xB9], Hsinchu_City), \<comment> \<open>U+7AF9\<close>
     ([CHR 0xE7, CHR 0xAB, CHR 0xB9, CHR 0xE5, CHR 0xB8, CHR 0x82], Hsinchu_City), \<comment> \<open>U+7AF9 U+5E02\<close>
     ([CHR 0xE7, CHR 0xAB, CHR 0xB9, CHR 0xE7, CHR 0xB8, CHR 0xA3], Hsinchu_County), \<comment> \<open>U+7AF9 U+7E23\<close>
     ([CHR 0xE5, CHR 0x98, CHR 0x89, CHR 0xE7, CHR 0xBE, CHR 0xA9], Chiayi_City), \<comment> \<open>U+5609 U+7FA9\<close>
     ([CHR 0xE5, CHR 0x98, CHR 0x89], Chiayi_City), \<comment> \<open>U+5609\<close>
     ([CHR 0xE7, CHR 0xBE, CHR 0xA9], Chiayi_City), \<comment> \<open>U+7FA9\<close>
     ([CHR 0xE5, CHR 0x98, CHR 0x89, CHR 0xE7, CHR 0xB8, CHR 0xA3], Chiayi_County), \<comment> \<open>U+5609 U+7E23\<close>
     ([CHR 0xE7, CHR 0xBE, CHR 0xA9, CHR 0xE7, CHR 0xB8, CHR 0xA3], Chiayi_County), \<comment> \<open>U+7FA9 U+7E23\<close>
     ([CHR 0xE8, CHR 0x8B, CHR 0x97, CHR 0xE6, CHR 0xA0, CHR 0x97], Miaoli_County), \<comment> \<open>U+82D7 U+6817\<close>
     ([CHR 0xE8, CHR 0x8B, CHR 0x97], Miaoli_County), \<comment> \<open>U+82D7\<close>
     ([CHR 0xE6, CHR 0xA0, CHR 0x97], Miaoli_County), \<comment> \<open>U+6817\<close>
     ([CHR 0xE6, CHR 0xA0, CHR 0x97, CHR 0xE7, CHR 0xB8, CHR 0xA3], Miaoli_County), \<comment> \<open>U+6817 U+7E23\<close>
     ([CHR 0xE8, CHR 0x8B, CHR 0x97, CHR 0xE7, CHR 0xB8, CHR 0xA3], Miaoli_County), \<comment> \<open>U+82D7 U+7E23\<close>
     ([CHR 0xE8, CHR 0x8B, CHR 0x97, CHR 0xE6, CHR 0xA0, CHR 0x97, CHR 0xE5, CHR 0xB8, CHR 0x82], Miaoli_County), \<comment> \<open>U+82D7 U+6817 U+5E02\<close>
     ([CHR 0xE5, CHR 0xBD, CHR 0xB0, CHR 0xE5, CHR 0x8C, CHR 0x96], Changhua_County), \<comment> \<open>U+5F70 U+5316\<close>
     ([CHR 0xE5, CHR 0xBD, CHR 0xB0], Changhua_County), \<comment> \<open>U+5F70\<close>
     ([CHR 0xE5, CHR 0x8C, CHR 0x96], Changhua_County), \<comment> \<open>U+5316\<close>
     ([CHR 0xE5, CHR 0xBD, CHR 0xB0, CHR 0xE7, CHR 0xB8, CHR 0xA3], Changhua_County), \<comment> \<open>U+5F70 U+7E23\<close>
     ([CHR 0xE5, CHR 0x8C, CHR 0x96, CHR 0xE7, CHR 0xB8, CHR 0xA3], Changhua_County), \<comment> \<open>U+5316 U+7E23\<close>
     ([CHR 0xE5, CHR 0xBD, CHR 0xB0, CHR 0xE5, CHR 0x8C, CHR 0x96, CHR 0xE5, CHR 0xB8, CHR 0x82], Changhua_County), \<comment> \<open>U+5F70 U+5316 U+5E02\<close>
     ([CHR 0xE5, CHR 0x8D, CHR 0x97, CHR 0xE6, CHR 0x8A, CHR 0x95], Nantou_County), \<comment> \<open>U+5357 U+6295\<close>
     ([CHR 0xE6, CHR 0x8A, CHR 0x95], Nantou_County), \<comment> \<open>U+6295\<close>
     ([CHR 0xE6, CHR 0x8A, CHR 0x95, CHR 0xE7, CHR 0xB8, CHR 0xA3], Nantou_County), \<comment> \<open>U+6295 U+7E23\<close>
     ([CHR 0xE5, CHR 0x8D, CHR 0x97, CHR 0xE6, CHR 0x8A, CHR 0x95, CHR 0xE5, CHR 0xB8, CHR 0x82], Nantou_County), \<comment> \<open>U+5357 U+6295 U+5E02\<close>
     ([CHR 0xE9, CHR 0x9B, CHR 0xB2, CHR 0xE6, CHR 0x9E, CHR 0x97], Yunlin_County), \<comment> \<open>U+96F2 U+6797\<close>
     ([CHR 0xE9, CHR 0x9B, CHR 0xB2], Yunlin_County), \<comment> \<open>U+96F2\<close>
     ([CHR 0xE6, CHR 0x9E, CHR 0x97], Yunlin_County), \<comment> \<open>U+6797\<close>
     ([CHR 0xE9, CHR 0x9B, CHR 0xB2, CHR 0xE7, CHR 0xB8, CHR 0xA3], Yunlin_County), \<comment> \<open>U+96F2 U+7E23\<close>
     ([CHR 0xE6, CHR 0x9E, CHR 0x97, CHR 0xE7, CHR 0xB8, CHR 0xA3], Yunlin_County), \<comment> \<open>U+6797 U+7E23\<close>
     ([CHR 0xE9, CHR 0x9B, CHR 0xB2, CHR 0xE6, CHR 0x9E, CHR 0x97, CHR 0xE5, CHR 0xB8, CHR 0x82], Yunlin_County), \<comment> \<open>U+96F2 U+6797 U+5E02\<close>
     ([CHR 0xE5, CHR 0xB1, CHR 0x8F, CHR 0xE6, CHR 0x9D, CHR 0xB1], Pingtung_County), \<comment> \<open>U+5C4F U+6771\<close>
     ([CHR 0xE5, CHR 0xB1, CHR 0x8F], Pingtung_County), \<comment> \<open>U+5C4F\<close>
     ([CHR 0xE5, CHR 0xB1, CHR 0x8F, CHR 0xE7, CHR 0xB8, CHR 0xA3], Pingtung_County), \<comment> \<open>U+5C4F U+7E23\<close>
     ([CHR 0xE5, CHR 0xB1, CHR 0x8F, CHR 0xE6, CHR 0x9D, CHR 0xB1, CHR 0xE5, CHR 0xB8, CHR 0x82], Pingtung_County), \<comment> \<open>U+5C4F U+6771 U+5E02\<close>
     ([CHR 0xE7, CHR 0x90, CHR 0x89, CHR 0xE7, CHR 0x90, CHR 0x83, CHR 0xE5, CHR 0xB6, CHR 0xBC], Pingtung_County), \<comment> \<open>U+7409 U+7403 U+5DBC\<close>
     ([CHR 0xE5, CHR 0xB0, CHR 0x8F, CHR 0xE7, CHR 0x90, CHR 0x89, CHR 0xE7, CHR 0x90, CHR 0x83], Pingtung_County), \<comment> \<open>U+5C0F U+7409 U+7403\<close>
     ([CHR 0xE7, CHR 0x90, CHR 0x89, CHR 0xE7, CHR 0x90, CHR 0x83], Pingtung_County), \<comment> \<open>U+7409 U+7403\<close>
     ([CHR 0xE5, CHR 0xAE, CHR 0x9C, CHR 0xE8, CHR 0x98, CHR 0xAD], Yilan_County), \<comment> \<open>U+5B9C U+862D\<close>
     ([CHR 0xE5, CHR 0xAE, CHR 0x9C], Yilan_County), \<comment> \<open>U+5B9C\<close>
     ([CHR 0xE8, CHR 0x98, CHR 0xAD], Yilan_County), \<comment> \<open>U+862D\<close>
     ([CHR 0xE5, CHR 0xAE, CHR 0x9C, CHR 0xE7, CHR 0xB8, CHR 0xA3], Yilan_County), \<comment> \<open>U+5B9C U+7E23\<close>
     ([CHR 0xE8, CHR 0x98, CHR 0xAD, CHR 0xE7, CHR 0xB8, CHR 0xA3], Yilan_County), \<comment> \<open>U+862D U+7E23\<close>
     ([CHR 0xE5, CHR 0xAE, CHR 0x9C, CHR 0xE8, CHR 0x98, CHR 0xAD, CHR 0xE5, CHR 0xB8, CHR 0x82], Yilan_County), \<comment> \<open>U+5B9C U+862D U+5E02\<close>
     ([CHR 0xE9, CHR 0xBE, CHR 0x9C, CHR 0xE5, CHR 0xB1, CHR 0xB1, CHR 0xE5, CHR 0xB3, CHR 0xB6], Yilan_County), \<comment> \<open>U+9F9C U+5C71 U+5CF6\<close>
     ([CHR 0xE8, CHR 0x8A, CHR 0xB1, CHR 0xE8, CHR 0x93, CHR 0xAE], Hualien_County), \<comment> \<open>U+82B1 U+84EE\<close>
     ([CHR 0xE8, CHR 0x8A, CHR 0xB1], Hualien_County), \<comment> \<open>U+82B1\<close>
     ([CHR 0xE8, CHR 0x93, CHR 0xAE], Hualien_County), \<comment> \<open>U+84EE\<close>
     ([CHR 0xE8, CHR 0x8A, CHR 0xB1, CHR 0xE7, CHR 0xB8, CHR 0xA3], Hualien_County), \<comment> \<open>U+82B1 U+7E23\<close>
     ([CHR 0xE8, CHR 0x93, CHR 0xAE, CHR 0xE7, CHR 0xB8, CHR 0xA3], Hualien_County), \<comment> \<open>U+84EE U+7E23\<close>
     ([CHR 0xE8, CHR 0x8A, CHR 0xB1, CHR 0xE8, CHR 0x93, CHR 0xAE, CHR 0xE5, CHR 0xB8, CHR 0x82], Hualien_County), \<comment> \<open>U+82B1 U+84EE U+5E02\<close>
     ([CHR 0xE5, CHR 0x8F, CHR 0xB0, CHR 0xE6, CHR 0x9D, CHR 0xB1], Taitung_County), \<comment> \<open>U+53F0 U+6771\<close>
     ([CHR 0xE5, CHR 0x8F, CHR 0xB0, CHR 0xE6, CHR 0x9D, CHR 0xB1, CHR 0xE7, CHR 0xB8, CHR 0xA3], Taitung_County), \<comment> \<open>U+53F0 U+6771 U+7E23\<close>
     ([CHR 0xE5, CHR 0x8F, CHR 0xB0, CHR 0xE6, CHR 0x9D, CHR 0xB1, CHR 0xE5, CHR 0xB8, CHR 0x82], Taitung_City), \<comment> \<open>U+53F0 U+6771 U+5E02\<close>
     ([CHR 0xE7, CHR 0xB6, CHR 0xA0, CHR 0xE5, CHR 0xB3, CHR 0xB6], Taitung_County), \<comment> \<open>U+7DA0 U+5CF6\<close>
     ([CHR 0xE7, CHR 0xB6, CHR 0xA0, CHR 0xE9, CHR 0xB3, CHR 0xA5], Taitung_County), \<comment> \<open>U+7DA0 U+9CE5\<close>
     ([CHR 0xE8, CHR 0x98, CHR 0xAD, CHR 0xE5, CHR 0xB6, CHR 0xBC], Taitung_County), \<comment> \<open>U+862D U+5DBC\<close>
     ([CHR 0xE6, CHR 0xBE, CHR 0x8E, CHR 0xE6, CHR 0xB9, CHR 0x96], Penghu_County), \<comment> \<open>U+6F8E U+6E56\<close>
     ([CHR 0xE6, CHR 0xBE, CHR 0x8E], Penghu_County), \<comment> \<open>U+6F8E\<close>
     ([CHR 0xE6, CHR 0xB9, CHR 0x96], Penghu_County), \<comment> \<open>U+6E56\<close>
     ([CHR 0xE6, CHR 0xBE, CHR 0x8E, CHR 0xE7, CHR 0xB8, CHR 0xA3], Penghu_County), \<comment> \<open>U+6F8E U+7E23\<close>
     ([CHR 0xE6, CHR 0xB9, CHR 0x96, CHR 0xE7, CHR 0xB8, CHR 0xA3], Penghu_County), \<comment> \<open>U+6E56 U+7E23\<close>
     ([CHR 0xE6, CHR 0xBE, CHR 0x8E, CHR 0xE6, CHR 0xB9, CHR 0x96, CHR 0xE5, CHR 0xB8, CHR 0x82], Penghu_County), \<comment> \<open>U+6F8E U+6E56 U+5E02\<close>
     ([CHR 0xE9, CHR 0x87, CHR 0x91, CHR 0xE9, CHR 0x96, CHR 0x80], Kinmen_County), \<comment> \<open>U+91D1 U+9580\<close>
     ([CHR 0xE9, CHR 0x87, CHR 0x91], Kinmen_County), \<comment> \<open>U+91D1\<close>
     ([CHR 0xE9, CHR 0x96, CHR 0x80], Kinmen_County), \<comment> \<open>U+9580\<close>
     ([CHR 0xE9, CHR 0x87, CHR 0x91, CHR 0xE7, CHR 0xB8, CHR 0xA3], Kinmen_County), \<comment> \<open>U+91D1 U+7E23\<close>
     ([CHR 0xE9, CHR 0x96, CHR 0x80, CHR 0xE7, CHR 0xB8, CHR 0xA3], Kinmen_County), \<comment> \<open>U+9580 U+7E23\<close>
     ([CHR 0xE9, CHR 0x87, CHR 0x91, CHR 0xE9, CHR 0x96, CHR 0x80, CHR 0xE5, CHR 0xB8, CHR 0x82], Kinmen_County), \<comment> \<open>U+91D1 U+9580 U+5E02\<close>
     ([CHR 0xE9, CHR 0x80, CHR 0xA3, CHR 0xE6, CHR 0xB1, CHR 0x9F], Lienchiang_County), \<comment> \<open>U+9023 U+6C5F\<close>
     ([CHR 0xE9, CHR 0x80, CHR 0xA3, CHR 0xE6, CHR 0xB1, CHR 0x9F, CHR 0xE5, CHR 0xB8, CHR 0x82], Lienchiang_County), \<comment> \<open>U+9023 U+6C5F U+5E02\<close>
     ([CHR 0xE9, CHR 0xA6, CHR 0xAC, CHR 0xE7, CHR 0xA5, CHR 0x96], Lienchiang_County), \<comment> \<open>U+99AC U+7956\<close>
     ([CHR 0xE9, CHR 0xA6, CHR 0xAC, CHR 0xE7, CHR 0xB8, CHR 0xA3], Lienchiang_County), \<comment> \<open>U+99AC U+7E23\<close>
     ([CHR 0xE7, CHR 0xA5, CHR 0x96, CHR 0xE7, CHR 0xB8, CHR 0xA3], Lienchiang_County), \<comment> \<open>U+7956 U+7E23\<close>
     ([CHR 0xE9, CHR 0x80, CHR 0xA3], Lienchiang_County), \<comment> \<open>U+9023\<close>
     ([CHR 0xE6, CHR 0xB1, CHR 0x9F], Lienchiang_County), \<comment> \<open>U+6C5F\<close>
     ([CHR 0xE9, CHR 0x80, CHR 0xA3, CHR 0xE7, CHR 0xB8, CHR 0xA3], Lienchiang_County) \<comment> \<open>U+9023 U+7E23\<close>]"


definition MANUAL_CORRECTIONS :: "string \<rightharpoonup> string" where
  "MANUAL_CORRECTIONS = map_of corrections"

section \<open>process_query\<close>

text \<open>
  Lines 470 to 484: the category code of a weather description. The table of
  \<open>load_weather_codes\<close> is a dict from descriptions to codes, here in its
  insertion order. Without an exact match every entry is scored, which calls
  \<open>weather_desc.lower()\<close> in the first round.
\<close>

definition weather_code_of :: "world \<Rightarrow> json \<Rightarrow> (string \<times> code) list \<Rightarrow> exn + code option" where
  "weather_code_of w weather_desc loaded_weather_codes =
     (case find (\<lambda>p. weather_desc = JStr (fst p)) loaded_weather_codes of
        Some p \<Rightarrow> Inr (Some (snd p))
      | None \<Rightarrow>
          if loaded_weather_codes = [] then Inr None
          else
            (case weather_desc of
               JStr d \<Rightarrow>
                 Inr (snd (fold (\<lambda>p (highest_score, weather_code).
                                   let score = ratio w (str_lower w d) (str_lower w (fst p))
                                   in if score > highest_score then (score, Some (snd p))
                                      else (highest_score, weather_code))
                                loaded_weather_codes (- 1, None)))
             | _ \<Rightarrow> Inl AttributeError))"

text \<open>Lines 486 to 498: the picture of the weather and its caption.\<close>

definition show_weather_image :: "world \<Rightarrow> json \<Rightarrow> code option \<Rightarrow> session \<Rightarrow> session" where
  "show_weather_image w weather_desc weather_code st =
     (if (case weather_code of None \<Rightarrow> False | Some c \<Rightarrow> code_truthy c) then
        (let found_image_path =
               (case weather_code of None \<Rightarrow> None
                | Some c \<Rightarrow> get_image_path_or_default w WEATHER_IMAGES_DIR c)
         in if opt_truthy found_image_path then
              st\<lparr>recommended_weather_image_html :=
                   (case found_image_path of None \<Rightarrow> None
                    | Some p \<Rightarrow> load_local_image_as_base64 w p (Some 70)),
                 weather_image_caption_desc := Some (py_format w weather_desc)\<rparr>
            else
              st\<lparr>recommended_weather_image_html := None,
                 weather_image_caption_desc :=
                   Some (t_weather_colon @ py_format w weather_desc @ t_no_image)\<rparr>)
      else
        st\<lparr>recommended_weather_image_html := None,
           weather_image_caption_desc :=
             Some (t_weather_colon @ py_format w weather_desc @ t_no_code_or_image)\<rparr>)"

text \<open>Lines 507 to 515: the weather could not be had.\<close>

definition show_weather_failure ::
  "world \<Rightarrow> string \<Rightarrow> (string \<times> json) list \<Rightarrow> session \<Rightarrow> session" where
  "show_weather_failure w matched_city weather_data_raw st =
     (let st1 = st\<lparr>result_text :=
                      (case map_of weather_data_raw ''display_text'' of
                         Some t \<Rightarrow> py_format w t
                       | None \<Rightarrow> t_sorry_cannot_get @ matched_city @ t_check_input)\<rparr>;
          default_image_path = get_image_path_or_default w WEATHER_IMAGES_DIR (CodeStr ''default'')
      in if opt_truthy default_image_path then
           st1\<lparr>recommended_weather_image_html :=
                  (case default_image_path of None \<Rightarrow> None
                   | Some p \<Rightarrow> load_local_image_as_base64 w p (Some 70)),
               weather_image_caption_desc := Some (t_cannot_get @ matched_city @ t_weather_data)\<rparr>
         else
           st1\<lparr>recommended_weather_image_html := None,
               weather_image_caption_desc :=
                 Some (t_cannot_get @ matched_city @ t_weather_data_no_image)\<rparr>)"

text \<open>\<open>d[key]\<close> on the dict that \<open>get_weather_data\<close> returned.\<close>

definition dict_item :: "(string \<times> json) list \<Rightarrow> string \<Rightarrow> exn + json" where
  "dict_item d k = (case map_of d k of Some v \<Rightarrow> Inr v | None \<Rightarrow> Inl (KeyError k))"

text \<open>
  Lines 465 to 515: what \<open>process_query\<close> does with the answer of
  \<open>get_weather_data\<close> for the city \<open>matched_city\<close>; \<open>st0\<close> is the session state
  after the reset.
\<close>

definition weather_branch ::
  "world \<Rightarrow> nat \<Rightarrow> string \<Rightarrow> (string \<times> json) list \<Rightarrow> video list \<Rightarrow> bool
     \<Rightarrow> (string \<times> code) list \<Rightarrow> session \<Rightarrow> exn + session" where
  "weather_branch w r matched_city weather_data_raw all_videos recommend_music loaded_weather_codes st0 =
     (if weather_data_raw \<noteq> [] \<and> map_of weather_data_raw ''status'' = Some (JStr ''success'')
      then
        bindE (dict_item weather_data_raw ''description'') (\<lambda>weather_desc.
        bindE (dict_item weather_data_raw ''display_text'') (\<lambda>display_text.
        let st1 = st0\<lparr>result_text := py_format w display_text\<rparr> in
        bindE (weather_code_of w weather_desc loaded_weather_codes) (\<lambda>weather_code.
        let st2 = show_weather_image w weather_desc weather_code st1 in
        if recommend_music then
          bindE (find_and_recommend_music w r weather_desc all_videos st2) (\<lambda>res.
            let music_text = fst (fst res); youtube_id = snd (fst res); st3 = snd res
            in Inr (st3\<lparr>result_text := result_text st3 @ [CHR 0x0A, CHR 0x0A] @ music_text,
                        recommended_youtube_id := youtube_id\<rparr>))
        else Inr st2)))
      else Inr (show_weather_failure w matched_city weather_data_raw st0))"

text \<open>
  The function returns nothing; its effects are the new session state and the
  calls of \<open>get_weather_data\<close>. The model returns both: first the city names that
  \<open>get_weather_data\<close> was called with, in order, then the session state, or the
  exception that left the function. \<open>r\<close> is the draw of the one \<open>random.choice\<close>
  that may run. \<open>location_names\<close> is the list of \<open>get_location_names\<close>.
\<close>

definition process_query ::
  "world \<Rightarrow> string \<Rightarrow> nat \<Rightarrow> string \<Rightarrow> json list \<Rightarrow> video list \<Rightarrow> movie list \<Rightarrow> bool
     \<Rightarrow> (string \<times> code) list \<Rightarrow> session \<Rightarrow> string list \<times> (exn + session)" where
  "process_query w API_KEY r city_input location_names all_videos movie_poster_urls recommend_music
       loaded_weather_codes st =
     (let st0 = reset_recommendation_states st in
      if city_input = [] then ([], Inr (st0\<lparr>result_text := t_enter_city\<rparr>))
      else
        (let matched_city =
               (case MANUAL_CORRECTIONS city_input of
                  Some c \<Rightarrow> Some c
                | None \<Rightarrow> if JStr city_input \<in> set location_names then Some city_input else None)
         in if opt_truthy matched_city then
              (let city = (case matched_city of Some c \<Rightarrow> c | None \<Rightarrow> []);
                   weather_data_raw = get_weather_data w API_KEY city
               in ([city],
                   weather_branch w r city weather_data_raw all_videos recommend_music
                     loaded_weather_codes st0))
            else
              (let res = random_music_recommendation w r all_videos st0;
                   music_text = fst (fst res); youtube_id = snd (fst res); st1 = snd res
               in ([], Inr (st1\<lparr>result_text := music_text,
                                  recommended_youtube_id := youtube_id,
                                  recommended_weather_image_html := None,
                                  weather_image_caption_desc := None\<rparr>)))))"

section \<open>The start of main\<close>

text \<open>
  Lines 527 to 537: \<open>main\<close> sets the background and then fetches the county list,
  neither inside a \<open>try\<close>. The model stops there and returns the county list, or
  the exception that ends \<open>main\<close>.
\<close>

definition main_start :: "world \<Rightarrow> (string \<rightharpoonup> string) \<Rightarrow> exn + json list" where
  "main_start w secrets =
     (let API_KEY = read_api_key secrets in
      bindE (set_background w ''background.jpg'') (\<lambda>style.
        get_location_names w API_KEY))"

section \<open>Example inputs\<close>

text \<open>
  A stand-in for \<open>fuzz.partial_ratio\<close> and \<open>fuzz.ratio\<close> in the examples. It gives
  what the library gives on the pairs the examples use: 100 for two equal non-empty
  strings, 0 for two strings without a common character, and 10 for
  \<open>abcdefghij\<close> against \<open>aqqqqqqqqq\<close> and against \<open>auuuuuuuuu\<close> (one matching
  character out of twenty).
\<close>

definition demo_ratio :: "string \<Rightarrow> string \<Rightarrow> int" where
  "demo_ratio a b = (if a = b then 100 else if list_ex (\<lambda>c. c \<in> set b) a then 10 else 0)"

text \<open>
  A world without network and without files. \<open>str_lower\<close> is the identity, as
  \<open>str.lower\<close> is on the lower-case strings of the examples.
\<close>

definition demo_world :: world where
  "demo_world =
     \<lparr>requests_get_json = (\<lambda>u. Inl (RequestException ''offline'')),
      strptime = (\<lambda>s. None),
      datetime_now = 0,
      json_repr = (\<lambda>v. ''?''),
      exn_str = (\<lambda>e. ''error''),
      str_lower = (\<lambda>s. s),
      partial_ratio = demo_ratio,
      ratio = demo_ratio,
      unicode_digit = (\<lambda>s. 0),
      path_exists = (\<lambda>p. False),
      open_rb = (\<lambda>p. Inl FileNotFoundError),
      b64encode = (\<lambda>b. b)\<rparr>"

definition empty_session :: session where
  "empty_session =
     \<lparr>result_text = [],
      recommended_youtube_id = None,
      recommended_image_url = None,
      recommended_weather_image_html = None,
      weather_image_caption_desc = None,
      recommended_music_original_indices = Some {},
      recommended_movie_indices = Some {}\<rparr>"


text \<open>The same world with one file, \<open>images/default.gif\<close>.\<close>

definition image_world :: world where
  "image_world = demo_world\<lparr>path_exists := (\<lambda>p. p = ''images/default.gif'')\<rparr>"

text \<open>Two catalogue entries.\<close>

definition rain_video :: video where
  "rain_video =
     \<lparr>index = 0, url = ''https://www.youtube.com/watch?v=aaaaaaaaaaa'', desc = ''rain'',
      title = ''Rain song''\<rparr>"

definition fog_video :: video where
  "fog_video =
     \<lparr>index = 1, url = ''https://youtu.be/bbbbbbbbbbb'', desc = ''fog'', title = ''Fog song''\<rparr>"

text \<open>A payload of the county list whose one location has no name.\<close>

definition nameless_world :: world where
  "nameless_world =
     demo_world\<lparr>requests_get_json :=
       (\<lambda>u. Inr (JObj [(''records'', JObj [(''location'', JArr [JObj []])])]))\<rparr>"

text \<open>
  A world whose network answers every request with an error that quotes the URL
  of the request, and which shows an error by its message.
\<close>

definition echo_world :: world where
  "echo_world =
     demo_world\<lparr>requests_get_json := (\<lambda>u. Inl (RequestException u)),
                exn_str := (\<lambda>e. case e of RequestException m \<Rightarrow> m | _ \<Rightarrow> ''error'')\<rparr>"

text \<open>A session state in which \<open>rain_video\<close> is recommended already.\<close>

definition rain_heard :: session where
  "rain_heard =
     \<lparr>result_text = ''earlier text'',
      recommended_youtube_id = Some ''aaaaaaaaaaa'',
      recommended_image_url = None,
      recommended_weather_image_html = None,
      weather_image_caption_desc = None,
      recommended_music_original_indices = Some {0},
      recommended_movie_indices = Some {}\<rparr>"

text \<open>
  A second entry with the description of \<open>rain_video\<close>, and three entries of which
  two score 10 and one scores 0 against \<open>abcdefghij\<close>.
\<close>

definition storm_video :: video where
  "storm_video =
     \<lparr>index = 2, url = ''https://www.youtube.com/embed/ccccccccccc'', desc = ''rain'',
      title = ''Storm song''\<rparr>"

definition tie_video_a :: video where
  "tie_video_a =
     \<lparr>index = 0, url = ''https://youtu.be/ddddddddddd'', desc = ''aqqqqqqqqq'', title = ''A''\<rparr>"

definition tie_video_b :: video where
  "tie_video_b =
     \<lparr>index = 1, url = ''https://youtu.be/eeeeeeeeeee'', desc = ''auuuuuuuuu'', title = ''B''\<rparr>"

definition low_video :: video where
  "low_video =
     \<lparr>index = 2, url = ''https://youtu.be/fffffffffff'', desc = ''zzzzzzzzzz'', title = ''C''\<rparr>"


text \<open>
  Two payloads with a \<open>Wx\<close> element whose one time entry parses: in the first the
  entry has no \<open>parameter\<close>, in the second it has one. The worlds answer every
  request with them and parse the one time string.
\<close>

definition bare_payload :: json where
  "bare_payload =
     JObj [(''records'', JObj [(''location'', JArr [JObj [(''weatherElement'', JArr
       [JObj [(''elementName'', JStr ''Wx''),
              (''time'', JArr [JObj [(''startTime'', JStr ''2024-05-01 06:00:00'')]])]])]])])]"

definition sunny_payload :: json where
  "sunny_payload =
     JObj [(''records'', JObj [(''location'', JArr [JObj [(''weatherElement'', JArr
       [JObj [(''elementName'', JStr ''Wx''),
              (''time'', JArr [JObj [(''startTime'', JStr ''2024-05-01 06:00:00''),
                                     (''parameter'', JObj [(''parameterName'', JStr ''sunny'')])]])]])]])])]"

definition may_morning :: "string \<Rightarrow> datetime option" where
  "may_morning s =
     (if s = ''2024-05-01 06:00:00''
      then Some \<lparr>stamp = 0, dt_month = 5, dt_day = 1, dt_hour = 6\<rparr> else None)"

definition bare_world :: world where
  "bare_world = demo_world\<lparr>requests_get_json := (\<lambda>u. Inr bare_payload), strptime := may_morning\<rparr>"

definition sunny_world :: world where
  "sunny_world = demo_world\<lparr>requests_get_json := (\<lambda>u. Inr sunny_payload), strptime := may_morning\<rparr>"

section \<open>Properties\<close>

subsection \<open>Helper lemmas\<close>

text \<open>Random choice, and the videos a recommendation can select.\<close>

lemma choice_mem: "xs \<noteq> [] \<Longrightarrow> choice r xs \<in> set xs"
  by (simp add: choice_def)

lemma choice_onto: "v \<in> set xs \<Longrightarrow> \<exists>r. choice r xs = v"
proof -
  assume "v \<in> set xs"
  then obtain i where "i < length xs" "xs ! i = v" by (auto simp: in_set_conv_nth)
  then have "choice i xs = v" by (simp add: choice_def)
  then show ?thesis ..
qed

lemma music_done_update [simp]:
  "music_done (st\<lparr>recommended_music_original_indices := Some s\<rparr>) = s"
  by (simp add: music_done_def)

lemma keep_done: "st\<lparr>recommended_music_original_indices := Some (music_done st)\<rparr>
    = (if recommended_music_original_indices st = None
       then st\<lparr>recommended_music_original_indices := Some {}\<rparr> else st)"
  by (cases "recommended_music_original_indices st") (simp_all add: music_done_def)

lemma get_available_music_indices_eq:
  "get_available_music_indices all_videos st =
     (if set (map index all_videos) \<subseteq> music_done st \<and> all_videos \<noteq> []
      then (set (map index all_videos), st\<lparr>recommended_music_original_indices := Some {}\<rparr>)
      else (set (map index all_videos) - music_done st,
            st\<lparr>recommended_music_original_indices := Some (music_done st)\<rparr>))"
proof -
  let ?st1 = "if recommended_music_original_indices st = None
              then st\<lparr>recommended_music_original_indices := Some {}\<rparr> else st"
  have d: "music_done ?st1 = music_done st"
    by (simp add: music_done_def)
  have u: "?st1\<lparr>recommended_music_original_indices := Some {}\<rparr>
           = st\<lparr>recommended_music_original_indices := Some {}\<rparr>"
    by simp
  have e: "(set (map index all_videos) - music_done st = {} \<and> set (map index all_videos) \<noteq> {})
           = (set (map index all_videos) \<subseteq> music_done st \<and> all_videos \<noteq> [])"
    by auto
  show ?thesis
    unfolding get_available_music_indices_def Let_def d u e keep_done by simp
qed

lemma not_yet_recommended_nonempty:
  assumes "all_videos \<noteq> []"
  shows "not_yet_recommended all_videos st \<noteq> []"
proof (cases "set (map index all_videos) \<subseteq> music_done st")
  case True
  with assms show ?thesis by (simp add: not_yet_recommended_def)
next
  case False
  then obtain v where "v \<in> set all_videos" "index v \<notin> music_done st" by auto
  then have "v \<in> set (filter (\<lambda>v. index v \<notin> music_done st) all_videos)" by simp
  then have "filter (\<lambda>v. index v \<notin> music_done st) all_videos \<noteq> []"
    by (metis empty_iff list.set(1))
  with False show ?thesis by (simp add: not_yet_recommended_def)
qed

lemma filter_available:
  "filter (\<lambda>v. index v \<in> fst (get_available_music_indices all_videos st)) all_videos
   = not_yet_recommended all_videos st"
proof (cases "set (map index all_videos) \<subseteq> music_done st")
  case True
  have "filter (\<lambda>v. index v \<in> set (map index all_videos)) all_videos = all_videos"
    by (simp add: filter_id_conv)
  with True show ?thesis
    by (cases "all_videos = []") (simp_all add: get_available_music_indices_eq not_yet_recommended_def)
next
  case False
  have "filter (\<lambda>v. index v \<in> set (map index all_videos) - music_done st) all_videos
        = filter (\<lambda>v. index v \<notin> music_done st) all_videos"
    by (rule filter_cong) auto
  with False show ?thesis
    by (simp add: get_available_music_indices_eq not_yet_recommended_def)
qed

lemma snd_available:
  "snd (get_available_music_indices all_videos st)
   = st\<lparr>recommended_music_original_indices :=
          Some (if all_videos = [] then music_done st else kept_indices all_videos st)\<rparr>"
  by (simp add: get_available_music_indices_eq kept_indices_def)

lemma available_videos_eq:
  assumes "all_videos \<noteq> []"
  shows "available_videos all_videos st
         = (not_yet_recommended all_videos st,
            st\<lparr>recommended_music_original_indices := Some (kept_indices all_videos st)\<rparr>)"
proof -
  obtain S st1 where g: "get_available_music_indices all_videos st = (S, st1)"
    by (cases "get_available_music_indices all_videos st")
  with filter_available [of all_videos st]
  have f: "filter (\<lambda>v. index v \<in> S) all_videos = not_yet_recommended all_videos st" by simp
  from g snd_available [of all_videos st] assms
  have s: "st1 = st\<lparr>recommended_music_original_indices := Some (kept_indices all_videos st)\<rparr>"
    by simp
  from not_yet_recommended_nonempty [OF assms] f
  have "filter (\<lambda>v. index v \<in> S) all_videos \<noteq> []" by simp
  then show ?thesis
    by (simp add: available_videos_def g f s)
qed

lemma random_music_recommendation_eq:
  assumes "all_videos \<noteq> []"
  shows "random_music_recommendation w r all_videos st
         = random_pick w (choice r (not_yet_recommended all_videos st))
             (st\<lparr>recommended_music_original_indices := Some (kept_indices all_videos st)\<rparr>)"
proof -
  obtain S st1 where g: "get_available_music_indices all_videos st = (S, st1)"
    by (cases "get_available_music_indices all_videos st")
  with filter_available [of all_videos st]
  have f: "filter (\<lambda>v. index v \<in> S) all_videos = not_yet_recommended all_videos st" by simp
  from g snd_available [of all_videos st] assms
  have s: "st1 = st\<lparr>recommended_music_original_indices := Some (kept_indices all_videos st)\<rparr>"
    by simp
  from not_yet_recommended_nonempty [OF assms] f
  have "filter (\<lambda>v. index v \<in> S) all_videos \<noteq> []" by simp
  with assms show ?thesis
    by (simp add: random_music_recommendation_def g f s)
qed

text \<open>After the available videos were computed, asking again changes nothing.\<close>

lemma not_yet_recommended_again:
  assumes "all_videos \<noteq> []"
  shows "not_yet_recommended all_videos
           (st\<lparr>recommended_music_original_indices := Some (kept_indices all_videos st)\<rparr>)
         = not_yet_recommended all_videos st"
    and "kept_indices all_videos
           (st\<lparr>recommended_music_original_indices := Some (kept_indices all_videos st)\<rparr>)
         = kept_indices all_videos st"
proof -
  from assms have ne: "set (map index all_videos) \<noteq> {}" by simp
  show "not_yet_recommended all_videos
           (st\<lparr>recommended_music_original_indices := Some (kept_indices all_videos st)\<rparr>)
         = not_yet_recommended all_videos st"
    using ne by (auto simp: not_yet_recommended_def kept_indices_def)
  show "kept_indices all_videos
           (st\<lparr>recommended_music_original_indices := Some (kept_indices all_videos st)\<rparr>)
         = kept_indices all_videos st"
    using ne by (auto simp: kept_indices_def)
qed

lemma bindE_simps: "bindE (Inl e) f = Inl e" "bindE (Inr x) f = f x"
  by (simp_all add: bindE_def)

lemma music_done_reset: "music_done (reset_recommendation_states st) = music_done st"
  by (simp add: music_done_def reset_recommendation_states_def)

lemma pool_reset:
  "not_yet_recommended all_videos (reset_recommendation_states st) = not_yet_recommended all_videos st"
  "kept_indices all_videos (reset_recommendation_states st) = kept_indices all_videos st"
  by (simp_all add: not_yet_recommended_def kept_indices_def music_done_reset)

text \<open>The example inputs.\<close>

lemma rain_not_corrected: "MANUAL_CORRECTIONS ''rain'' = None"
  by (simp add: MANUAL_CORRECTIONS_def corrections_def)

lemma rain_no_city: "JStr ''rain'' \<notin> set (map JStr default_location_names)"
  by (simp add: default_location_names_def Taipei_City_def New_Taipei_City_def Taoyuan_City_def
      Taichung_City_def Tainan_City_def Kaohsiung_City_def Keelung_City_def Hsinchu_City_def
      Chiayi_City_def Hsinchu_County_def Miaoli_County_def Changhua_County_def Nantou_County_def
      Yunlin_County_def Chiayi_County_def Pingtung_County_def Yilan_County_def Hualien_County_def
      Taitung_County_def Penghu_County_def Kinmen_County_def Lienchiang_County_def)

lemma fog_id: "extract_youtube_id w ''https://youtu.be/bbbbbbbbbbb'' = Some ''bbbbbbbbbbb''"
  by (simp add: extract_youtube_id_def match_id_at_def id_prefixes_def id_char_def)

lemma rain_id: "extract_youtube_id w ''https://www.youtube.com/watch?v=aaaaaaaaaaa'' = Some ''aaaaaaaaaaa''"
  by (simp add: extract_youtube_id_def match_id_at_def id_prefixes_def id_char_def)

lemma choice_single: "choice r [x] = x"
  by (simp add: choice_def)

lemma choice_second_of_two: "choice 3 [x, y] = y"
proof -
  have "length [x, y] = 2" by simp
  moreover have "(3::nat) mod 2 = 1" by simp
  ultimately have "choice 3 [x, y] = [x, y] ! 1" by (simp only: choice_def)
  then show ?thesis by simp
qed

lemma choice_third_of_three: "choice 2 [x, y, z] = z"
proof -
  have "length [x, y, z] = 3" by simp
  moreover have "(2::nat) mod 3 = 2" by simp
  ultimately have "choice 2 [x, y, z] = [x, y, z] ! 2" by (simp only: choice_def)
  then show ?thesis by simp
qed

lemma demo_scores:
  "matched_with_score demo_world ''rain'' [rain_video, fog_video] = [(rain_video, 100)]"
  by (simp add: matched_with_score_def video_score_def demo_world_def demo_ratio_def
      rain_video_def fog_video_def)

lemma pool_empty_session:
  "not_yet_recommended [rain_video, fog_video] empty_session = [rain_video, fog_video]"
  "kept_indices [rain_video, fog_video] empty_session = {}"
  by (simp_all add: not_yet_recommended_def kept_indices_def music_done_def empty_session_def
      rain_video_def fog_video_def)

lemma pool_rain_heard:
  "not_yet_recommended [rain_video, fog_video] rain_heard = [fog_video]"
  "kept_indices [rain_video, fog_video] rain_heard = {0}"
  by (simp_all add: not_yet_recommended_def kept_indices_def music_done_def rain_heard_def
      rain_video_def fog_video_def)

text \<open>Searching a list, and the correction table.\<close>

lemma first_some_find:
  "first_some (\<lambda>x. if P x then Some (f x) else None) xs = map_option f (find P xs)"
  by (induction xs) auto

lemma first_existing_find:
  "first_existing w base_dir name =
     map_option (\<lambda>ext. path_join base_dir (name @ ''.'' @ ext))
       (find (\<lambda>ext. path_exists w (path_join base_dir (name @ ''.'' @ ext))) IMAGE_EXTENSIONS)"
  unfolding first_existing_def Let_def by (rule first_some_find)

lemma corrections_nonempty: "list_all (\<lambda>p. fst p \<noteq> [] \<and> snd p \<noteq> []) corrections"
  by (simp add: corrections_def Taipei_City_def New_Taipei_City_def Taoyuan_City_def
      Taichung_City_def Tainan_City_def Kaohsiung_City_def Keelung_City_def Hsinchu_City_def
      Chiayi_City_def Hsinchu_County_def Miaoli_County_def Changhua_County_def Nantou_County_def
      Yunlin_County_def Chiayi_County_def Pingtung_County_def Yilan_County_def Hualien_County_def
      Taitung_County_def Penghu_County_def Kinmen_County_def Lienchiang_County_def Taitung_City_def)

lemma correction_nonempty:
  assumes "MANUAL_CORRECTIONS k = Some c"
  shows "k \<noteq> [] \<and> c \<noteq> []"
proof -
  from assms have "(k, c) \<in> set corrections"
    by (simp add: MANUAL_CORRECTIONS_def map_of_SomeD)
  with corrections_nonempty show ?thesis
    by (auto simp: list_all_iff)
qed

text \<open>Nothing but \<open>get_weather_data\<close> reads the network.\<close>

lemma net_py_strptime: "py_strptime (w\<lparr>requests_get_json := g\<rparr>) v = py_strptime w v"
  by (cases v) (simp_all add: py_strptime_def)

lemma net_py_format: "py_format (w\<lparr>requests_get_json := g\<rparr>) v = py_format w v"
  by (cases v) (simp_all add: py_format_def)

lemma net_valid_times: "valid_times (w\<lparr>requests_get_json := g\<rparr>) items = valid_times w items"
  by (induction items) (simp_all add: net_py_strptime cong: sum.case_cong exn.case_cong)

lemma net_period_value:
  "period_value (w\<lparr>requests_get_json := g\<rparr>) start_dt post ts = period_value w start_dt post ts"
  by (induction ts) (simp_all add: net_py_strptime cong: if_cong)

lemma net_pop_of: "pop_of (w\<lparr>requests_get_json := g\<rparr>) start_dt e = pop_of w start_dt e"
  by (simp add: pop_of_def net_period_value
      cong: option.case_cong if_cong sum.case_cong json.case_cong exn.case_cong list.case_cong)

lemma net_temp_of: "temp_of (w\<lparr>requests_get_json := g\<rparr>) start_dt e = temp_of w start_dt e"
  by (simp add: temp_of_def net_period_value
      cong: option.case_cong if_cong sum.case_cong json.case_cong exn.case_cong list.case_cong)

lemma net_digit_run: "digit_run (w\<lparr>requests_get_json := g\<rparr>) s = digit_run w s"
proof (induction s rule: length_induct)
  case (1 s)
  show ?case
  proof (cases s)
    case Nil
    then show ?thesis by (simp add: digit_run.simps)
  next
    case (Cons c cs)
    have a: "digit_run (w\<lparr>requests_get_json := g\<rparr>) cs = digit_run w cs"
      using 1 Cons by simp
    have b: "digit_run (w\<lparr>requests_get_json := g\<rparr>) (drop (unicode_digit w (c # cs)) (c # cs))
             = digit_run w (drop (unicode_digit w (c # cs)) (c # cs))"
      if "unicode_digit w (c # cs) \<noteq> 0"
      using 1 Cons that by simp
    show ?thesis
      unfolding Cons
      by (subst (1 2) digit_run.simps) (auto simp: a b)
  qed
qed

lemma net_match_usercontent_at:
  "match_usercontent_at (w\<lparr>requests_get_json := g\<rparr>) = match_usercontent_at w"
  by (rule ext) (simp add: match_usercontent_at_def net_digit_run
      cong: option.case_cong if_cong)

lemma net_extract_youtube_id:
  "extract_youtube_id (w\<lparr>requests_get_json := g\<rparr>) u = extract_youtube_id w u"
  by (simp add: extract_youtube_id_def net_match_usercontent_at
      cong: option.case_cong if_cong sum.case_cong json.case_cong exn.case_cong list.case_cong)

lemma net_random_music_recommendation:
  "random_music_recommendation (w\<lparr>requests_get_json := g\<rparr>) r vs st
   = random_music_recommendation w r vs st"
  by (simp add: random_music_recommendation_def random_pick_def net_extract_youtube_id
      cong: option.case_cong if_cong sum.case_cong json.case_cong exn.case_cong list.case_cong)

lemma net_matched_with_score:
  "matched_with_score (w\<lparr>requests_get_json := g\<rparr>) d vs = matched_with_score w d vs"
  by (simp add: matched_with_score_def video_score_def
      cong: option.case_cong if_cong sum.case_cong json.case_cong exn.case_cong list.case_cong)

lemma net_find_and_recommend_music:
  "find_and_recommend_music (w\<lparr>requests_get_json := g\<rparr>) r d vs st
   = find_and_recommend_music w r d vs st"
  by (simp add: find_and_recommend_music_def weather_pick_def net_extract_youtube_id
      net_matched_with_score net_random_music_recommendation
      cong: option.case_cong if_cong sum.case_cong json.case_cong exn.case_cong list.case_cong)

lemma net_get_image_path_or_default:
  "get_image_path_or_default (w\<lparr>requests_get_json := g\<rparr>) b c = get_image_path_or_default w b c"
  by (simp add: get_image_path_or_default_def first_existing_def
      cong: option.case_cong if_cong sum.case_cong json.case_cong exn.case_cong list.case_cong)

lemma net_load_local_image_as_base64:
  "load_local_image_as_base64 (w\<lparr>requests_get_json := g\<rparr>) p n = load_local_image_as_base64 w p n"
  by (simp add: load_local_image_as_base64_def
      cong: option.case_cong if_cong sum.case_cong json.case_cong exn.case_cong list.case_cong)

lemma net_weather_code_of:
  "weather_code_of (w\<lparr>requests_get_json := g\<rparr>) d codes = weather_code_of w d codes"
  by (simp add: weather_code_of_def
      cong: option.case_cong if_cong sum.case_cong json.case_cong exn.case_cong list.case_cong)

lemma net_show_weather_image:
  "show_weather_image (w\<lparr>requests_get_json := g\<rparr>) d c st = show_weather_image w d c st"
  by (simp add: show_weather_image_def net_get_image_path_or_default
      net_load_local_image_as_base64 net_py_format
      cong: option.case_cong if_cong sum.case_cong json.case_cong exn.case_cong list.case_cong)

lemma net_show_weather_failure:
  "show_weather_failure (w\<lparr>requests_get_json := g\<rparr>) c raw st = show_weather_failure w c raw st"
  by (simp add: show_weather_failure_def net_get_image_path_or_default
      net_load_local_image_as_base64 net_py_format
      cong: option.case_cong if_cong sum.case_cong json.case_cong exn.case_cong list.case_cong)

lemma net_weather_branch:
  "weather_branch (w\<lparr>requests_get_json := g\<rparr>) r c raw vs rm codes st
   = weather_branch w r c raw vs rm codes st"
  by (simp add: weather_branch_def net_py_format net_weather_code_of net_show_weather_image
      net_find_and_recommend_music net_show_weather_failure
      cong: option.case_cong if_cong sum.case_cong json.case_cong exn.case_cong list.case_cong)

lemma net_weather_try:
  assumes "g (api_url @ k @ ''&locationName='' @ c) = requests_get_json w (api_url @ k @ ''&locationName='' @ c)"
  shows "weather_try (w\<lparr>requests_get_json := g\<rparr>) k c = weather_try w k c"
  using assms
  by (simp add: weather_try_def net_valid_times net_pop_of net_temp_of net_py_format
      cong: option.case_cong if_cong sum.case_cong json.case_cong exn.case_cong list.case_cong)

lemma net_get_weather_data:
  assumes "g (api_url @ k @ ''&locationName='' @ c) = requests_get_json w (api_url @ k @ ''&locationName='' @ c)"
  shows "get_weather_data (w\<lparr>requests_get_json := g\<rparr>) k c = get_weather_data w k c"
  by (simp add: get_weather_data_def net_weather_try [where g = g and w = w and k = k and c = c, OF assms]
      cong: option.case_cong if_cong sum.case_cong json.case_cong exn.case_cong list.case_cong)

lemma process_query_corrected:
  assumes "MANUAL_CORRECTIONS city_input = Some c"
  shows "process_query w k r city_input location_names all_videos movie_poster_urls
           recommend_music loaded_weather_codes st
         = ([c], weather_branch w r c (get_weather_data w k c) all_videos recommend_music
                   loaded_weather_codes (reset_recommendation_states st))"
proof -
  from assms have "city_input \<noteq> []" and "c \<noteq> []"
    using correction_nonempty by blast+
  with assms show ?thesis
    by (simp add: process_query_def Let_def opt_truthy_def)
qed

text \<open>What \<open>process_query\<close> does with a keyword.\<close>

lemma keyword_gets_random:
  assumes "city_input \<noteq> []" and "MANUAL_CORRECTIONS city_input = None"
    and "JStr city_input \<notin> set location_names"
  shows "(all_videos \<noteq> [] \<longrightarrow>
           (let pool = not_yet_recommended all_videos st;
                v = choice r pool;
                y = extract_youtube_id w (url v)
            in v \<in> set pool
               \<and> (\<forall>u \<in> set pool. \<exists>r'. choice r' pool = u)
               \<and> process_query w k r city_input location_names all_videos movie_poster_urls
                    recommend_music loaded_weather_codes st
                  = ([], Inr ((reset_recommendation_states st)
                        \<lparr>result_text := (if opt_truthy y then t_random_song else t_no_id_retry),
                         recommended_youtube_id := (if opt_truthy y then y else None),
                         recommended_music_original_indices :=
                           Some (insert (index v) (kept_indices all_videos st))\<rparr>))))
       \<and> (all_videos = [] \<longrightarrow>
            process_query w k r city_input location_names all_videos movie_poster_urls
              recommend_music loaded_weather_codes st
            = ([], Inr ((reset_recommendation_states st)\<lparr>result_text := t_music_list_empty_random\<rparr>)))"
proof (intro conjI impI)
  assume ne: "all_videos \<noteq> []"
  let ?st0 = "reset_recommendation_states st"
  let ?pool = "not_yet_recommended all_videos st"
  let ?v = "choice r ?pool"
  let ?y = "extract_youtube_id w (url ?v)"
  have mem: "?v \<in> set ?pool"
    using not_yet_recommended_nonempty [OF ne] by (rule choice_mem)
  have onto: "\<forall>u \<in> set ?pool. \<exists>r'. choice r' ?pool = u"
    by (auto intro: choice_onto)
  have rm: "random_music_recommendation w r all_videos ?st0
        = random_pick w ?v
            (?st0\<lparr>recommended_music_original_indices := Some (kept_indices all_videos st)\<rparr>)"
    using random_music_recommendation_eq [OF ne, of w r ?st0] by (simp add: pool_reset)
  have pq: "process_query w k r city_input location_names all_videos movie_poster_urls
              recommend_music loaded_weather_codes st
            = ([], Inr (?st0
                  \<lparr>result_text := (if opt_truthy ?y then t_random_song else t_no_id_retry),
                   recommended_youtube_id := (if opt_truthy ?y then ?y else None),
                   recommended_music_original_indices :=
                     Some (insert (index ?v) (kept_indices all_videos st))\<rparr>))"
    using assms
    apply (simp add: process_query_def Let_def rm)
    apply (simp add: opt_truthy_def random_pick_def add_music_index_def reset_recommendation_states_def Let_def)
    done
  from mem onto pq
  show "let pool = not_yet_recommended all_videos st;
            v = choice r pool;
            y = extract_youtube_id w (url v)
        in v \<in> set pool
           \<and> (\<forall>u \<in> set pool. \<exists>r'. choice r' pool = u)
           \<and> process_query w k r city_input location_names all_videos movie_poster_urls
                recommend_music loaded_weather_codes st
              = ([], Inr ((reset_recommendation_states st)
                    \<lparr>result_text := (if opt_truthy y then t_random_song else t_no_id_retry),
                     recommended_youtube_id := (if opt_truthy y then y else None),
                     recommended_music_original_indices :=
                       Some (insert (index v) (kept_indices all_videos st))\<rparr>))"
    unfolding Let_def by blast
next
  assume "all_videos = []"
  with assms
  show "process_query w k r city_input location_names all_videos movie_poster_urls
          recommend_music loaded_weather_codes st
        = ([], Inr ((reset_recommendation_states st)\<lparr>result_text := t_music_list_empty_random\<rparr>))"
    by (simp add: process_query_def Let_def opt_truthy_def random_music_recommendation_def
        reset_recommendation_states_def)
qed

text \<open>Scores, the best score, and what the two music functions return.\<close>

lemma fold_best:
  "fold (\<lambda>p best. if snd p > best then snd p else best) ms (b::int) = Max (insert b (snd ` set ms))"
proof (induction ms arbitrary: b)
  case Nil
  then show ?case by simp
next
  case (Cons m ms)
  have "(if snd m > b then snd m else b) = max b (snd m)" by auto
  then have "fold (\<lambda>p best. if snd p > best then snd p else best) (m # ms) b
        = Max (insert (max b (snd m)) (snd ` set ms))"
    using Cons.IH by simp
  also have "\<dots> = Max (insert b (snd ` set (m # ms)))"
  proof (cases "set ms = {}")
    case True
    then show ?thesis by (simp add: max.commute)
  next
    case False
    then have ne: "snd ` set ms \<noteq> {}" by simp
    have "Max (insert (max b (snd m)) (snd ` set ms)) = max (max b (snd m)) (Max (snd ` set ms))"
      using ne by simp
    also have "\<dots> = max b (max (snd m) (Max (snd ` set ms)))" by (simp add: max.assoc)
    also have "\<dots> = Max (insert b (insert (snd m) (snd ` set ms)))"
      using ne by simp
    finally show ?thesis by simp
  qed
  finally show ?case .
qed

lemma matched_as_filter:
  "map fst (filter P (matched_with_score w d vs))
   = filter (\<lambda>v. 30 \<le> video_score w d v \<and> P (v, video_score w d v)) vs"
  by (induction vs) (auto simp: matched_with_score_def)

lemma matched_scores:
  "snd ` set (matched_with_score w d vs) = {s \<in> video_score w d ` set vs. 30 \<le> s}"
  by (auto simp: matched_with_score_def image_iff)

lemma matched_nonempty_iff:
  "matched_with_score w d vs \<noteq> [] \<longleftrightarrow> (\<exists>v \<in> set vs. 30 \<le> video_score w d v)"
  by (auto simp: matched_with_score_def filter_empty_conv)

lemma best_score_eq:
  assumes "\<exists>v \<in> set vs. 30 \<le> video_score w d v"
  shows "best_score (matched_with_score w d vs) = Max (video_score w d ` set vs)"
    and "30 \<le> Max (video_score w d ` set vs)"
proof -
  let ?S = "video_score w d ` set vs"
  let ?T = "{s \<in> ?S. 30 \<le> s}"
  have fin: "finite ?S" "finite ?T" by simp_all
  from assms obtain v where v: "v \<in> set vs" "30 \<le> video_score w d v" by blast
  then have neT: "?T \<noteq> {}" and neS: "?S \<noteq> {}" by auto
  from v have "video_score w d v \<le> Max ?S" by simp
  with v show big: "30 \<le> Max ?S" by linarith
  have "Max ?S \<in> ?S" using fin(1) neS by (rule Max_in)
  with big have inT: "Max ?S \<in> ?T" by simp
  have "Max ?T = Max ?S"
  proof (rule antisym)
    show "Max ?T \<le> Max ?S" using fin neT by (intro Max_mono) auto
    show "Max ?S \<le> Max ?T" using inT fin by simp
  qed
  moreover have "Max (insert (- 1) ?T) = Max ?T"
  proof -
    have "- 1 \<le> Max ?T" using inT big \<open>Max ?T = Max ?S\<close> by linarith
    then show ?thesis using fin neT by (simp add: max_def)
  qed
  ultimately show "best_score (matched_with_score w d vs) = Max ?S"
    by (simp add: best_score_def fold_best matched_scores)
qed

lemma top_score_matches_eq:
  assumes "\<exists>v \<in> set vs. 30 \<le> video_score w d v"
  shows "top_score_matches (matched_with_score w d vs)
         = filter (\<lambda>v. video_score w d v = Max (video_score w d ` set vs)) vs"
proof -
  note b = best_score_eq [OF assms]
  have "top_score_matches (matched_with_score w d vs)
        = filter (\<lambda>v. 30 \<le> video_score w d v \<and> video_score w d v = Max (video_score w d ` set vs)) vs"
    by (simp add: top_score_matches_def matched_as_filter b(1))
  also have "\<dots> = filter (\<lambda>v. video_score w d v = Max (video_score w d ` set vs)) vs"
    using b(2) by (intro filter_cong) auto
  finally show ?thesis .
qed

lemma top_score_nonempty:
  assumes "\<exists>v \<in> set vs. 30 \<le> video_score w d v"
  shows "filter (\<lambda>v. video_score w d v = Max (video_score w d ` set vs)) vs \<noteq> []"
proof -
  from assms have "video_score w d ` set vs \<noteq> {}" by auto
  then have "Max (video_score w d ` set vs) \<in> video_score w d ` set vs"
    by (intro Max_in) simp_all
  then obtain v where "v \<in> set vs" "video_score w d v = Max (video_score w d ` set vs)"
    by auto
  then show ?thesis by (auto simp: filter_empty_conv)
qed

lemma top_score_matches_nonempty:
  "matched \<noteq> [] \<Longrightarrow> \<forall>p \<in> set matched. - 1 < snd p \<Longrightarrow> top_score_matches matched \<noteq> []"
proof -
  assume ne: "matched \<noteq> []" and pos: "\<forall>p \<in> set matched. - 1 < snd p"
  let ?T = "snd ` set matched"
  from ne have neT: "?T \<noteq> {}" by simp
  have "Max ?T \<in> ?T" using neT by (intro Max_in) simp_all
  moreover from this pos have "- 1 \<le> Max ?T" by auto
  then have "Max (insert (- 1) ?T) = Max ?T" using neT by (simp add: max_def)
  ultimately obtain p where "p \<in> set matched" "snd p = best_score matched"
    by (auto simp: best_score_def fold_best)
  then show ?thesis by (auto simp: top_score_matches_def filter_empty_conv)
qed

lemma available_videos_nonempty:
  "all_videos \<noteq> [] \<Longrightarrow> fst (available_videos all_videos st) \<noteq> []"
  by (simp add: available_videos_eq not_yet_recommended_nonempty)

lemma find_and_recommend_music_eq:
  assumes "all_videos \<noteq> []"
  shows "find_and_recommend_music w r (JStr d) all_videos st =
     (let avail = not_yet_recommended all_videos st;
          st1 = st\<lparr>recommended_music_original_indices := Some (kept_indices all_videos st)\<rparr>
      in if \<exists>v \<in> set avail. 30 \<le> video_score w d v
         then Inr (weather_pick w
                (choice r (filter (\<lambda>v. video_score w d v = Max (video_score w d ` set avail)) avail)) st1)
         else Inr (random_pick w (choice r avail) st1))"
proof -
  let ?avail = "not_yet_recommended all_videos st"
  let ?st1 = "st\<lparr>recommended_music_original_indices := Some (kept_indices all_videos st)\<rparr>"
  have ne: "?avail \<noteq> []" using assms by (rule not_yet_recommended_nonempty)
  have rm: "random_music_recommendation w r all_videos ?st1 = random_pick w (choice r ?avail) ?st1"
    using random_music_recommendation_eq [OF assms, of w r ?st1]
    by (simp add: not_yet_recommended_again [OF assms])
  show ?thesis
  proof (cases "\<exists>v \<in> set ?avail. 30 \<le> video_score w d v")
    case True
    then have m: "matched_with_score w d ?avail \<noteq> []" by (simp add: matched_nonempty_iff)
    from True m assms ne show ?thesis
      by (simp add: find_and_recommend_music_def available_videos_eq Let_def
          top_score_matches_eq [OF True])
  next
    case False
    then have m: "matched_with_score w d ?avail = []" using matched_nonempty_iff by blast
    from False m assms ne show ?thesis
      by (simp add: find_and_recommend_music_def available_videos_eq Let_def rm)
  qed
qed

lemma weather_pick_eq:
  "weather_pick w v (st\<lparr>recommended_music_original_indices := Some kept\<rparr>)
   = ((if opt_truthy (extract_youtube_id w (url v)) then (t_listen_to_this, extract_youtube_id w (url v))
       else (t_listen_to_this @ t_sorry_no_id, None)),
      st\<lparr>recommended_music_original_indices := Some (insert (index v) kept)\<rparr>)"
  by (simp add: weather_pick_def add_music_index_def Let_def)

lemma random_pick_eq:
  "random_pick w v (st\<lparr>recommended_music_original_indices := Some kept\<rparr>)
   = ((if opt_truthy (extract_youtube_id w (url v)) then (t_random_song, extract_youtube_id w (url v))
       else (t_no_id_retry, None)),
      st\<lparr>recommended_music_original_indices := Some (insert (index v) kept)\<rparr>)"
  by (simp add: random_pick_def add_music_index_def Let_def)

lemma weather_matched_selection:
  assumes "all_videos \<noteq> []"
    and "\<exists>v \<in> set (not_yet_recommended all_videos st). 30 \<le> video_score w d v"
  shows "let avail = not_yet_recommended all_videos st;
             top = filter (\<lambda>v. video_score w d v = Max (video_score w d ` set avail)) avail;
             v = choice r top;
             y = extract_youtube_id w (url v)
         in top \<noteq> [] \<and> v \<in> set top
            \<and> (\<forall>u \<in> set top. \<exists>r'. choice r' top = u)
            \<and> top_score_matches (matched_with_score w d avail) = top
            \<and> find_and_recommend_music w r (JStr d) all_videos st
              = Inr ((if opt_truthy y then (t_listen_to_this, y)
                      else (t_listen_to_this @ t_sorry_no_id, None)),
                     st\<lparr>recommended_music_original_indices :=
                          Some (insert (index v) (kept_indices all_videos st))\<rparr>)"
proof -
  let ?avail = "not_yet_recommended all_videos st"
  let ?top = "filter (\<lambda>v. video_score w d v = Max (video_score w d ` set ?avail)) ?avail"
  have ne: "?top \<noteq> []" using assms(2) by (rule top_score_nonempty)
  then have mem: "choice r ?top \<in> set ?top" by (rule choice_mem)
  have onto: "\<forall>u \<in> set ?top. \<exists>r'. choice r' ?top = u" by (auto intro: choice_onto)
  have tm: "top_score_matches (matched_with_score w d ?avail) = ?top"
    using assms(2) by (rule top_score_matches_eq)
  have fm: "find_and_recommend_music w r (JStr d) all_videos st
            = Inr ((if opt_truthy (extract_youtube_id w (url (choice r ?top)))
                    then (t_listen_to_this, extract_youtube_id w (url (choice r ?top)))
                    else (t_listen_to_this @ t_sorry_no_id, None)),
                   st\<lparr>recommended_music_original_indices :=
                        Some (insert (index (choice r ?top)) (kept_indices all_videos st))\<rparr>)"
    using assms(2) by (simp add: find_and_recommend_music_eq [OF assms(1)] Let_def weather_pick_eq)
  from ne mem onto tm fm show ?thesis unfolding Let_def by blast
qed

lemma fallback_selection:
  assumes "all_videos \<noteq> []"
    and "\<forall>v \<in> set (not_yet_recommended all_videos st). video_score w d v < 30"
  shows "let avail = not_yet_recommended all_videos st;
             v = choice r avail;
             y = extract_youtube_id w (url v)
         in v \<in> set avail
            \<and> (\<forall>u \<in> set avail. \<exists>r'. choice r' avail = u)
            \<and> find_and_recommend_music w r (JStr d) all_videos st
              = Inr ((if opt_truthy y then (t_random_song, y) else (t_no_id_retry, None)),
                     st\<lparr>recommended_music_original_indices :=
                          Some (insert (index v) (kept_indices all_videos st))\<rparr>)"
proof -
  let ?avail = "not_yet_recommended all_videos st"
  have ne: "?avail \<noteq> []" using assms(1) by (rule not_yet_recommended_nonempty)
  then have mem: "choice r ?avail \<in> set ?avail" by (rule choice_mem)
  have onto: "\<forall>u \<in> set ?avail. \<exists>r'. choice r' ?avail = u" by (auto intro: choice_onto)
  from assms(2) have no: "\<not> (\<exists>v \<in> set ?avail. 30 \<le> video_score w d v)" by auto
  have fm: "find_and_recommend_music w r (JStr d) all_videos st
            = Inr ((if opt_truthy (extract_youtube_id w (url (choice r ?avail)))
                    then (t_random_song, extract_youtube_id w (url (choice r ?avail)))
                    else (t_no_id_retry, None)),
                   st\<lparr>recommended_music_original_indices :=
                        Some (insert (index (choice r ?avail)) (kept_indices all_videos st))\<rparr>)"
    using no by (simp add: find_and_recommend_music_eq [OF assms(1)] Let_def random_pick_eq)
  from mem onto fm show ?thesis unfolding Let_def by blast
qed

lemma pool_fresh:
  assumes "music_done st = {}"
  shows "not_yet_recommended all_videos st = all_videos" and "kept_indices all_videos st = {}"
  using assms by (auto simp: not_yet_recommended_def kept_indices_def)

lemma empty_session_fresh: "music_done empty_session = {}"
  by (simp add: music_done_def empty_session_def)

lemma demo_video_scores:
  "video_score demo_world ''rain'' rain_video = 100"
  "video_score demo_world ''rain'' fog_video = 0"
  "video_score demo_world ''rain'' storm_video = 100"
  "video_score demo_world ''fog'' rain_video = 0"
  "video_score demo_world ''fog'' fog_video = 100"
  "video_score demo_world ''xyz'' rain_video = 0"
  "video_score demo_world ''xyz'' fog_video = 0"
  "video_score demo_world ''abcdefghij'' tie_video_a = 10"
  "video_score demo_world ''abcdefghij'' tie_video_b = 10"
  "video_score demo_world ''abcdefghij'' low_video = 0"
  by (simp_all add: video_score_def demo_world_def demo_ratio_def rain_video_def fog_video_def
      storm_video_def tie_video_a_def tie_video_b_def low_video_def)

lemma demo_video_ids:
  "extract_youtube_id w (url rain_video) = Some ''aaaaaaaaaaa''"
  "extract_youtube_id w (url fog_video) = Some ''bbbbbbbbbbb''"
  "extract_youtube_id w (url storm_video) = Some ''ccccccccccc''"
  "extract_youtube_id w (url low_video) = Some ''fffffffffff''"
  by (simp_all add: rain_video_def fog_video_def storm_video_def low_video_def
      extract_youtube_id_def match_id_at_def id_prefixes_def id_char_def)

lemma demo_video_indices:
  "index rain_video = 0" "index fog_video = 1" "index storm_video = 2" "index low_video = 2"
  by (simp_all add: rain_video_def fog_video_def storm_video_def low_video_def)

lemma movies_done_music_update [simp]:
  "movies_done (st\<lparr>recommended_music_original_indices := x\<rparr>) = movies_done st"
  by (simp add: movies_done_def)















subsection \<open>What a successful forecast needs\<close>

text \<open>
  Facts about the pieces of \<open>get_weather_data\<close>: what a successful subscript, a
  found element and a kept time entry say about the payload, and the two shapes of
  a result.
\<close>

lemma bindE_Inr: "bindE m f = Inr y \<Longrightarrow> \<exists>x. m = Inr x \<and> f x = Inr y"
  by (cases m) (simp_all add: bindE_def)

lemma py_getitem_Inr: "py_getitem v k = Inr x \<Longrightarrow> \<exists>m. v = JObj m \<and> map_of m k = Some x"
  by (cases v) (auto simp: py_getitem_def split: option.splits)

lemma find_element_Some:
  "find_element n elems = Inr (Some e) \<Longrightarrow> e \<in> set elems \<and> py_getitem e ''elementName'' = Inr (JStr n)"
proof (induction elems)
  case Nil
  then show ?case by simp
next
  case (Cons a elems)
  from Cons.prems obtain x where x: "py_getitem a ''elementName'' = Inr x"
    and r: "(if x = JStr n then Inr (Some a) else find_element n elems) = Inr (Some e)"
    by (auto dest: bindE_Inr)
  show ?case
  proof (cases "x = JStr n")
    case True
    with r x show ?thesis by simp
  next
    case False
    with r have "find_element n elems = Inr (Some e)" by simp
    with Cons.IH show ?thesis by simp
  qed
qed

lemma valid_times_parses:
  "valid_times w items = Inr vts \<Longrightarrow> p \<in> set vts \<Longrightarrow> fst p \<in> set items \<and> parses w (fst p)"
proof (induction items arbitrary: vts)
  case Nil
  then show ?case by simp
next
  case (Cons item items)
  from Cons.prems(1) obtain s where s: "py_getitem item ''startTime'' = Inr s"
    and r: "(case py_strptime w s of
               Inl ValueError \<Rightarrow> valid_times w items
             | Inl e \<Rightarrow> Inl e
             | Inr d \<Rightarrow> bindE (valid_times w items) (\<lambda>rest. Inr ((item, d) # rest))) = Inr vts"
    by (auto dest: bindE_Inr)
  show ?case
  proof (cases "py_strptime w s")
    case (Inl e)
    with r have "valid_times w items = Inr vts" by (cases e) simp_all
    with Cons.IH Cons.prems(2) show ?thesis by auto
  next
    case (Inr d)
    with r obtain rest where rest: "valid_times w items = Inr rest" and v: "vts = (item, d) # rest"
      by (auto dest: bindE_Inr)
    from Inr obtain str where str: "s = JStr str" "strptime w str = Some d"
      by (cases s) (auto simp: py_strptime_def split: option.splits)
    from s obtain m where "item = JObj m" "map_of m ''startTime'' = Some s"
      by (auto dest: py_getitem_Inr)
    with str have "parses w item" by (simp add: parses_def)
    with Cons.IH [OF rest] Cons.prems(2) v show ?thesis by auto
  qed
qed

lemma py_iter_JObj_member:
  assumes "py_iter v = Inr xs" and "JObj m \<in> set xs"
  shows "v = JArr xs"
  using assms by (cases v) (auto simp: py_iter_def)

lemma py_first_JObj:
  assumes "py_first v = Inr (JObj l)"
  shows "\<exists>rest. v = JArr (JObj l # rest)"
  using assms by (cases v) (auto simp: py_first_def split: list.splits)

lemma error_result_status:
  "map_of (error_result t) ''status'' = Some (JStr ''error'')"
  "map_of (error_result t) ''display_text'' = Some (JStr t)"
  by (simp_all add: error_result_def)

lemma weather_try_success_facts:
  assumes "weather_try w k c = Inr d" and "map_of d ''status'' = Some (JStr ''success'')"
  shows "\<exists>data records location location_data we elems wx time_elements items v vs.
           requests_get_json w (api_url @ k @ ''&locationName='' @ c) = Inr data
         \<and> py_getitem data ''records'' = Inr records
         \<and> py_getitem records ''location'' = Inr location
         \<and> py_first location = Inr location_data
         \<and> py_getitem location_data ''weatherElement'' = Inr we
         \<and> py_iter we = Inr elems
         \<and> find_element ''Wx'' elems = Inr (Some wx)
         \<and> py_getitem wx ''time'' = Inr time_elements
         \<and> py_iter time_elements = Inr items
         \<and> valid_times w items = Inr (v # vs)"
  using assms unfolding weather_try_def Let_def bindE_def
  by (auto simp: error_result_status split: sum.splits if_splits option.splits list.splits)

lemma weather_try_shape:
  assumes "weather_try w k c = Inr d"
  shows "(\<exists>t. d = error_result t) \<or> (\<exists>t. map_of d ''status'' = Some (JStr ''success'') \<and> map_of d ''display_text'' = Some (JStr t))"
  using assms unfolding weather_try_def Let_def bindE_def
  by (auto split: sum.splits if_splits option.splits list.splits)

lemma success_needs_forecast:
  assumes "weather_try w k c = Inr d" and "map_of d ''status'' = Some (JStr ''success'')"
  shows "\<exists>data. requests_get_json w (api_url @ k @ ''&locationName='' @ c) = Inr data
               \<and> has_wx_forecast w data"
proof -
  from weather_try_success_facts [OF assms]
  obtain data records location location_data we elems wx time_elements items v vs where
    f: "requests_get_json w (api_url @ k @ ''&locationName='' @ c) = Inr data"
       "py_getitem data ''records'' = Inr records"
       "py_getitem records ''location'' = Inr location"
       "py_first location = Inr location_data"
       "py_getitem location_data ''weatherElement'' = Inr we"
       "py_iter we = Inr elems"
       "find_element ''Wx'' elems = Inr (Some wx)"
       "py_getitem wx ''time'' = Inr time_elements"
       "py_iter time_elements = Inr items"
       "valid_times w items = Inr (v # vs)"
    by blast
  from f(2) obtain dm where dm: "data = JObj dm" "map_of dm ''records'' = Some records"
    by (auto dest: py_getitem_Inr)
  from f(3) obtain rm where rm: "records = JObj rm" "map_of rm ''location'' = Some location"
    by (auto dest: py_getitem_Inr)
  from f(5) obtain lm where lm: "location_data = JObj lm" "map_of lm ''weatherElement'' = Some we"
    by (auto dest: py_getitem_Inr)
  from f(4) lm(1) obtain rest where loc: "location = JArr (JObj lm # rest)"
    by (auto dest: py_first_JObj)
  from find_element_Some [OF f(7)] have wx: "wx \<in> set elems"
    and nm: "py_getitem wx ''elementName'' = Inr (JStr ''Wx'')" by simp_all
  from nm obtain wm where wm: "wx = JObj wm" "map_of wm ''elementName'' = Some (JStr ''Wx'')"
    by (auto dest: py_getitem_Inr)
  from f(6) wx wm(1) have we: "we = JArr elems" by (auto dest: py_iter_JObj_member)
  from f(8) wm(1) have tm: "map_of wm ''time'' = Some time_elements"
    by (auto dest: py_getitem_Inr)
  from valid_times_parses [OF f(10), of v] have v: "fst v \<in> set items" "parses w (fst v)"
    by simp_all
  from v(2) obtain vm where vm: "fst v = JObj vm" by (cases "fst v") (simp_all add: parses_def)
  from f(9) v(1) vm have te: "time_elements = JArr items" by (auto dest: py_iter_JObj_member)
  from v have "list_ex (parses w) items" by (auto simp: list_ex_iff)
  with wm tm te have "wx_with_time w wx" by (simp add: wx_with_time_def)
  with wx have "list_ex (wx_with_time w) elems" by (auto simp: list_ex_iff)
  with dm rm loc lm we have "has_wx_forecast w data" by (simp add: has_wx_forecast_def)
  with f(1) show ?thesis by blast
qed

lemma get_weather_data_cases:
  "(\<exists>t. get_weather_data w k c = error_result t)
   \<or> (\<exists>d. weather_try w k c = Inr d \<and> get_weather_data w k c = d
          \<and> map_of d ''status'' = Some (JStr ''success'')
          \<and> (\<exists>t. map_of d ''display_text'' = Some (JStr t)))"
proof (cases "weather_try w k c")
  case (Inl e)
  then have "\<exists>t. get_weather_data w k c = error_result t"
    by (cases e) (simp_all add: get_weather_data_def, blast+)
  then show ?thesis ..
next
  case (Inr d)
  then have g: "get_weather_data w k c = d" by (simp add: get_weather_data_def)
  from weather_try_shape [OF Inr] g Inr show ?thesis by blast
qed

lemma bare_world_sel:
  "requests_get_json bare_world u = Inr bare_payload"
  "strptime bare_world s = may_morning s"
  "datetime_now bare_world = 0"
  by (simp_all add: bare_world_def demo_world_def)

lemma sunny_world_sel:
  "requests_get_json sunny_world u = Inr sunny_payload"
  "strptime sunny_world s = may_morning s"
  "datetime_now sunny_world = 0"
  by (simp_all add: sunny_world_def demo_world_def)

lemma bare_world_fails:
  "weather_try bare_world k c = Inl (KeyError ''parameter'')"
  by (simp add: weather_try_def Let_def bare_world_sel bare_payload_def py_in_def py_getitem_def
      truthy_def py_first_def py_iter_def bindE_simps py_strptime_def may_morning_def
      parameter_name_def)

lemma sunny_world_succeeds:
  "weather_try sunny_world k c
     = Inr [(''status'', JStr ''success''),
            (''description'', JStr ''sunny''),
            (''display_text'', JStr (c @ '' 5/1 '' @ t_morning_to_noon @ t_is @ ''sunny''
                @ t_temp_between @ ''N/A'' @ t_deg_to @ ''N/A'' @ t_deg_rain @ ''N/A'' @ t_oh)),
            (''min_temp'', JStr ''N/A''),
            (''max_temp'', JStr ''N/A''),
            (''pop'', JStr ''N/A'')]"
  by (simp add: weather_try_def Let_def sunny_world_sel sunny_payload_def py_in_def py_getitem_def
      truthy_def py_first_def py_iter_def bindE_simps py_strptime_def may_morning_def
      parameter_name_def pop_of_def temp_of_def time_desc_of_def py_format_def decimal.simps)

subsection \<open>Resetting the display state\<close>

text \<open>
  Claim C9. \<open>reset_recommendation_states\<close> clears the five attributes that show the
  result of one query (\<open>result_text\<close>, \<open>recommended_youtube_id\<close>,
  \<open>recommended_image_url\<close>, \<open>recommended_weather_image_html\<close>,
  \<open>weather_image_caption_desc\<close>) and leaves both sets of recommended indices as
  they were, so the pools without repetition outlive every query.
\<close>

theorem reset_recommendation_states_frame:
  "result_text (reset_recommendation_states st) = []
   \<and> recommended_youtube_id (reset_recommendation_states st) = None
   \<and> recommended_image_url (reset_recommendation_states st) = None
   \<and> recommended_weather_image_html (reset_recommendation_states st) = None
   \<and> weather_image_caption_desc (reset_recommendation_states st) = None
   \<and> recommended_music_original_indices (reset_recommendation_states st)
       = recommended_music_original_indices st
   \<and> recommended_movie_indices (reset_recommendation_states st) = recommended_movie_indices st"
  by (simp add: reset_recommendation_states_def)

subsection \<open>The correction table comes first\<close>

text \<open>
  Claim C3. For every input that is a key of \<open>MANUAL_CORRECTIONS\<close>, whatever the
  list of known city names holds, \<open>process_query\<close> calls \<open>get_weather_data\<close> once,
  with the canonical name \<open>c\<close> of the table: its outcome is what lines 465 to 515
  make of \<open>get_weather_data(c)\<close>. And the raw input is not looked up: the outcome
  stays the same when the network answers differently to every request but the
  one for \<open>c\<close>.
\<close>

theorem process_query_canonical_lookup:
  assumes "MANUAL_CORRECTIONS city_input = Some c"
  shows "process_query w k r city_input location_names all_videos movie_poster_urls
           recommend_music loaded_weather_codes st
         = ([c], weather_branch w r c (get_weather_data w k c) all_videos recommend_music
                   loaded_weather_codes (reset_recommendation_states st))
    \<and> (\<forall>g. g (api_url @ k @ ''&locationName='' @ c)
              = requests_get_json w (api_url @ k @ ''&locationName='' @ c)
          \<longrightarrow> process_query (w\<lparr>requests_get_json := g\<rparr>) k r city_input location_names all_videos
                movie_poster_urls recommend_music loaded_weather_codes st
              = process_query w k r city_input location_names all_videos movie_poster_urls
                  recommend_music loaded_weather_codes st)"
proof (intro conjI allI impI)
  show "process_query w k r city_input location_names all_videos movie_poster_urls
           recommend_music loaded_weather_codes st
         = ([c], weather_branch w r c (get_weather_data w k c) all_videos recommend_music
                   loaded_weather_codes (reset_recommendation_states st))"
    using assms by (rule process_query_corrected)
next
  fix g
  assume "g (api_url @ k @ ''&locationName='' @ c)
          = requests_get_json w (api_url @ k @ ''&locationName='' @ c)"
  then have "get_weather_data (w\<lparr>requests_get_json := g\<rparr>) k c = get_weather_data w k c"
    by (rule net_get_weather_data [where g = g and w = w and k = k and c = c])
  then show "process_query (w\<lparr>requests_get_json := g\<rparr>) k r city_input location_names all_videos
                movie_poster_urls recommend_music loaded_weather_codes st
              = process_query w k r city_input location_names all_videos movie_poster_urls
                  recommend_music loaded_weather_codes st"
    by (simp add: process_query_corrected [OF assms] net_weather_branch)
qed

text \<open>
  In a world whose network errors quote the requested URL, the input U+53F0 U+5317,
  itself in the list of city names, shows the URL that ends in \<open>Taipei_City\<close>.
\<close>

theorem process_query_canonical_lookup_witness:
  "MANUAL_CORRECTIONS [CHR 0xE5, CHR 0x8F, CHR 0xB0, CHR 0xE5, CHR 0x8C, CHR 0x97] = Some Taipei_City
   \<and> process_query echo_world ''key'' 0 [CHR 0xE5, CHR 0x8F, CHR 0xB0, CHR 0xE5, CHR 0x8C, CHR 0x97]
        [JStr [CHR 0xE5, CHR 0x8F, CHR 0xB0, CHR 0xE5, CHR 0x8C, CHR 0x97]] [] [] False []
        empty_session
     = ([Taipei_City],
        Inr (empty_session
             \<lparr>result_text :=
                t_cannot_get @ Taipei_City @ t_network_error
                @ (api_url @ ''key'' @ ''&locationName='' @ Taipei_City) @ t_check_key,
              weather_image_caption_desc :=
                Some (t_cannot_get @ Taipei_City @ t_weather_data_no_image)\<rparr>))"
proof -
  have h: "MANUAL_CORRECTIONS [CHR 0xE5, CHR 0x8F, CHR 0xB0, CHR 0xE5, CHR 0x8C, CHR 0x97] = Some Taipei_City"
    by (simp add: MANUAL_CORRECTIONS_def corrections_def)
  have gw: "get_weather_data echo_world ''key'' Taipei_City
            = error_result (t_cannot_get @ Taipei_City @ t_network_error
                @ (api_url @ ''key'' @ ''&locationName='' @ Taipei_City) @ t_check_key)"
    by (simp add: get_weather_data_def weather_try_def echo_world_def demo_world_def bindE_simps Let_def)
  have img: "get_image_path_or_default echo_world WEATHER_IMAGES_DIR (CodeStr ''default'') = None"
    by (simp add: get_image_path_or_default_def first_existing_def echo_world_def demo_world_def
        IMAGE_EXTENSIONS_def)
  have r0: "reset_recommendation_states empty_session = empty_session"
    by (simp add: reset_recommendation_states_def empty_session_def)
  have wb: "weather_branch echo_world 0 Taipei_City
              (error_result (t_cannot_get @ Taipei_City @ t_network_error
                @ (api_url @ ''key'' @ ''&locationName='' @ Taipei_City) @ t_check_key))
              [] False [] empty_session
            = Inr (empty_session
             \<lparr>result_text :=
                t_cannot_get @ Taipei_City @ t_network_error
                @ (api_url @ ''key'' @ ''&locationName='' @ Taipei_City) @ t_check_key,
              weather_image_caption_desc :=
                Some (t_cannot_get @ Taipei_City @ t_weather_data_no_image)\<rparr>)"
    by (simp add: weather_branch_def error_result_def show_weather_failure_def img opt_truthy_def
        py_format_def Let_def) (simp add: empty_session_def)
  from process_query_canonical_lookup [OF h, where w = echo_world and k = "''key''" and r = 0
      and location_names = "[JStr [CHR 0xE5, CHR 0x8F, CHR 0xB0, CHR 0xE5, CHR 0x8C, CHR 0x97]]"
      and all_videos = "[]" and movie_poster_urls = "[]" and recommend_music = False
      and loaded_weather_codes = "[]" and st = empty_session]
  have "process_query echo_world ''key'' 0 [CHR 0xE5, CHR 0x8F, CHR 0xB0, CHR 0xE5, CHR 0x8C, CHR 0x97]
        [JStr [CHR 0xE5, CHR 0x8F, CHR 0xB0, CHR 0xE5, CHR 0x8C, CHR 0x97]] [] [] False []
        empty_session
        = ([Taipei_City], weather_branch echo_world 0 Taipei_City
             (get_weather_data echo_world ''key'' Taipei_City) [] False []
             (reset_recommendation_states empty_session))"
    by (rule conjunct1)
  with h show ?thesis
    by (simp only: gw r0 wb)
qed

subsection \<open>The picture of a category code\<close>

text \<open>
  Claim C8. For every base directory and category code, \<open>get_image_path_or_default\<close>
  tries the extensions png, gif, jpg, jpeg in that order: it returns the path named
  by the code with the first extension for which the path exists; when there is
  none, the path named \<open>default\<close> with the first extension for which that exists;
  and \<open>None\<close> exactly when neither a code-named nor a default path exists. A path it
  returns exists.
\<close>

theorem get_image_path_or_default_spec:
  fixes w :: world and base_dir :: string and c :: code
  shows "IMAGE_EXTENSIONS = [''png'', ''gif'', ''jpg'', ''jpeg'']
    \<and> (\<forall>i < length IMAGE_EXTENSIONS.
          path_exists w (path_join base_dir (code_str c @ ''.'' @ IMAGE_EXTENSIONS ! i))
          \<and> (\<forall>j < i. \<not> path_exists w (path_join base_dir (code_str c @ ''.'' @ IMAGE_EXTENSIONS ! j)))
          \<longrightarrow> get_image_path_or_default w base_dir c
                = Some (path_join base_dir (code_str c @ ''.'' @ IMAGE_EXTENSIONS ! i)))
    \<and> ((\<forall>ext \<in> set IMAGE_EXTENSIONS. \<not> path_exists w (path_join base_dir (code_str c @ ''.'' @ ext)))
        \<longrightarrow> (\<forall>i < length IMAGE_EXTENSIONS.
              path_exists w (path_join base_dir (''default'' @ ''.'' @ IMAGE_EXTENSIONS ! i))
              \<and> (\<forall>j < i. \<not> path_exists w (path_join base_dir (''default'' @ ''.'' @ IMAGE_EXTENSIONS ! j)))
              \<longrightarrow> get_image_path_or_default w base_dir c
                    = Some (path_join base_dir (''default'' @ ''.'' @ IMAGE_EXTENSIONS ! i))))
    \<and> (get_image_path_or_default w base_dir c = None
        \<longleftrightarrow> (\<forall>ext \<in> set IMAGE_EXTENSIONS.
               \<not> path_exists w (path_join base_dir (code_str c @ ''.'' @ ext))
               \<and> \<not> path_exists w (path_join base_dir (''default'' @ ''.'' @ ext))))
    \<and> (\<forall>p. get_image_path_or_default w base_dir c = Some p \<longrightarrow> path_exists w p)"
proof -
  let ?sp = "\<lambda>ext. path_join base_dir (code_str c @ ''.'' @ ext)"
  let ?df = "\<lambda>ext. path_join base_dir (''default'' @ ''.'' @ ext)"
  let ?R = "get_image_path_or_default w base_dir c"
  have R: "?R = (case find (\<lambda>e. path_exists w (?sp e)) IMAGE_EXTENSIONS of
                   Some e \<Rightarrow> Some (?sp e)
                 | None \<Rightarrow> map_option ?df (find (\<lambda>e. path_exists w (?df e)) IMAGE_EXTENSIONS))"
    by (simp add: get_image_path_or_default_def first_existing_find split: option.splits)
  have a: "IMAGE_EXTENSIONS = [''png'', ''gif'', ''jpg'', ''jpeg'']"
    by (simp add: IMAGE_EXTENSIONS_def)
  have b: "?R = Some (?sp (IMAGE_EXTENSIONS ! i))"
    if "i < length IMAGE_EXTENSIONS" "path_exists w (?sp (IMAGE_EXTENSIONS ! i))"
       "\<forall>j < i. \<not> path_exists w (?sp (IMAGE_EXTENSIONS ! j))" for i
  proof -
    from that have "find (\<lambda>e. path_exists w (?sp e)) IMAGE_EXTENSIONS = Some (IMAGE_EXTENSIONS ! i)"
      unfolding find_Some_iff by blast
    then show ?thesis by (simp add: R)
  qed
  have c: "?R = Some (?df (IMAGE_EXTENSIONS ! i))"
    if "\<forall>ext \<in> set IMAGE_EXTENSIONS. \<not> path_exists w (?sp ext)"
       "i < length IMAGE_EXTENSIONS" "path_exists w (?df (IMAGE_EXTENSIONS ! i))"
       "\<forall>j < i. \<not> path_exists w (?df (IMAGE_EXTENSIONS ! j))" for i
  proof -
    from that(1) have n: "find (\<lambda>e. path_exists w (?sp e)) IMAGE_EXTENSIONS = None"
      unfolding find_None_iff by blast
    from that(2-4) have "find (\<lambda>e. path_exists w (?df e)) IMAGE_EXTENSIONS = Some (IMAGE_EXTENSIONS ! i)"
      unfolding find_Some_iff by blast
    with n show ?thesis by (simp add: R)
  qed
  have d: "?R = None \<longleftrightarrow>
             (\<forall>ext \<in> set IMAGE_EXTENSIONS. \<not> path_exists w (?sp ext) \<and> \<not> path_exists w (?df ext))"
    by (auto simp: R find_None_iff find_Some_iff split: option.splits)
  have e: "path_exists w p" if "?R = Some p" for p
    using that by (auto simp: R find_Some_iff split: option.splits)
  from a b c d e show ?thesis by blast
qed

text \<open>
  With \<open>images/default.gif\<close> as the only file, code 3 gets the default picture; with
  no file at all it gets \<open>None\<close>.
\<close>

theorem get_image_path_or_default_spec_witness:
  "get_image_path_or_default image_world ''images'' (CodeInt 3) = Some ''images/default.gif''
   \<and> get_image_path_or_default demo_world ''images'' (CodeInt 3) = None"
proof -
  have ex: "path_exists image_world p = (p = ''images/default.gif'')" for p
    by (simp add: image_world_def demo_world_def)
  have c3: "code_str (CodeInt 3) = ''3''"
    by (simp add: code_str_def decimal_int_def decimal.simps)
  have len: "Suc 0 < length IMAGE_EXTENSIONS"
    unfolding IMAGE_EXTENSIONS_def by simp
  have nth1: "IMAGE_EXTENSIONS ! Suc 0 = ''gif''"
    unfolding IMAGE_EXTENSIONS_def by simp
  have nth0: "IMAGE_EXTENSIONS ! 0 = ''png''"
    unfolding IMAGE_EXTENSIONS_def by simp
  have no_specific: "\<forall>ext \<in> set IMAGE_EXTENSIONS.
      \<not> path_exists image_world (path_join ''images'' (code_str (CodeInt 3) @ ''.'' @ ext))"
    by (simp add: ex c3 path_join_def IMAGE_EXTENSIONS_def)
  have here: "path_exists image_world (path_join ''images'' (''default'' @ ''.'' @ IMAGE_EXTENSIONS ! Suc 0))"
    by (simp add: ex nth1 path_join_def)
  have before: "\<forall>j < Suc 0. \<not> path_exists image_world
      (path_join ''images'' (''default'' @ ''.'' @ IMAGE_EXTENSIONS ! j))"
    by (simp add: ex nth0 path_join_def)
  from get_image_path_or_default_spec [of image_world "''images''" "CodeInt 3"]
    no_specific len here before
  have "get_image_path_or_default image_world ''images'' (CodeInt 3)
        = Some (path_join ''images'' (''default'' @ ''.'' @ IMAGE_EXTENSIONS ! Suc 0))"
    by blast
  then have 1: "get_image_path_or_default image_world ''images'' (CodeInt 3) = Some ''images/default.gif''"
    by (simp add: nth1 path_join_def)
  have "\<forall>ext \<in> set IMAGE_EXTENSIONS.
      \<not> path_exists demo_world (path_join ''images'' (code_str (CodeInt 3) @ ''.'' @ ext))
      \<and> \<not> path_exists demo_world (path_join ''images'' (''default'' @ ''.'' @ ext))"
    by (simp add: demo_world_def)
  with get_image_path_or_default_spec [of demo_world "''images''" "CodeInt 3"]
  have 2: "get_image_path_or_default demo_world ''images'' (CodeInt 3) = None"
    by blast
  from 1 2 show ?thesis by simp
qed

subsection \<open>Failures that end the program\<close>

text \<open>
  Claim C5 says that no failure is fatal, and names \<open>set_background\<close> and the read
  of the API key. The code does otherwise in three places, evaluated here:
  \<^item> without the file \<open>background.jpg\<close>, \<open>set_background\<close> raises
    \<open>FileNotFoundError\<close>, and so does \<open>main\<close>, which calls it outside any \<open>try\<close>;
  \<^item> without \<open>API_KEY\<close> in the secrets the handler of lines 14 and 15 leaves the
    name unbound, and \<open>get_location_names\<close> raises \<open>NameError\<close> when it builds its
    URL;
  \<^item> a payload whose location has no \<open>locationName\<close> makes \<open>get_location_names\<close>
    raise \<open>KeyError\<close>, its handler catching \<open>RequestException\<close> only.
\<close>

theorem startup_failures_are_fatal:
  "set_background demo_world ''background.jpg'' = Inl FileNotFoundError
   \<and> main_start demo_world [''API_KEY'' \<mapsto> ''key''] = Inl FileNotFoundError
   \<and> get_location_names demo_world (read_api_key Map.empty) = Inl NameError
   \<and> get_location_names nameless_world (read_api_key [''API_KEY'' \<mapsto> ''key''])
       = Inl (KeyError ''locationName'')"
  by (simp add: set_background_def main_start_def get_location_names_def read_api_key_def
      demo_world_def nameless_world_def bindE_def py_in_def py_getitem_def py_iter_def)

subsection \<open>A free-text keyword\<close>

text \<open>
  Claim C6 says that a keyword that is neither a key of the correction table nor a
  known city name gets a recommendation chosen by fuzzy matching the keyword
  against the descriptions of the catalogue. It does not. With the catalogue of
  \<open>rain_video\<close> and \<open>fog_video\<close> and the keyword \<open>rain\<close>, fuzzy matching has
  \<open>rain_video\<close> as its only top match and \<open>find_and_recommend_music\<close> selects it;
  \<open>process_query\<close> with the draw 3 selects \<open>fog_video\<close>, whose score is 0.
\<close>

theorem process_query_keyword_counterexample:
  "MANUAL_CORRECTIONS ''rain'' = None
   \<and> JStr ''rain'' \<notin> set (map JStr default_location_names)
   \<and> top_score_matches (matched_with_score demo_world ''rain'' [rain_video, fog_video]) = [rain_video]
   \<and> find_and_recommend_music demo_world 3 (JStr ''rain'') [rain_video, fog_video]
         (reset_recommendation_states empty_session)
       = Inr ((t_listen_to_this, Some ''aaaaaaaaaaa''),
              empty_session\<lparr>recommended_music_original_indices := Some {index rain_video}\<rparr>)
   \<and> snd (process_query demo_world ''key'' 3 ''rain'' (map JStr default_location_names)
              [rain_video, fog_video] [] True [] empty_session)
       = Inr (empty_session\<lparr>result_text := t_random_song,
                 recommended_youtube_id := Some ''bbbbbbbbbbb'',
                 recommended_music_original_indices := Some {index fog_video}\<rparr>)"
proof -
  have top: "top_score_matches (matched_with_score demo_world ''rain'' [rain_video, fog_video]) = [rain_video]"
    by (simp add: demo_scores top_score_matches_def best_score_def)
  have r0: "reset_recommendation_states empty_session = empty_session"
    by (simp add: reset_recommendation_states_def empty_session_def)
  have avail: "available_videos [rain_video, fog_video] empty_session
      = ([rain_video, fog_video], empty_session)"
    by (simp add: available_videos_eq pool_empty_session) (simp add: empty_session_def)
  have wp: "weather_pick demo_world rain_video empty_session
          = ((t_listen_to_this, Some ''aaaaaaaaaaa''),
             empty_session\<lparr>recommended_music_original_indices := Some {index rain_video}\<rparr>)"
    by (simp add: weather_pick_def add_music_index_def rain_id opt_truthy_def Let_def)
      (simp add: rain_video_def rain_id music_done_def empty_session_def)
  have fm: "find_and_recommend_music demo_world 3 (JStr ''rain'') [rain_video, fog_video]
         (reset_recommendation_states empty_session)
       = Inr ((t_listen_to_this, Some ''aaaaaaaaaaa''),
              empty_session\<lparr>recommended_music_original_indices := Some {index rain_video}\<rparr>)"
    by (simp add: r0 find_and_recommend_music_def avail demo_scores top [unfolded demo_scores]
        choice_single Let_def wp)
  have a: "''rain'' \<noteq> []" by simp
  have ne: "[rain_video, fog_video] \<noteq> []" by simp
  from keyword_gets_random [OF a rain_not_corrected rain_no_city,
      where all_videos = "[rain_video, fog_video]" and st = empty_session and r = 3
        and w = demo_world and k = "''key''" and movie_poster_urls = "[]" and recommend_music = True
        and loaded_weather_codes = "[]"]
  have "process_query demo_world ''key'' 3 ''rain'' (map JStr default_location_names)
          [rain_video, fog_video] [] True [] empty_session
        = ([], Inr (empty_session\<lparr>result_text := t_random_song,
                 recommended_youtube_id := Some ''bbbbbbbbbbb'',
                 recommended_music_original_indices := Some {index fog_video}\<rparr>))"
    by (simp add: Let_def pool_empty_session choice_second_of_two r0)
      (simp add: fog_video_def fog_id opt_truthy_def)
  with rain_not_corrected rain_no_city top fm show ?thesis by simp
qed

text \<open>
  Claim C6 as amended. For a non-empty input that is neither a key of the
  correction table nor a known city name, \<open>process_query\<close> makes no weather lookup
  and recommends at random: with a catalogue that is not empty, the video is drawn
  from the entries whose index is not recommended yet (from all entries once every
  index is recommended), every such entry is the choice of some draw, its index is
  added to the recommended ones, and the text and the video id shown are those of
  that video. The keyword and the scores have no part in the outcome. With an empty
  catalogue the text says that the list is empty.
\<close>

theorem process_query_keyword_random:
  assumes "city_input \<noteq> []" and "MANUAL_CORRECTIONS city_input = None"
    and "JStr city_input \<notin> set location_names"
  shows "(all_videos \<noteq> [] \<longrightarrow>
           (let pool = not_yet_recommended all_videos st;
                v = choice r pool;
                y = extract_youtube_id w (url v)
            in v \<in> set pool
               \<and> (\<forall>u \<in> set pool. \<exists>r'. choice r' pool = u)
               \<and> process_query w k r city_input location_names all_videos movie_poster_urls
                    recommend_music loaded_weather_codes st
                  = ([], Inr ((reset_recommendation_states st)
                        \<lparr>result_text := (if opt_truthy y then t_random_song else t_no_id_retry),
                         recommended_youtube_id := (if opt_truthy y then y else None),
                         recommended_music_original_indices :=
                           Some (insert (index v) (kept_indices all_videos st))\<rparr>))))
       \<and> (all_videos = [] \<longrightarrow>
            process_query w k r city_input location_names all_videos movie_poster_urls
              recommend_music loaded_weather_codes st
            = ([], Inr ((reset_recommendation_states st)\<lparr>result_text := t_music_list_empty_random\<rparr>)))"
  using assms by (rule keyword_gets_random)

text \<open>
  With \<open>rain_video\<close> recommended already and the default list of city names, the
  keyword \<open>rain\<close> gets \<open>fog_video\<close>, the one entry not recommended yet.
\<close>

theorem process_query_keyword_random_witness:
  "not_yet_recommended [rain_video, fog_video] rain_heard = [fog_video]
   \<and> process_query demo_world ''key'' 3 ''rain'' (map JStr default_location_names)
        [rain_video, fog_video] [] True [] rain_heard
     = ([], Inr (rain_heard\<lparr>result_text := t_random_song,
                   recommended_youtube_id := Some ''bbbbbbbbbbb'',
                   recommended_music_original_indices := Some {1, 0}\<rparr>))"
proof -
  have a: "''rain'' \<noteq> []" by simp
  from process_query_keyword_random [OF a rain_not_corrected rain_no_city,
      where all_videos = "[rain_video, fog_video]" and st = rain_heard and r = 3
        and w = demo_world and k = "''key''" and movie_poster_urls = "[]" and recommend_music = True
        and loaded_weather_codes = "[]"]
  have "process_query demo_world ''key'' 3 ''rain'' (map JStr default_location_names)
        [rain_video, fog_video] [] True [] rain_heard
     = ([], Inr (rain_heard\<lparr>result_text := t_random_song,
                   recommended_youtube_id := Some ''bbbbbbbbbbb'',
                   recommended_music_original_indices := Some {1, 0}\<rparr>))"
    by (simp add: Let_def pool_rain_heard choice_single)
      (simp add: fog_video_def fog_id opt_truthy_def reset_recommendation_states_def rain_heard_def)
  with pool_rain_heard(1) show ?thesis by simp
qed

subsection \<open>Video identifiers\<close>

text \<open>The index \<open>[1]\<close> of the first fall-back branch is in range.\<close>

lemma starts_with_append: "starts_with p s \<longleftrightarrow> (\<exists>t. s = p @ t)"
  by (induction p s rule: starts_with.induct) auto

lemma contains_append: "contains sub s \<longleftrightarrow> (\<exists>a b. s = a @ sub @ b)"
proof (induction s)
  case Nil
  then show ?case by auto
next
  case (Cons c cs)
  show ?case
  proof
    assume "contains sub (c # cs)"
    then consider "starts_with sub (c # cs)" | "contains sub cs" by auto
    then show "\<exists>a b. c # cs = a @ sub @ b"
    proof cases
      case 1
      then obtain t where "c # cs = sub @ t" by (auto simp: starts_with_append)
      then have "c # cs = [] @ sub @ t" by simp
      then show ?thesis by blast
    next
      case 2
      with Cons.IH obtain a b where "cs = a @ sub @ b" by blast
      then have "c # cs = (c # a) @ sub @ b" by simp
      then show ?thesis by blast
    qed
  next
    assume "\<exists>a b. c # cs = a @ sub @ b"
    then obtain a b where ab: "c # cs = a @ sub @ b" by blast
    show "contains sub (c # cs)"
    proof (cases a)
      case Nil
      with ab have "starts_with sub (c # cs)" by (auto simp: starts_with_append)
      then show ?thesis by simp
    next
      case (Cons x a')
      with ab have "cs = a' @ sub @ b" by simp
      with Cons.IH have "contains sub cs" by blast
      then show ?thesis by simp
    qed
  qed
qed

lemma split_from_nonempty: "split_from sep k cur s \<noteq> []"
  by (induction sep k cur s rule: split_from.induct) auto

lemma split_from_two:
  "contains sep s \<Longrightarrow> sep \<noteq> [] \<Longrightarrow> 1 < length (split_from sep 0 cur s)"
proof (induction s arbitrary: cur)
  case Nil
  then show ?case by simp
next
  case (Cons c cs)
  show ?case
  proof (cases "starts_with sep (c # cs)")
    case True
    have "split_from sep (length sep - 1) [] cs \<noteq> []" by (rule split_from_nonempty)
    then have "0 < length (split_from sep (length sep - 1) [] cs)" by simp
    with True show ?thesis by simp
  next
    case False
    with Cons.prems have "contains sep cs" by simp
    with Cons.IH Cons.prems(2) have "1 < length (split_from sep 0 (c # cur) cs)" by blast
    with False show ?thesis by simp
  qed
qed

lemma split_has_second:
  assumes "contains ''youtube.com/watch?v='' u"
  shows "1 < length (py_split ''v='' u)"
proof -
  from assms obtain a b where "u = a @ ''youtube.com/watch?v='' @ b"
    by (auto simp: contains_append)
  then have "u = (a @ ''youtube.com/watch?'') @ ''v='' @ b" by simp
  then have "contains ''v='' u" unfolding contains_append by blast
  then show ?thesis unfolding py_split_def by (rule split_from_two) simp
qed

text \<open>The two patterns on the URL shapes.\<close>

lemma starts_with_set: "starts_with p s \<Longrightarrow> set p \<subseteq> set s"
  by (induction p s rule: starts_with.induct) auto

lemma id_char_not: "\<not> id_char CHR ''=''" "\<not> id_char CHR ''/''"
  by (simp_all add: id_char_def)

lemma match_id_at_id_chars:
  assumes "list_all id_char s"
  shows "match_id_at s = None"
proof -
  have "\<not> starts_with p s" if "p \<in> set id_prefixes" for p
  proof
    assume "starts_with p s"
    then have sub: "set p \<subseteq> set s" by (rule starts_with_set)
    from that have "CHR ''='' \<in> set p \<or> CHR ''/'' \<in> set p"
      by (auto simp: id_prefixes_def)
    with sub have "CHR ''='' \<in> set s \<or> CHR ''/'' \<in> set s" by blast
    with assms show False by (auto simp: list_all_iff id_char_not)
  qed
  then show ?thesis
    by (simp add: match_id_at_def id_prefixes_def Let_def)
qed

lemma re_search_id_chars: "list_all id_char s \<Longrightarrow> re_search match_id_at s = None"
  by (induction s) (simp_all add: match_id_at_id_chars)

lemma match_id_at_length: "match_id_at s = Some g \<Longrightarrow> length g = 11"
  by (auto simp: match_id_at_def id_prefixes_def Let_def split: if_splits)

lemma re_search_Some: "re_search m u = Some g \<Longrightarrow> \<exists>s. m s = Some g"
  by (induction u) (auto split: option.splits)

lemma take_id: "length ident = 11 \<Longrightarrow> take 11 (ident @ rest) = ident"
  by simp

lemma watch_shape:
  assumes "length ident = 11" "list_all id_char ident"
  shows "re_search match_id_at (''https://www.youtube.com/watch?v='' @ ident @ rest) = Some ident"
  using assms by (simp add: match_id_at_def id_prefixes_def)

lemma short_shape:
  assumes "length ident = 11" "list_all id_char ident"
  shows "re_search match_id_at (''https://youtu.be/'' @ ident @ rest) = Some ident"
  using assms by (simp add: match_id_at_def id_prefixes_def)

lemma embed_shape:
  assumes "length ident = 11" "list_all id_char ident"
  shows "re_search match_id_at (''https://www.youtube.com/embed/'' @ ident @ rest) = Some ident"
  using assms by (simp add: match_id_at_def id_prefixes_def)

lemma live_shape:
  assumes "length ident = 11" "list_all id_char ident"
  shows "re_search match_id_at (''https://www.youtube.com/live/'' @ ident @ rest) = Some ident"
  using assms by (simp add: match_id_at_def id_prefixes_def)


lemma digit_is_id_char: "digit_char c \<Longrightarrow> id_char c"
  by (auto simp: digit_char_def id_char_def)

lemma id_char_is_ascii: "id_char c \<Longrightarrow> is_ascii c"
  by (auto simp: id_char_def is_ascii_def)

lemma digit_run_ascii:
  assumes "list_all digit_char ds" and "ident \<noteq> []" and "\<not> digit_char (hd ident)"
    and "is_ascii (hd ident)"
  shows "digit_run w (ds @ ident) = (map (\<lambda>c. [c]) ds, ident)"
  using assms
proof (induction ds)
  case Nil
  then show ?case by (cases ident) (simp_all add: digit_run.simps)
next
  case (Cons d ds)
  then show ?case by (simp add: digit_run.simps)
qed

lemma usercontent_shape:
  assumes len: "length ident = 11" and idc: "list_all id_char ident"
    and ds: "ds \<noteq> []" "list_all digit_char ds" and nd: "\<not> digit_char (hd ident)"
  shows "extract_youtube_id w (''http://googleusercontent.com/youtube.com/'' @ ds @ ident) = Some ident"
proof -
  from len have ne: "ident \<noteq> []" by auto
  from ds(2) idc have "list_all id_char (ds @ ident)"
    by (auto simp: list_all_iff digit_is_id_char)
  then have tail: "re_search match_id_at (ds @ ident) = None"
    by (rule re_search_id_chars)
  have primary: "re_search match_id_at (''http://googleusercontent.com/youtube.com/'' @ ds @ ident) = None"
    by (simp add: tail match_id_at_def id_prefixes_def)
  from ne idc have asc: "is_ascii (hd ident)"
    by (cases ident) (auto simp: id_char_is_ascii)
  from ds(2) ne nd asc have run: "digit_run w (ds @ ident) = (map (\<lambda>c. [c]) ds, ident)"
    by (rule digit_run_ascii)
  from idc have ti: "takeWhile id_char ident = ident"
    by (simp add: list_all_iff)
  have secondary: "re_search (match_usercontent_at w)
      (''http://googleusercontent.com/youtube.com/'' @ ds @ ident) = Some ident"
    by (simp add: match_usercontent_at_def run ti ds(1) ne)
  from primary secondary show ?thesis
    by (simp add: extract_youtube_id_def)
qed

text \<open>
  Claim C4 says that on every supported URL shape \<open>extract_youtube_id\<close> returns the
  same identifier of eleven characters, and that every result other than \<open>None\<close>
  has length 11. Both fail. For the identifier \<open>9bZkp7q19f0\<close> the \<open>watch?v=\<close> shape
  returns it, and the \<open>googleusercontent\<close> shape returns \<open>bZkp7q19f0\<close>, of length
  10: the greedy \<open>\d+\<close> of the second pattern takes the leading digit of the
  identifier. And the fall-back branches return whatever stands between their
  separators: \<open>abc\<close> for \<open>watch?v=abc\<close>.
\<close>

theorem extract_youtube_id_counterexample:
  "extract_youtube_id demo_world ''https://www.youtube.com/watch?v=9bZkp7q19f0'' = Some ''9bZkp7q19f0''
   \<and> extract_youtube_id demo_world ''http://googleusercontent.com/youtube.com/09bZkp7q19f0'' = Some ''bZkp7q19f0''
   \<and> \<not> (case extract_youtube_id demo_world ''http://googleusercontent.com/youtube.com/09bZkp7q19f0'' of
            None \<Rightarrow> True | Some g \<Rightarrow> length g = 11)
   \<and> extract_youtube_id demo_world ''https://www.youtube.com/watch?v=abc'' = Some ''abc''
   \<and> \<not> (case extract_youtube_id demo_world ''https://www.youtube.com/watch?v=abc'' of
            None \<Rightarrow> True | Some g \<Rightarrow> length g = 11)"
proof -
  have 1: "extract_youtube_id demo_world ''https://www.youtube.com/watch?v=9bZkp7q19f0'' = Some ''9bZkp7q19f0''"
    by (simp add: extract_youtube_id_def match_id_at_def id_prefixes_def id_char_def)
  have 2: "extract_youtube_id demo_world ''http://googleusercontent.com/youtube.com/09bZkp7q19f0'' = Some ''bZkp7q19f0''"
    by (simp add: extract_youtube_id_def match_id_at_def id_prefixes_def match_usercontent_at_def
        digit_run.simps is_ascii_def id_char_def digit_char_def)
  have 3: "extract_youtube_id demo_world ''https://www.youtube.com/watch?v=abc'' = Some ''abc''"
    by (simp add: extract_youtube_id_def match_id_at_def id_prefixes_def match_usercontent_at_def
        id_char_def digit_char_def py_split_def)
  show ?thesis by (simp add: 1 2 3)
qed

text \<open>
  Claim C4 as amended. For an identifier of eleven characters of \<open>[a-zA-Z0-9_-]\<close>,
  the shapes \<open>watch?v=\<close>, \<open>youtu.be/\<close>, \<open>embed/\<close> and \<open>live/\<close> return it, whatever
  follows it in the URL, and the \<open>googleusercontent\<close> shape returns it when the
  identifier does not begin with a digit and ends the URL. Every result of the
  first pattern has length exactly 11. (The function is a pure function of the URL,
  so a repeated extraction returns the same result.)
\<close>

theorem extract_youtube_id_shapes:
  assumes "length ident = 11" and "list_all id_char ident"
  shows "extract_youtube_id w (''https://www.youtube.com/watch?v='' @ ident @ rest) = Some ident
    \<and> extract_youtube_id w (''https://youtu.be/'' @ ident @ rest) = Some ident
    \<and> extract_youtube_id w (''https://www.youtube.com/embed/'' @ ident @ rest) = Some ident
    \<and> extract_youtube_id w (''https://www.youtube.com/live/'' @ ident @ rest) = Some ident
    \<and> (ds \<noteq> [] \<and> list_all digit_char ds \<and> \<not> digit_char (hd ident)
        \<longrightarrow> extract_youtube_id w (''http://googleusercontent.com/youtube.com/'' @ ds @ ident) = Some ident)
    \<and> (\<forall>u g. re_search match_id_at u = Some g \<longrightarrow> extract_youtube_id w u = Some g \<and> length g = 11)"
proof -
  have last: "extract_youtube_id w u = Some g \<and> length g = 11" if h: "re_search match_id_at u = Some g" for u g
  proof
    from h show "extract_youtube_id w u = Some g"
      unfolding extract_youtube_id_def by simp
    from h obtain s where "match_id_at s = Some g"
      by (auto dest: re_search_Some)
    then show "length g = 11" by (rule match_id_at_length)
  qed
  show ?thesis
  proof (intro conjI impI allI)
    show "extract_youtube_id w (''https://www.youtube.com/watch?v='' @ ident @ rest) = Some ident"
      using last [OF watch_shape [OF assms, of rest]] by (rule conjunct1)
    show "extract_youtube_id w (''https://youtu.be/'' @ ident @ rest) = Some ident"
      using last [OF short_shape [OF assms, of rest]] by (rule conjunct1)
    show "extract_youtube_id w (''https://www.youtube.com/embed/'' @ ident @ rest) = Some ident"
      using last [OF embed_shape [OF assms, of rest]] by (rule conjunct1)
    show "extract_youtube_id w (''https://www.youtube.com/live/'' @ ident @ rest) = Some ident"
      using last [OF live_shape [OF assms, of rest]] by (rule conjunct1)
  next
    assume c: "ds \<noteq> [] \<and> list_all digit_char ds \<and> \<not> digit_char (hd ident)"
    then have "ds \<noteq> []" "list_all digit_char ds" "\<not> digit_char (hd ident)"
      by blast+
    then show "extract_youtube_id w (''http://googleusercontent.com/youtube.com/'' @ ds @ ident) = Some ident"
      by (rule usercontent_shape [OF assms])
  next
    fix u g
    assume "re_search match_id_at u = Some g"
    then show "extract_youtube_id w u = Some g" using last by blast
  next
    fix u g
    assume "re_search match_id_at u = Some g"
    then show "length g = 11" using last by blast
  qed
qed

theorem extract_youtube_id_shapes_witness:
  "extract_youtube_id demo_world ''https://www.youtube.com/watch?v=dQw4w9WgXcQ&t=1'' = Some ''dQw4w9WgXcQ''
   \<and> extract_youtube_id demo_world ''https://youtu.be/dQw4w9WgXcQ&t=1'' = Some ''dQw4w9WgXcQ''
   \<and> extract_youtube_id demo_world ''http://googleusercontent.com/youtube.com/42dQw4w9WgXcQ'' = Some ''dQw4w9WgXcQ''"
proof -
  have a: "length ''dQw4w9WgXcQ'' = 11" by simp
  have b: "list_all id_char ''dQw4w9WgXcQ''" by (simp add: id_char_def)
  have c: "''42'' \<noteq> [] \<and> list_all digit_char ''42'' \<and> \<not> digit_char (hd ''dQw4w9WgXcQ'')"
    by (simp add: digit_char_def)
  from extract_youtube_id_shapes [OF a b, where w = demo_world and rest = "''&t=1''" and ds = "''42''"] c show ?thesis
    by simp
qed

subsection \<open>No repetition until the pool is exhausted\<close>



subsection \<open>Ties between the best matches\<close>

text \<open>
  Claim C2 says that whenever more than one available video attains the maximal
  score, the video is drawn from exactly the videos with that score. It is not when
  the maximal score is below 30. Against \<open>abcdefghij\<close> the videos \<open>tie_video_a\<close>
  and \<open>tie_video_b\<close> both score 10, the maximum, and \<open>low_video\<close> scores 0; no
  video reaches 30, the function falls back to the random recommendation over all
  three, and the draw 2 selects \<open>low_video\<close>.
\<close>

theorem top_score_selection_counterexample:
  "video_score demo_world ''abcdefghij'' tie_video_a = 10
   \<and> video_score demo_world ''abcdefghij'' tie_video_b = 10
   \<and> video_score demo_world ''abcdefghij'' low_video = 0
   \<and> not_yet_recommended [tie_video_a, tie_video_b, low_video] empty_session
       = [tie_video_a, tie_video_b, low_video]
   \<and> find_and_recommend_music demo_world 2 (JStr ''abcdefghij'')
         [tie_video_a, tie_video_b, low_video] empty_session
       = Inr ((t_random_song, extract_youtube_id demo_world (url low_video)),
              empty_session\<lparr>recommended_music_original_indices := Some {index low_video}\<rparr>)
   \<and> extract_youtube_id demo_world (url low_video) = Some ''fffffffffff''"
proof -
  have ne: "[tie_video_a, tie_video_b, low_video] \<noteq> []" by simp
  note pool = pool_fresh [OF empty_session_fresh, of "[tie_video_a, tie_video_b, low_video]"]
  have "find_and_recommend_music demo_world 2 (JStr ''abcdefghij'')
         [tie_video_a, tie_video_b, low_video] empty_session
       = Inr ((t_random_song, extract_youtube_id demo_world (url low_video)),
              empty_session\<lparr>recommended_music_original_indices := Some {index low_video}\<rparr>)"
    by (simp add: find_and_recommend_music_eq [OF ne] Let_def pool demo_video_scores
        choice_third_of_three random_pick_eq demo_video_ids opt_truthy_def)
  then show ?thesis
    by (simp add: demo_video_scores pool demo_video_ids)
qed

text \<open>
  Claim C2 as amended. When the maximal score among the available videos (those not
  recommended yet) is at least 30, the candidates handed to \<open>random.choice\<close> are
  exactly the available videos whose score equals that maximum: the list is not
  empty, the selected video is one of them, each of them is the choice of some
  draw, and the outcome is that video's id with its index added to the recommended
  set.
\<close>

theorem top_score_selection:
  assumes "all_videos \<noteq> []"
    and "\<exists>v \<in> set (not_yet_recommended all_videos st). 30 \<le> video_score w d v"
  shows "let avail = not_yet_recommended all_videos st;
             top = filter (\<lambda>v. video_score w d v = Max (video_score w d ` set avail)) avail;
             v = choice r top;
             y = extract_youtube_id w (url v)
         in top \<noteq> [] \<and> v \<in> set top
            \<and> (\<forall>u \<in> set top. \<exists>r'. choice r' top = u)
            \<and> top_score_matches (matched_with_score w d avail) = top
            \<and> find_and_recommend_music w r (JStr d) all_videos st
              = Inr ((if opt_truthy y then (t_listen_to_this, y)
                      else (t_listen_to_this @ t_sorry_no_id, None)),
                     st\<lparr>recommended_music_original_indices :=
                          Some (insert (index v) (kept_indices all_videos st))\<rparr>)"
  using assms by (rule weather_matched_selection)

text \<open>
  \<open>rain_video\<close> and \<open>storm_video\<close> tie at 100 against \<open>rain\<close>; the draw 3 selects
  the second of the two.
\<close>

theorem top_score_selection_witness:
  "(\<exists>v \<in> set (not_yet_recommended [rain_video, fog_video, storm_video] empty_session).
       30 \<le> video_score demo_world ''rain'' v)
   \<and> top_score_matches (matched_with_score demo_world ''rain''
         (not_yet_recommended [rain_video, fog_video, storm_video] empty_session))
       = [rain_video, storm_video]
   \<and> find_and_recommend_music demo_world 3 (JStr ''rain'') [rain_video, fog_video, storm_video]
         empty_session
       = Inr ((t_listen_to_this, Some ''ccccccccccc''),
              empty_session\<lparr>recommended_music_original_indices := Some {2}\<rparr>)"
proof -
  have ne: "[rain_video, fog_video, storm_video] \<noteq> []" by simp
  note pool = pool_fresh [OF empty_session_fresh, of "[rain_video, fog_video, storm_video]"]
  have h: "\<exists>v \<in> set (not_yet_recommended [rain_video, fog_video, storm_video] empty_session).
       30 \<le> video_score demo_world ''rain'' v"
    by (simp add: pool demo_video_scores)
  have top: "filter (\<lambda>v. video_score demo_world ''rain'' v
                 = Max (video_score demo_world ''rain'' ` set [rain_video, fog_video, storm_video]))
               [rain_video, fog_video, storm_video]
             = [rain_video, storm_video]"
    by (simp add: demo_video_scores)
  note T = top_score_selection [OF ne h, of 3, unfolded Let_def pool top]
  from T have tm: "top_score_matches (matched_with_score demo_world ''rain''
         [rain_video, fog_video, storm_video]) = [rain_video, storm_video]"
    by blast
  from T have "find_and_recommend_music demo_world 3 (JStr ''rain'') [rain_video, fog_video, storm_video]
         empty_session
       = Inr ((if opt_truthy (extract_youtube_id demo_world (url (choice 3 [rain_video, storm_video])))
               then (t_listen_to_this, extract_youtube_id demo_world (url (choice 3 [rain_video, storm_video])))
               else (t_listen_to_this @ t_sorry_no_id, None)),
              empty_session\<lparr>recommended_music_original_indices :=
                 Some (insert (index (choice 3 [rain_video, storm_video])) {})\<rparr>)"
    by blast
  then have fm: "find_and_recommend_music demo_world 3 (JStr ''rain'') [rain_video, fog_video, storm_video]
         empty_session
       = Inr ((t_listen_to_this, Some ''ccccccccccc''),
              empty_session\<lparr>recommended_music_original_indices := Some {2}\<rparr>)"
    by (simp add: choice_second_of_two demo_video_ids demo_video_indices opt_truthy_def)
  from h tm fm show ?thesis
    by (simp only: pool)
qed

subsection \<open>The threshold of 30 and the fall-back\<close>

text \<open>
  Claim C10. Over a catalogue that is not empty, \<open>find_and_recommend_music\<close>
  selects by the weather only a video whose score is at least 30: when some
  available video reaches 30, the video selected is an available one with a score
  of at least 30; and when no available video reaches 30, the function falls back
  to a random recommendation over all available videos, each of them being the
  choice of some draw, so that a video is recommended in either case.
\<close>

theorem threshold_and_fallback:
  assumes "all_videos \<noteq> []"
  shows "let avail = not_yet_recommended all_videos st;
             kept = kept_indices all_videos st
         in ((\<exists>v \<in> set avail. 30 \<le> video_score w d v) \<longrightarrow>
               (\<exists>v \<in> set avail. 30 \<le> video_score w d v
                  \<and> find_and_recommend_music w r (JStr d) all_videos st
                    = Inr ((if opt_truthy (extract_youtube_id w (url v))
                            then (t_listen_to_this, extract_youtube_id w (url v))
                            else (t_listen_to_this @ t_sorry_no_id, None)),
                           st\<lparr>recommended_music_original_indices := Some (insert (index v) kept)\<rparr>)))
            \<and> ((\<forall>v \<in> set avail. video_score w d v < 30) \<longrightarrow>
                 choice r avail \<in> set avail
                 \<and> (\<forall>u \<in> set avail. \<exists>r'. choice r' avail = u)
                 \<and> find_and_recommend_music w r (JStr d) all_videos st
                   = Inr ((if opt_truthy (extract_youtube_id w (url (choice r avail)))
                           then (t_random_song, extract_youtube_id w (url (choice r avail)))
                           else (t_no_id_retry, None)),
                          st\<lparr>recommended_music_original_indices :=
                               Some (insert (index (choice r avail)) kept)\<rparr>))"
proof -
  let ?avail = "not_yet_recommended all_videos st"
  let ?kept = "kept_indices all_videos st"
  have a: "\<exists>v \<in> set ?avail. 30 \<le> video_score w d v
              \<and> find_and_recommend_music w r (JStr d) all_videos st
                = Inr ((if opt_truthy (extract_youtube_id w (url v))
                        then (t_listen_to_this, extract_youtube_id w (url v))
                        else (t_listen_to_this @ t_sorry_no_id, None)),
                       st\<lparr>recommended_music_original_indices := Some (insert (index v) ?kept)\<rparr>)"
    if h: "\<exists>v \<in> set ?avail. 30 \<le> video_score w d v"
  proof -
    let ?top = "filter (\<lambda>v. video_score w d v = Max (video_score w d ` set ?avail)) ?avail"
    let ?v = "choice r ?top"
    from weather_matched_selection [OF assms h, of r]
    have mem: "?v \<in> set ?top"
      and fm: "find_and_recommend_music w r (JStr d) all_videos st
                = Inr ((if opt_truthy (extract_youtube_id w (url ?v))
                        then (t_listen_to_this, extract_youtube_id w (url ?v))
                        else (t_listen_to_this @ t_sorry_no_id, None)),
                       st\<lparr>recommended_music_original_indices := Some (insert (index ?v) ?kept)\<rparr>)"
      unfolding Let_def by blast+
    from mem have "?v \<in> set ?avail" and "video_score w d ?v = Max (video_score w d ` set ?avail)"
      by auto
    with best_score_eq(2) [OF h] have "?v \<in> set ?avail" "30 \<le> video_score w d ?v" by auto
    with fm show ?thesis by blast
  qed
  have b: "choice r ?avail \<in> set ?avail
           \<and> (\<forall>u \<in> set ?avail. \<exists>r'. choice r' ?avail = u)
           \<and> find_and_recommend_music w r (JStr d) all_videos st
             = Inr ((if opt_truthy (extract_youtube_id w (url (choice r ?avail)))
                     then (t_random_song, extract_youtube_id w (url (choice r ?avail)))
                     else (t_no_id_retry, None)),
                    st\<lparr>recommended_music_original_indices :=
                         Some (insert (index (choice r ?avail)) ?kept)\<rparr>)"
    if h: "\<forall>v \<in> set ?avail. video_score w d v < 30"
    using fallback_selection [OF assms h, of r] unfolding Let_def by blast
  from a b show ?thesis unfolding Let_def by blast
qed

text \<open>
  Against \<open>fog\<close> the one match is \<open>fog_video\<close>; against \<open>xyz\<close> nothing matches and
  the draw 3 selects \<open>fog_video\<close> at random.
\<close>

theorem threshold_and_fallback_witness:
  "find_and_recommend_music demo_world 3 (JStr ''fog'') [rain_video, fog_video] empty_session
     = Inr ((t_listen_to_this, Some ''bbbbbbbbbbb''),
            empty_session\<lparr>recommended_music_original_indices := Some {1}\<rparr>)
   \<and> find_and_recommend_music demo_world 3 (JStr ''xyz'') [rain_video, fog_video] empty_session
     = Inr ((t_random_song, Some ''bbbbbbbbbbb''),
            empty_session\<lparr>recommended_music_original_indices := Some {1}\<rparr>)"
proof -
  have ne: "[rain_video, fog_video] \<noteq> []" by simp
  note pool = pool_fresh [OF empty_session_fresh, of "[rain_video, fog_video]"]
  have some: "\<exists>v \<in> set [rain_video, fog_video]. 30 \<le> video_score demo_world ''fog'' v"
    by (simp add: demo_video_scores)
  from threshold_and_fallback [OF ne, of empty_session demo_world "''fog''" 3] some
  obtain v where v: "v \<in> set [rain_video, fog_video]" "30 \<le> video_score demo_world ''fog'' v"
    and fm: "find_and_recommend_music demo_world 3 (JStr ''fog'') [rain_video, fog_video] empty_session
      = Inr ((if opt_truthy (extract_youtube_id demo_world (url v))
              then (t_listen_to_this, extract_youtube_id demo_world (url v))
              else (t_listen_to_this @ t_sorry_no_id, None)),
             empty_session\<lparr>recommended_music_original_indices := Some (insert (index v) {})\<rparr>)"
    unfolding Let_def pool by blast
  from v have "v = fog_video" by (auto simp: demo_video_scores)
  with fm have 1: "find_and_recommend_music demo_world 3 (JStr ''fog'') [rain_video, fog_video] empty_session
     = Inr ((t_listen_to_this, Some ''bbbbbbbbbbb''),
            empty_session\<lparr>recommended_music_original_indices := Some {1}\<rparr>)"
    by (simp add: demo_video_ids demo_video_indices opt_truthy_def)
  have none: "\<forall>v \<in> set [rain_video, fog_video]. video_score demo_world ''xyz'' v < 30"
    by (simp add: demo_video_scores)
  from threshold_and_fallback [OF ne, of empty_session demo_world "''xyz''" 3] none
  have "find_and_recommend_music demo_world 3 (JStr ''xyz'') [rain_video, fog_video] empty_session
     = Inr ((if opt_truthy (extract_youtube_id demo_world (url (choice 3 [rain_video, fog_video])))
             then (t_random_song, extract_youtube_id demo_world (url (choice 3 [rain_video, fog_video])))
             else (t_no_id_retry, None)),
            empty_session\<lparr>recommended_music_original_indices :=
               Some (insert (index (choice 3 [rain_video, fog_video])) {})\<rparr>)"
    unfolding Let_def pool by blast
  then have 2: "find_and_recommend_music demo_world 3 (JStr ''xyz'') [rain_video, fog_video] empty_session
     = Inr ((t_random_song, Some ''bbbbbbbbbbb''),
            empty_session\<lparr>recommended_music_original_indices := Some {1}\<rparr>)"
    by (simp add: choice_second_of_two demo_video_ids demo_video_indices opt_truthy_def)
  from 1 2 show ?thesis by simp
qed

subsection \<open>The status of a forecast\<close>

text \<open>
  Claim C7 says that \<open>get_weather_data\<close> returns a result with status \<open>success\<close> if
  and only if the payload has a non-empty \<open>records\<close>, \<open>location\<close> array whose first
  location has a \<open>weatherElement\<close> named \<open>Wx\<close> with at least one time entry whose
  \<open>startTime\<close> parses. The payload \<open>bare_payload\<close> has all of that, and its one
  time entry has no \<open>parameter\<close>: line 168 raises \<open>KeyError\<close>, the handler of line
  238 catches it, and the result has status \<open>error\<close>.
\<close>

theorem get_weather_data_status_counterexample:
  "requests_get_json bare_world (api_url @ ''key'' @ ''&locationName='' @ ''Taipei'')
     = Inr bare_payload
   \<and> has_wx_forecast bare_world bare_payload
   \<and> get_weather_data bare_world ''key'' ''Taipei''
       = error_result (t_processing @ ''Taipei'' @ t_error_while
                       @ exn_str bare_world (KeyError ''parameter''))
   \<and> map_of (get_weather_data bare_world ''key'' ''Taipei'') ''status'' = Some (JStr ''error'')"
proof -
  have p: "has_wx_forecast bare_world bare_payload"
    by (simp add: has_wx_forecast_def bare_payload_def wx_with_time_def parses_def
        bare_world_sel may_morning_def)
  have g: "get_weather_data bare_world ''key'' ''Taipei''
       = error_result (t_processing @ ''Taipei'' @ t_error_while
                       @ exn_str bare_world (KeyError ''parameter''))"
    by (simp add: get_weather_data_def bare_world_fails)
  from p g show ?thesis
    by (simp add: bare_world_sel error_result_status)
qed

text \<open>
  Claim C7, amended: \<open>get_weather_data\<close> returns a result with status \<open>success\<close>
  only if the request returned a payload that has a \<open>records\<close> object with a
  non-empty \<open>location\<close> array whose first location has a \<open>weatherElement\<close> array
  with an element named \<open>Wx\<close>, which has a \<open>time\<close> array with at least one entry
  whose \<open>startTime\<close> parses; when the request returns no such payload the status is
  \<open>error\<close>; and every result has the status \<open>success\<close> or \<open>error\<close> and a
  \<open>display_text\<close> that is a string.
\<close>

theorem get_weather_data_status:
  "(map_of (get_weather_data w k c) ''status'' = Some (JStr ''success'')
      \<longrightarrow> (\<exists>data. requests_get_json w (api_url @ k @ ''&locationName='' @ c) = Inr data
                 \<and> has_wx_forecast w data))
   \<and> ((\<forall>data. requests_get_json w (api_url @ k @ ''&locationName='' @ c) = Inr data
              \<longrightarrow> \<not> has_wx_forecast w data)
      \<longrightarrow> map_of (get_weather_data w k c) ''status'' = Some (JStr ''error''))
   \<and> (map_of (get_weather_data w k c) ''status'' = Some (JStr ''success'')
      \<or> map_of (get_weather_data w k c) ''status'' = Some (JStr ''error''))
   \<and> (\<exists>t. map_of (get_weather_data w k c) ''display_text'' = Some (JStr t))"
proof -
  from get_weather_data_cases [of w k c] show ?thesis
  proof
    assume "\<exists>t. get_weather_data w k c = error_result t"
    then obtain t where "get_weather_data w k c = error_result t" ..
    then show ?thesis by (simp add: error_result_status)
  next
    assume "\<exists>d. weather_try w k c = Inr d \<and> get_weather_data w k c = d
          \<and> map_of d ''status'' = Some (JStr ''success'')
          \<and> (\<exists>t. map_of d ''display_text'' = Some (JStr t))"
    then obtain d where d: "weather_try w k c = Inr d" "get_weather_data w k c = d"
      "map_of d ''status'' = Some (JStr ''success'')"
      "\<exists>t. map_of d ''display_text'' = Some (JStr t)" by blast
    from success_needs_forecast [OF d(1) d(3)]
    have h: "\<exists>data. requests_get_json w (api_url @ k @ ''&locationName='' @ c) = Inr data
               \<and> has_wx_forecast w data" .
    from h d(2,3,4) show ?thesis by auto
  qed
qed


theorem get_weather_data_status_witness:
  "map_of (get_weather_data sunny_world ''key'' ''Taipei'') ''status'' = Some (JStr ''success'')
   \<and> has_wx_forecast sunny_world sunny_payload
   \<and> requests_get_json nameless_world (api_url @ ''key'' @ ''&locationName='' @ ''Taipei'')
       = Inr (JObj [(''records'', JObj [(''location'', JArr [JObj []])])])
   \<and> \<not> has_wx_forecast nameless_world (JObj [(''records'', JObj [(''location'', JArr [JObj []])])])
   \<and> map_of (get_weather_data nameless_world ''key'' ''Taipei'') ''status'' = Some (JStr ''error'')"
proof -
  have s: "map_of (get_weather_data sunny_world ''key'' ''Taipei'') ''status''
             = Some (JStr ''success'')"
    by (simp add: get_weather_data_def sunny_world_succeeds)
  with get_weather_data_status [of sunny_world "''key''" "''Taipei''"]
  have f: "has_wx_forecast sunny_world sunny_payload"
    by (simp add: sunny_world_sel)
  have r: "requests_get_json nameless_world (api_url @ ''key'' @ ''&locationName='' @ ''Taipei'')
       = Inr (JObj [(''records'', JObj [(''location'', JArr [JObj []])])])"
    by (simp add: nameless_world_def demo_world_def)
  have n: "\<not> has_wx_forecast nameless_world
             (JObj [(''records'', JObj [(''location'', JArr [JObj []])])])"
    by (simp add: has_wx_forecast_def)
  from r n have "\<forall>data. requests_get_json nameless_world
                    (api_url @ ''key'' @ ''&locationName='' @ ''Taipei'') = Inr data
                  \<longrightarrow> \<not> has_wx_forecast nameless_world data"
    by simp
  with get_weather_data_status [of nameless_world "''key''" "''Taipei''"]
  have e: "map_of (get_weather_data nameless_world ''key'' ''Taipei'') ''status''
             = Some (JStr ''error'')"
    by blast
  from s f r n e show ?thesis by simp
qed

end
